theory Spec2Isabelle
  imports Complex_Main
begin

section \<open>Data model (shared/types.ts)\<close>

text \<open>
  The tab tree of the desktop application. A \<^verbatim>\<open>Tab\<close> of the source is one
  interface with optional fields; here its scalar fields form the record \<open>TabFields\<close>
  and the node itself is the datatype \<open>Tab\<close>, which adds the optional child array
  \<^verbatim>\<open>tabs\<close>. An optional field is an \<open>option\<close> (\<open>None\<close> is
  \<^verbatim>\<open>undefined\<close>).

  Grid dimensions, spans and the positions given by a caller are integer-valued numbers
  and are modelled as \<open>int\<close>. The position fields \<^verbatim>\<open>order\<close>,
  \<^verbatim>\<open>row\<close> and \<^verbatim>\<open>col\<close> are written by a division, so they range
  over \<open>number\<close>, which adds the two non-integer results a division by zero produces
  in JavaScript.
\<close>

datatype TabType = Terminal | Editor | Browser | Preview | Group

datatype number = Num int | NaN | Infinity

record TabFields =
  tab_id :: string
  name :: string
  type :: TabType
  command :: "string option option"
  cwd :: "string option"
  rows :: "int option"
  cols :: "int option"
  rowSizes :: "real list option"
  colSizes :: "real list option"
  order :: "number option"
  row :: "number option"
  col :: "number option"
  rowSpan :: "int option"
  colSpan :: "int option"
  createdAt :: string

datatype Tab = Tab (own: TabFields) (tabs: "Tab list option")

record Worktree =
  wt_id :: string
  wt_branch :: string
  wt_path :: string
  wt_tabs :: "Tab list"
  wt_createdAt :: string

record Workspace =
  ws_id :: string
  ws_name :: string
  ws_repoPath :: string
  ws_branch :: string
  worktrees :: "Worktree list"
  activeWorktreeId :: "string option"
  activeTabId :: "string option"
  ws_createdAt :: string
  updatedAt :: string

record WorkspaceConfig =
  workspaces :: "Workspace list"
  lastOpenedWorkspaceId :: "string option"
  activeWorkspaceId :: "string option"

record CreateTabInput =
  in_workspaceId :: string
  in_worktreeId :: string
  in_parentTabId :: "string option"
  in_name :: string
  in_type :: "TabType option"
  in_command :: "string option option"
  in_rows :: "int option"
  in_cols :: "int option"
  in_row :: "int option"
  in_col :: "int option"
  in_rowSpan :: "int option"
  in_colSpan :: "int option"

section \<open>JavaScript primitives used by the code\<close>

text \<open>Truthiness of an optional string (\<^verbatim>\<open>if (input.parentTabId)\<close>): defined and
  not empty. Truthiness of an optional integer (\<^verbatim>\<open>if (tab.cols)\<close>,
  \<^verbatim>\<open>x || 2\<close>): defined and not zero.\<close>

definition truthyStr :: "string option \<Rightarrow> bool" where
  "truthyStr s = (case s of None \<Rightarrow> False | Some v \<Rightarrow> v \<noteq> [])"

definition truthyNum :: "int option \<Rightarrow> bool" where
  "truthyNum n = (case n of None \<Rightarrow> False | Some v \<Rightarrow> v \<noteq> 0)"

definition orElse :: "int option \<Rightarrow> int \<Rightarrow> int" where
  "orElse n d = (case n of None \<Rightarrow> d | Some v \<Rightarrow> if v = 0 then d else v)"

text \<open>\<^verbatim>\<open>xs.findIndex(p)\<close>: the first index whose element satisfies \<open>p\<close>;
  \<open>None\<close> stands for \<^verbatim>\<open>-1\<close>.\<close>

fun findIndexFrom :: "nat \<Rightarrow> ('a \<Rightarrow> bool) \<Rightarrow> 'a list \<Rightarrow> nat option" where
  "findIndexFrom i p [] = None"
| "findIndexFrom i p (x # xs) = (if p x then Some i else findIndexFrom (Suc i) p xs)"

definition findIndex :: "('a \<Rightarrow> bool) \<Rightarrow> 'a list \<Rightarrow> nat option" where
  "findIndex p xs = findIndexFrom 0 p xs"

text \<open>\<^verbatim>\<open>xs.splice(i, 1)\<close> at an index inside the array removes that element.\<close>

definition spliceOut :: "nat \<Rightarrow> 'a list \<Rightarrow> 'a list" where
  "spliceOut i xs = take i xs @ drop (Suc i) xs"

text \<open>\<^verbatim>\<open>xs.splice(start, 0, x)\<close>: the start index is taken relative to the end
  of the array when it is negative, and is then clamped to \<open>[0, length]\<close>.\<close>

definition spliceStart :: "int \<Rightarrow> nat \<Rightarrow> nat" where
  "spliceStart start len =
     (if start < 0 then nat (max (int len + start) 0) else nat (min start (int len)))"

definition spliceIn :: "int \<Rightarrow> 'a \<Rightarrow> 'a list \<Rightarrow> 'a list" where
  "spliceIn start x xs =
     (let k = spliceStart start (length xs) in take k xs @ x # drop k xs)"

text \<open>\<^verbatim>\<open>Math.floor(index / cols)\<close> and \<^verbatim>\<open>index % cols\<close> for an array index
  and an integer \<open>cols\<close>. The remainder of JavaScript takes the sign of the dividend,
  which is never negative here.\<close>

definition floorDiv :: "nat \<Rightarrow> int \<Rightarrow> number" where
  "floorDiv index c =
     (if c = 0 then (if index = 0 then NaN else Infinity) else Num (int index div c))"

definition jsRem :: "nat \<Rightarrow> int \<Rightarrow> number" where
  "jsRem index c = (if c = 0 then NaN else Num (int index mod \<bar>c\<bar>))"

section \<open>Tree primitives (tab-helpers)\<close>

text \<open>\<^verbatim>\<open>tab.type === "group" && tab.tabs\<close>: the children the helpers descend into.\<close>

definition groupTabs :: "Tab \<Rightarrow> Tab list option" where
  "groupTabs tab = (if type (own tab) = Group then tabs tab else None)"

lemma groupTabs_size:
  "groupTabs tab = Some cs \<Longrightarrow> size_list size cs < size tab"
  by (cases tab) (auto simp: groupTabs_def split: if_splits)

function findTab :: "Tab list \<Rightarrow> string \<Rightarrow> Tab option" where
  "findTab [] tabId = None"
| "findTab (tab # rest) tabId =
     (if tab_id (own tab) = tabId then Some tab
      else case groupTabs tab of
        Some cs \<Rightarrow>
          (case findTab cs tabId of
             Some found \<Rightarrow> Some found
           | None \<Rightarrow> findTab rest tabId)
      | None \<Rightarrow> findTab rest tabId)"
  by pat_completeness auto
termination
  by (relation "measure (\<lambda>(ts, _). size_list size ts)") (auto dest: groupTabs_size)

definition setPosition :: "int \<Rightarrow> nat \<Rightarrow> Tab \<Rightarrow> Tab" where
  "setPosition c index tab =
     Tab ((own tab)\<lparr>order := Some (Num (int index)),
                       row := Some (floorDiv index c),
                       col := Some (jsRem index c)\<rparr>) (tabs tab)"

definition recalculateTabPositions :: "Tab list \<Rightarrow> int \<Rightarrow> Tab list" where
  "recalculateTabPositions ts c =
     map (\<lambda>(index, tab). setPosition c index tab) (zip [0..<length ts] ts)"

text \<open>\<^verbatim>\<open>removeTabRecursive\<close> mutates the array it is given and answers whether it
  removed something. The model returns the array after the call, or \<open>None\<close> for the
  answer \<^verbatim>\<open>false\<close>, in which case the source has changed nothing.
  \<open>removeNested\<close> is the \<^verbatim>\<open>for\<close> loop over the array.\<close>

function removeTabRecursive :: "Tab list \<Rightarrow> string \<Rightarrow> Tab list option"
  and removeNested :: "Tab list \<Rightarrow> string \<Rightarrow> Tab list option" where
  "removeTabRecursive ts tabId =
     (case findIndex (\<lambda>t. tab_id (own t) = tabId) ts of
        Some tabIndex \<Rightarrow> Some (spliceOut tabIndex ts)
      | None \<Rightarrow> removeNested ts tabId)"
| "removeNested [] tabId = None"
| "removeNested (tab # rest) tabId =
     (case groupTabs tab of
        Some cs \<Rightarrow>
          (case removeTabRecursive cs tabId of
             Some cs' \<Rightarrow>
               Some (Tab (own tab)
                       (Some (if truthyNum (cols (own tab))
                              then recalculateTabPositions cs' (the (cols (own tab)))
                              else cs')) # rest)
           | None \<Rightarrow> map_option ((#) tab) (removeNested rest tabId))
      | None \<Rightarrow> map_option ((#) tab) (removeNested rest tabId))"
  by pat_completeness auto
termination
  by (relation "measure (\<lambda>x. case x of Inl (ts, _) \<Rightarrow> 2 * size_list size ts + 1
                                      | Inr (ts, _) \<Rightarrow> 2 * size_list size ts)")
     (auto dest: groupTabs_size)

definition isValidParentTab :: "Tab option \<Rightarrow> bool" where
  "isValidParentTab tab = (case tab of None \<Rightarrow> False | Some t \<Rightarrow> type (own t) = Group)"

section \<open>The engine's environment\<close>

text \<open>
  Every operation receives the workspace object, mutates it in place and answers with
  a result object. The model passes the workspace in and returns it as the operation
  leaves it, together with the result and the configuration handed to
  \<^verbatim>\<open>configManager.write\<close> (\<open>None\<close> when no write is issued). The readings of
  the clock and the fresh identifier are parameters.
\<close>

datatype 'a Result = Success 'a | Failure string

record 'r Outcome =
  result :: 'r
  workspace :: Workspace
  written :: "WorkspaceConfig option"

text \<open>Modelled from the spec: the module \<^verbatim>\<open>config-manager\<close> is imported by the
  engine but is not part of the sources at hand. Following the specification's
  Persistence Gateway, \<^verbatim>\<open>read()\<close> returns the whole stored configuration (the
  parameter \<open>config\<close> of each operation) and \<^verbatim>\<open>write\<close> takes the whole
  configuration; neither fails (a failing store is outside the model). \<open>save\<close> is
  the block under the comment \<^verbatim>\<open>// Save\<close>, which every operation repeats.\<close>

definition save :: "Workspace \<Rightarrow> WorkspaceConfig \<Rightarrow> WorkspaceConfig option" where
  "save ws config =
     (case findIndex (\<lambda>w. ws_id w = ws_id ws) (workspaces config) of
        Some index \<Rightarrow> Some (config\<lparr>workspaces := (workspaces config)[index := ws]\<rparr>)
      | None \<Rightarrow> None)"

definition fail :: "Workspace \<Rightarrow> string \<Rightarrow> 'a Result Outcome" where
  "fail ws msg = \<lparr>result = Failure msg, workspace = ws, written = None\<rparr>"

definition commit :: "Workspace \<Rightarrow> string \<Rightarrow> WorkspaceConfig \<Rightarrow> 'a \<Rightarrow> 'a Result Outcome" where
  "commit ws now config r =
     (let ws' = ws\<lparr>updatedAt := now\<rparr>
      in \<lparr>result = Success r, workspace = ws', written = save ws' config\<rparr>)"

text \<open>\<^verbatim>\<open>workspace.worktrees.find(wt => wt.id === id)\<close> yields the first worktree
  with the identifier; \<open>setTabs\<close> is the state of the workspace once that worktree's
  tab forest has become \<open>ts\<close>.\<close>

definition findWorktree :: "Workspace \<Rightarrow> string \<Rightarrow> Worktree option" where
  "findWorktree ws worktreeId = find (\<lambda>wt. wt_id wt = worktreeId) (worktrees ws)"

definition setTabs :: "Workspace \<Rightarrow> string \<Rightarrow> Tab list \<Rightarrow> Workspace" where
  "setTabs ws worktreeId ts =
     (case findIndex (\<lambda>wt. wt_id wt = worktreeId) (worktrees ws) of
        Some i \<Rightarrow> ws\<lparr>worktrees := (worktrees ws)[i := (worktrees ws ! i)\<lparr>wt_tabs := ts\<rparr>]\<rparr>
      | None \<Rightarrow> ws)"

text \<open>
  \<^verbatim>\<open>findTab\<close> hands out a reference to a node inside the forest, and the engine
  then writes through that reference. \<open>withTab tabId g\<close> is the forest after such a
  write: \<open>g\<close> applied to the node \<^verbatim>\<open>findTab\<close> returns for \<open>tabId\<close> (the first one
  in depth-first order), everything else as it was. A forest without that identifier is
  returned as it is.
\<close>

function withTab :: "string \<Rightarrow> (Tab \<Rightarrow> Tab) \<Rightarrow> Tab list \<Rightarrow> Tab list" where
  "withTab tabId g [] = []"
| "withTab tabId g (tab # rest) =
     (if tab_id (own tab) = tabId then g tab # rest
      else case groupTabs tab of
        Some cs \<Rightarrow>
          (case findTab cs tabId of
             Some found \<Rightarrow> Tab (own tab) (Some (withTab tabId g cs)) # rest
           | None \<Rightarrow> tab # withTab tabId g rest)
      | None \<Rightarrow> tab # withTab tabId g rest)"
  by pat_completeness auto
termination
  by (relation "measure (\<lambda>(_, _, ts). size_list size ts)") (auto dest: groupTabs_size)

text \<open>\<^verbatim>\<open>parentTab.tabs || []\<close>\<close>

definition tabsOr :: "Tab \<Rightarrow> Tab list" where
  "tabsOr t = (case tabs t of Some cs \<Rightarrow> cs | None \<Rightarrow> [])"

text \<open>The sibling array and column count that \<^verbatim>\<open>reorderTabs\<close> and
  \<^verbatim>\<open>moveTab\<close> select: those of the parent tab when a parent identifier is given
  (\<open>None\<close> when it is not a valid parent), the worktree's top-level array with two
  columns otherwise.\<close>

definition container :: "Tab list \<Rightarrow> string option \<Rightarrow> (Tab list \<times> int) option" where
  "container forest parentTabId =
     (if truthyStr parentTabId then
        (let parentTab = findTab forest (the parentTabId) in
         if \<not> isValidParentTab parentTab then None
         else Some (tabsOr (the parentTab), orElse (cols (own (the parentTab))) 2))
      else Some (forest, 2))"

text \<open>The forest after the selected sibling array has been changed by \<open>f\<close>.\<close>

definition onContainer :: "string option \<Rightarrow> (Tab list \<Rightarrow> Tab list) \<Rightarrow> Tab list \<Rightarrow> Tab list" where
  "onContainer parentTabId f forest =
     (if truthyStr parentTabId
      then withTab (the parentTabId) (\<lambda>p. Tab (own p) (Some (f (tabsOr p)))) forest
      else f forest)"

section \<open>Engine operations\<close>

definition newTabFields :: "CreateTabInput \<Rightarrow> string \<Rightarrow> string \<Rightarrow> TabFields" where
  "newTabFields input uuid createdNow =
     (let ty = (case in_type input of Some t \<Rightarrow> t | None \<Rightarrow> Terminal);
          f = \<lparr>tab_id = uuid, name = in_name input, type = ty, command = None, cwd = None,
               rows = None, cols = None, rowSizes = None, colSizes = None,
               order = None, row = None, col = None, rowSpan = None, colSpan = None,
               createdAt = createdNow\<rparr>
      in if ty = Terminal then f\<lparr>command := in_command input\<rparr>
         else if ty = Group
         then f\<lparr>rows := Some (orElse (in_rows input) 2), cols := Some (orElse (in_cols input) 2)\<rparr>
         else f)"

definition newTabChildren :: "CreateTabInput \<Rightarrow> Tab list option" where
  "newTabChildren input = (if in_type input = Some Group then Some [] else None)"

definition placed :: "CreateTabInput \<Rightarrow> Tab \<Rightarrow> TabFields \<Rightarrow> TabFields" where
  "placed input parentTab f =
     (let f' = (if in_row input \<noteq> None \<and> in_col input \<noteq> None \<and> truthyNum (cols (own parentTab))
                then f\<lparr>order := Some (Num (the (in_row input) * the (cols (own parentTab))
                                            + the (in_col input))),
                       row := Some (Num (the (in_row input))),
                       col := Some (Num (the (in_col input)))\<rparr>
                else f)
      in f'\<lparr>rowSpan := in_rowSpan input, colSpan := in_colSpan input\<rparr>)"

definition createTab ::
  "Workspace \<Rightarrow> CreateTabInput \<Rightarrow> string \<Rightarrow> string \<Rightarrow> string \<Rightarrow> WorkspaceConfig \<Rightarrow> Tab Result Outcome" where
  "createTab ws input uuid createdNow now config =
     (case findWorktree ws (in_worktreeId input) of
        None \<Rightarrow> fail ws ''Worktree not found''
      | Some worktree \<Rightarrow>
          (let f = newTabFields input uuid createdNow in
           if truthyStr (in_parentTabId input) then
             (let parentTab = findTab (wt_tabs worktree) (the (in_parentTabId input)) in
              if \<not> isValidParentTab parentTab
              then fail ws ''Parent tab not found or not a group''
              else
                (let tab = Tab (placed input (the parentTab) f) (newTabChildren input)
                 in commit (setTabs ws (in_worktreeId input)
                              (onContainer (in_parentTabId input) (\<lambda>ts. ts @ [tab])
                                 (wt_tabs worktree)))
                      now config tab))
           else
             (let tab = Tab f (newTabChildren input)
              in commit (setTabs ws (in_worktreeId input) (wt_tabs worktree @ [tab]))
                   now config tab)))"

definition deleteTab ::
  "Workspace \<Rightarrow> string \<Rightarrow> string \<Rightarrow> string \<Rightarrow> WorkspaceConfig \<Rightarrow> unit Result Outcome" where
  "deleteTab ws worktreeId tabId now config =
     (case findWorktree ws worktreeId of
        None \<Rightarrow> fail ws ''Worktree not found''
      | Some worktree \<Rightarrow>
          (case removeTabRecursive (wt_tabs worktree) tabId of
             None \<Rightarrow> fail ws ''Tab not found''
           | Some ts \<Rightarrow> commit (setTabs ws worktreeId ts) now config ()))"

definition reorderTabs ::
  "Workspace \<Rightarrow> string \<Rightarrow> string option \<Rightarrow> string list \<Rightarrow> string \<Rightarrow> WorkspaceConfig
     \<Rightarrow> unit Result Outcome" where
  "reorderTabs ws worktreeId parentTabId tabIds now config =
     (case findWorktree ws worktreeId of
        None \<Rightarrow> fail ws ''Worktree not found''
      | Some worktree \<Rightarrow>
          (case container (wt_tabs worktree) parentTabId of
             None \<Rightarrow> fail ws ''Parent tab not found or not a group''
           | Some (siblings, c) \<Rightarrow>
               (let reorderedTabs =
                      List.map_filter (\<lambda>i. find (\<lambda>t. tab_id (own t) = i) siblings) tabIds
                in if length reorderedTabs \<noteq> length siblings
                   then fail ws ''Tab count mismatch during reorder''
                   else
                     (let updatedTabs = recalculateTabPositions reorderedTabs c
                      in commit (setTabs ws worktreeId
                                   (onContainer parentTabId (\<lambda>_. updatedTabs) (wt_tabs worktree)))
                           now config ()))))"

text \<open>
  \<^verbatim>\<open>moveTab\<close> works on two array references, \<^verbatim>\<open>sourceTabs\<close> and
  \<^verbatim>\<open>targetTabs\<close>, taken before anything is changed, splices both arrays in place
  and then looks both parents up again to store the recalculated arrays. The model
  follows the four writes on the forest, each one through \<open>onContainer\<close>: a write reaches
  the forest only where its array still hangs in the forest, and each recalculation
  reads the array as it stands at that moment. This rendering of the references is
  exact for a forest whose identifiers are pairwise distinct (invariant 1 of the data
  model), which the theorems about \<open>moveTab\<close> assume. For a target parent without a
  \<^verbatim>\<open>tabs\<close> array the source splices a fresh array and hangs it into the parent
  with the last assignment; the model hangs it in at the splice, which gives the same
  forest at the end.

  When the second lookup of a parent returns \<^verbatim>\<open>null\<close>, the assignment to its
  \<^verbatim>\<open>tabs\<close> throws a \<^verbatim>\<open>TypeError\<close>; the \<^verbatim>\<open>catch\<close> block turns it into
  a failure result carrying the error's message, and the workspace stays as the
  statements before the throw left it.
\<close>

definition nullTabsError :: string where
  "nullTabsError = ''Cannot set properties of null (setting 'tabs')''"

definition moveTab ::
  "Workspace \<Rightarrow> string \<Rightarrow> string \<Rightarrow> string option \<Rightarrow> string option \<Rightarrow> int \<Rightarrow> string
     \<Rightarrow> WorkspaceConfig \<Rightarrow> unit Result Outcome" where
  "moveTab ws worktreeId tabId sourceParentTabId targetParentTabId targetIndex now config =
     (case findWorktree ws worktreeId of
        None \<Rightarrow> fail ws ''Worktree not found''
      | Some worktree \<Rightarrow>
     (case container (wt_tabs worktree) sourceParentTabId of
        None \<Rightarrow> fail ws ''Source parent tab not found''
      | Some (sourceTabs, sourceCols) \<Rightarrow>
     (case container (wt_tabs worktree) targetParentTabId of
        None \<Rightarrow> fail ws ''Target parent tab not found''
      | Some (targetTabs, targetCols) \<Rightarrow>
     (case findIndex (\<lambda>t. tab_id (own t) = tabId) sourceTabs of
        None \<Rightarrow> fail ws ''Tab not found in source''
      | Some tabIndex \<Rightarrow>
          (let tab = sourceTabs ! tabIndex;
               f1 = onContainer sourceParentTabId (spliceOut tabIndex) (wt_tabs worktree);
               f2 = onContainer targetParentTabId (spliceIn targetIndex tab) f1
           in if truthyStr sourceParentTabId \<and> findTab f2 (the sourceParentTabId) = None
              then fail (setTabs ws worktreeId f2) nullTabsError
              else
                (let f3 = onContainer sourceParentTabId
                            (\<lambda>ts. recalculateTabPositions ts sourceCols) f2
                 in if truthyStr targetParentTabId \<and> findTab f3 (the targetParentTabId) = None
                    then fail (setTabs ws worktreeId f3) nullTabsError
                    else commit (setTabs ws worktreeId
                                   (onContainer targetParentTabId
                                      (\<lambda>ts. recalculateTabPositions ts targetCols) f3))
                           now config ()))))))"

definition updateTabGridSizes ::
  "Workspace \<Rightarrow> string \<Rightarrow> string \<Rightarrow> real list option \<Rightarrow> real list option \<Rightarrow> string
     \<Rightarrow> WorkspaceConfig \<Rightarrow> unit Result Outcome" where
  "updateTabGridSizes ws worktreeId tabId rowSizesIn colSizesIn now config =
     (case findWorktree ws worktreeId of
        None \<Rightarrow> fail ws ''Worktree not found''
      | Some worktree \<Rightarrow>
          (case findTab (wt_tabs worktree) tabId of
             None \<Rightarrow> fail ws ''Tab not found''
           | Some tab \<Rightarrow>
               if type (own tab) \<noteq> Group then fail ws ''Tab is not a group''
               else
                 (let g = (\<lambda>t. Tab ((own t)\<lparr>
                             rowSizes := (case rowSizesIn of None \<Rightarrow> rowSizes (own t)
                                          | Some v \<Rightarrow> Some v),
                             colSizes := (case colSizesIn of None \<Rightarrow> colSizes (own t)
                                          | Some v \<Rightarrow> Some v)\<rparr>) (tabs t))
                  in commit (setTabs ws worktreeId (withTab tabId g (wt_tabs worktree)))
                       now config ())))"

definition updateTerminalCwd ::
  "Workspace \<Rightarrow> string \<Rightarrow> string \<Rightarrow> string \<Rightarrow> string \<Rightarrow> WorkspaceConfig \<Rightarrow> bool Outcome" where
  "updateTerminalCwd ws worktreeId tabId newCwd now config =
     (case findWorktree ws worktreeId of
        None \<Rightarrow> \<lparr>result = False, workspace = ws, written = None\<rparr>
      | Some worktree \<Rightarrow>
          (case findTab (wt_tabs worktree) tabId of
             None \<Rightarrow> \<lparr>result = False, workspace = ws, written = None\<rparr>
           | Some tab \<Rightarrow>
               if type (own tab) \<noteq> Terminal
               then \<lparr>result = False, workspace = ws, written = None\<rparr>
               else
                 (let ws' = (setTabs ws worktreeId
                               (withTab tabId (\<lambda>t. Tab ((own t)\<lparr>cwd := Some newCwd\<rparr>) (tabs t))
                                  (wt_tabs worktree)))\<lparr>updatedAt := now\<rparr>
                  in \<lparr>result = True, workspace = ws', written = save ws' config\<rparr>)))"

section \<open>Sample data\<close>

text \<open>Concrete tabs, workspaces and stored configurations for the closed theorems:
  \<open>sampleTab i ty c ord kids\<close> is a tab with identifier \<open>i\<close>, type \<open>ty\<close>, grid
  dimensions \<open>c\<close>, \<^verbatim>\<open>order\<close> field \<open>ord\<close> and child array \<open>kids\<close>;
  \<open>sampleWorkspace ts\<close> is a workspace \<^verbatim>\<open>ws-1\<close> with the single worktree
  \<^verbatim>\<open>wt-1\<close> holding the forest \<open>ts\<close>.\<close>

definition sampleTab ::
  "string \<Rightarrow> TabType \<Rightarrow> int option \<Rightarrow> number option \<Rightarrow> Tab list option \<Rightarrow> Tab" where
  "sampleTab i ty c ord kids =
     Tab \<lparr>tab_id = i, name = i, type = ty, command = None, cwd = None,
          rows = c, cols = c, rowSizes = None, colSizes = None,
          order = ord, row = None, col = None, rowSpan = None, colSpan = None,
          createdAt = ''2025-01-01T00:00:00.000Z''\<rparr> kids"

definition sampleWorkspace :: "Tab list \<Rightarrow> Workspace" where
  "sampleWorkspace ts =
     \<lparr>ws_id = ''ws-1'', ws_name = ''demo'', ws_repoPath = ''/repo'', ws_branch = ''main'',
      worktrees = [\<lparr>wt_id = ''wt-1'', wt_branch = ''main'', wt_path = ''/repo'',
                    wt_tabs = ts, wt_createdAt = ''2025-01-01T00:00:00.000Z''\<rparr>],
      activeWorktreeId = None, activeTabId = None,
      ws_createdAt = ''2025-01-01T00:00:00.000Z'', updatedAt = ''2025-01-01T00:00:00.000Z''\<rparr>"

definition sampleConfig :: "Workspace list \<Rightarrow> WorkspaceConfig" where
  "sampleConfig wss =
     \<lparr>workspaces = wss, lastOpenedWorkspaceId = None, activeWorkspaceId = None\<rparr>"

text \<open>The tab forests of a workspace, worktree after worktree.\<close>

definition topTabs :: "Workspace \<Rightarrow> Tab list" where
  "topTabs ws = concat (map wt_tabs (worktrees ws))"

text \<open>A tab without its position fields.\<close>

definition stripPosition :: "Tab \<Rightarrow> Tab" where
  "stripPosition t = Tab ((own t)\<lparr>order := None, row := None, col := None\<rparr>) (tabs t)"

lemmas sample_defs = sampleTab_def sampleWorkspace_def sampleConfig_def topTabs_def

lemmas engine_defs = findWorktree_def setTabs_def save_def fail_def commit_def container_def
  onContainer_def truthyStr_def truthyNum_def orElse_def isValidParentTab_def tabsOr_def
  groupTabs_def findIndex_def spliceOut_def spliceIn_def spliceStart_def
  recalculateTabPositions_def setPosition_def floorDiv_def jsRem_def Let_def

definition sampleInput :: CreateTabInput where
  "sampleInput =
     \<lparr>in_workspaceId = ''ws-1'', in_worktreeId = ''wt-1'', in_parentTabId = None,
      in_name = ''shell'', in_type = None, in_command = None, in_rows = None,
      in_cols = None, in_row = None, in_col = None, in_rowSpan = None, in_colSpan = None\<rparr>"

definition sampleForest :: "Tab list" where
  "sampleForest =
     [sampleTab ''GA'' Group (Some 2) None
        (Some [sampleTab ''X'' Terminal None (Some (Num 0)) None,
               sampleTab ''Y'' Terminal None (Some (Num 1)) None]),
      sampleTab ''GB'' Group (Some 2) None
        (Some [sampleTab ''Z'' Terminal None (Some (Num 0)) None])]"

definition sampleStored :: WorkspaceConfig where
  "sampleStored = sampleConfig [sampleWorkspace sampleForest]"

text \<open>What a successful operation leaves behind: the time stamp, and the write that the
  block under \<^verbatim>\<open>// Save\<close> issues for the stored configuration \<open>config\<close>.\<close>

definition stampedAndSaved ::
  "Workspace \<Rightarrow> WorkspaceConfig option \<Rightarrow> string \<Rightarrow> WorkspaceConfig \<Rightarrow> bool" where
  "stampedAndSaved ws' w now config =
     (updatedAt ws' = now
      \<and> w = (case findIndex (\<lambda>x. ws_id x = ws_id ws') (workspaces config) of
               Some i \<Rightarrow> Some (config\<lparr>workspaces := (workspaces config)[i := ws']\<rparr>)
             | None \<Rightarrow> None))"

section \<open>Position recalculation\<close>

lemma length_recalculateTabPositions [simp]:
  "length (recalculateTabPositions ts c) = length ts"
  by (simp add: recalculateTabPositions_def)

lemma nth_recalculateTabPositions [simp]:
  "i < length ts \<Longrightarrow> recalculateTabPositions ts c ! i = setPosition c i (ts ! i)"
  by (simp add: recalculateTabPositions_def)

lemma setPosition_again [simp]: "setPosition c i (setPosition c i t) = setPosition c i t"
  by (simp add: setPosition_def)

lemma stripPosition_setPosition [simp]: "stripPosition (setPosition c i t) = stripPosition t"
  by (simp add: setPosition_def stripPosition_def)

lemma recalculate_idem:
  "recalculateTabPositions (recalculateTabPositions ts c) c = recalculateTabPositions ts c"
  by (simp add: list_eq_iff_nth_eq)

lemma recalculate_strip:
  "map stripPosition (recalculateTabPositions ts c) = map stripPosition ts"
  by (simp add: list_eq_iff_nth_eq)

text \<open>
  C8: for every list of tabs and every column count, \<^verbatim>\<open>recalculateTabPositions\<close>
  gives the tab at index \<open>i\<close> the order \<open>i\<close>, the row \<open>i div cols\<close> and the column
  \<open>i mod cols\<close>, keeps the nodes and their sequence (nothing but the three position
  fields changes), and applying it twice gives what applying it once gives. A column
  count is a positive integer; order, preservation and idempotence hold for every
  integer.
\<close>

theorem recalculateTabPositions_spec:
  "length (recalculateTabPositions ts c) = length ts
   \<and> map stripPosition (recalculateTabPositions ts c) = map stripPosition ts
   \<and> recalculateTabPositions (recalculateTabPositions ts c) c = recalculateTabPositions ts c
   \<and> (\<forall>i < length ts. order (own (recalculateTabPositions ts c ! i)) = Some (Num (int i)))
   \<and> (0 < c \<longrightarrow> (\<forall>i < length ts.
          row (own (recalculateTabPositions ts c ! i)) = Some (Num (int i div c))
        \<and> col (own (recalculateTabPositions ts c ! i)) = Some (Num (int i mod c))))"
proof -
  have pos: "\<And>i. 0 < c \<Longrightarrow> floorDiv i c = Num (int i div c) \<and> jsRem i c = Num (int i mod c)"
    by (simp add: floorDiv_def jsRem_def)
  show ?thesis
    by (simp add: recalculate_idem recalculate_strip setPosition_def pos)
qed

theorem recalculateTabPositions_spec_witness:
  "(0::int) < 2
   \<and> map (\<lambda>t. (tab_id (own t), order (own t), row (own t), col (own t)))
        (recalculateTabPositions
           [sampleTab ''C'' Terminal None None None,
            sampleTab ''A'' Terminal None (Some (Num 7)) None,
            sampleTab ''B'' Terminal None None None] 2)
     = [(''C'', Some (Num 0), Some (Num 0), Some (Num 0)),
        (''A'', Some (Num 1), Some (Num 0), Some (Num 1)),
        (''B'', Some (Num 2), Some (Num 1), Some (Num 0))]"
  using recalculateTabPositions_spec
    [of "[sampleTab ''C'' Terminal None None None,
          sampleTab ''A'' Terminal None (Some (Num 7)) None,
          sampleTab ''B'' Terminal None None None]" 2]
  by (simp add: recalculateTabPositions_def setPosition_def sampleTab_def floorDiv_def
      jsRem_def upt_rec)

section \<open>Reordering\<close>

text \<open>
  C3: \<^verbatim>\<open>reorderTabs\<close> is to fail with a count mismatch whenever the identifier list
  drops or duplicates a sibling. On the siblings \<open>A, B\<close> and the list \<open>A, A\<close> the
  resolved list has two entries, as many as there are siblings, so the operation
  succeeds, and the container then holds \<open>A\<close> twice and \<open>B\<close> no more.
\<close>

theorem reorderTabs_duplicate_accepted:
  "result (reorderTabs
       (sampleWorkspace [sampleTab ''A'' Terminal None (Some (Num 0)) None,
                         sampleTab ''B'' Terminal None (Some (Num 1)) None])
       ''wt-1'' None [''A'', ''A''] ''now'' (sampleConfig [])) = Success ()
   \<and> map (\<lambda>t. tab_id (own t)) (topTabs (workspace (reorderTabs
       (sampleWorkspace [sampleTab ''A'' Terminal None (Some (Num 0)) None,
                         sampleTab ''B'' Terminal None (Some (Num 1)) None])
       ''wt-1'' None [''A'', ''A''] ''now'' (sampleConfig [])))) = [''A'', ''A'']"
  by (simp add: reorderTabs_def sample_defs engine_defs List.map_filter_def upt_rec)

section \<open>Failure and mutation\<close>

text \<open>The four operations other than \<^verbatim>\<open>moveTab\<close> fail only before their first
  assignment: a failure result comes with the workspace as it was and without a write.\<close>

lemma createTab_failure:
  "result (createTab ws input uuid created now config) = Failure e \<Longrightarrow>
   createTab ws input uuid created now config = fail ws e"
  by (auto simp: createTab_def Let_def commit_def fail_def split: option.splits if_splits)

lemma deleteTab_failure:
  "result (deleteTab ws w t now config) = Failure e \<Longrightarrow>
   deleteTab ws w t now config = fail ws e"
  by (auto simp: deleteTab_def Let_def commit_def fail_def split: option.splits if_splits)

lemma reorderTabs_failure:
  "result (reorderTabs ws w p ids now config) = Failure e \<Longrightarrow>
   reorderTabs ws w p ids now config = fail ws e"
  by (auto simp: reorderTabs_def Let_def commit_def fail_def
      split: option.splits if_splits prod.splits)

lemma updateTabGridSizes_failure:
  "result (updateTabGridSizes ws w t rs cs now config) = Failure e \<Longrightarrow>
   updateTabGridSizes ws w t rs cs now config = fail ws e"
  by (auto simp: updateTabGridSizes_def Let_def commit_def fail_def
      split: option.splits if_splits)

lemma fail_unmodified: "workspace (fail ws e) = ws \<and> written (fail ws e) = None"
  by (simp add: fail_def)

text \<open>
  C2: an operation that returns a failure is to leave the workspace as it was. Moving
  the group \<open>G\<close> into itself passes both validations; the tab is spliced out of the
  top-level array and into its own child array, the second lookup of the target parent
  finds nothing, and the operation fails with the \<^verbatim>\<open>TypeError\<close>'s message while
  the worktree has lost the tab.
\<close>

theorem moveTab_into_itself_fails_after_mutation:
  "result (moveTab (sampleWorkspace [sampleTab ''G'' Group (Some 2) None (Some [])])
       ''wt-1'' ''G'' None (Some ''G'') 0 ''now'' (sampleConfig [])) = Failure nullTabsError
   \<and> workspace (moveTab (sampleWorkspace [sampleTab ''G'' Group (Some 2) None (Some [])])
       ''wt-1'' ''G'' None (Some ''G'') 0 ''now'' (sampleConfig []))
     = sampleWorkspace []
   \<and> sampleWorkspace [] \<noteq> sampleWorkspace [sampleTab ''G'' Group (Some 2) None (Some [])]"
  by (simp add: moveTab_def sample_defs engine_defs)

section \<open>Time stamp and persistence\<close>

lemma commit_stamped:
  "stampedAndSaved (workspace (commit ws now config r)) (written (commit ws now config r)) now config"
  by (simp add: commit_def stampedAndSaved_def save_def Let_def)

lemma result_fail [simp]: "result (fail ws msg) \<noteq> Success r"
  by (simp add: fail_def)

lemma createTab_stamped:
  "result (createTab ws input uuid c now config) = Success r \<Longrightarrow>
   stampedAndSaved (workspace (createTab ws input uuid c now config))
                   (written (createTab ws input uuid c now config)) now config"
  by (auto simp: createTab_def Let_def commit_stamped split: option.splits if_splits)

lemma deleteTab_stamped:
  "result (deleteTab ws w t now config) = Success r \<Longrightarrow>
   stampedAndSaved (workspace (deleteTab ws w t now config))
                   (written (deleteTab ws w t now config)) now config"
  by (auto simp: deleteTab_def Let_def commit_stamped split: option.splits if_splits)

lemma reorderTabs_stamped:
  "result (reorderTabs ws w p ids now config) = Success r \<Longrightarrow>
   stampedAndSaved (workspace (reorderTabs ws w p ids now config))
                   (written (reorderTabs ws w p ids now config)) now config"
  by (auto simp: reorderTabs_def Let_def commit_stamped split: option.splits if_splits prod.splits)

lemma moveTab_stamped:
  "result (moveTab ws w t s g k now config) = Success r \<Longrightarrow>
   stampedAndSaved (workspace (moveTab ws w t s g k now config))
                   (written (moveTab ws w t s g k now config)) now config"
  by (auto simp: moveTab_def Let_def commit_stamped split: option.splits if_splits prod.splits)

lemma updateTabGridSizes_stamped:
  "result (updateTabGridSizes ws w t rs cs now config) = Success r \<Longrightarrow>
   stampedAndSaved (workspace (updateTabGridSizes ws w t rs cs now config))
                   (written (updateTabGridSizes ws w t rs cs now config)) now config"
  by (auto simp: updateTabGridSizes_def Let_def commit_stamped split: option.splits if_splits)

text \<open>
  C9 (as amended): every engine operation that returns a success result has set the
  workspace's \<^verbatim>\<open>updatedAt\<close> to the current time; it has written the stored
  configuration, with the mutated workspace in the place of the first stored workspace
  of the same identifier, when the stored configuration holds such a workspace, and has
  written nothing when it holds none.
\<close>

theorem success_stamps_and_saves:
  "(result (createTab wsa input uuid created nowa configa) = Success ra \<longrightarrow>
      stampedAndSaved (workspace (createTab wsa input uuid created nowa configa))
                      (written (createTab wsa input uuid created nowa configa)) nowa configa)
   \<and> (result (deleteTab wsb wb tb nowb configb) = Success rb \<longrightarrow>
      stampedAndSaved (workspace (deleteTab wsb wb tb nowb configb))
                      (written (deleteTab wsb wb tb nowb configb)) nowb configb)
   \<and> (result (reorderTabs wsc wc pc idsc nowc configc) = Success rc \<longrightarrow>
      stampedAndSaved (workspace (reorderTabs wsc wc pc idsc nowc configc))
                      (written (reorderTabs wsc wc pc idsc nowc configc)) nowc configc)
   \<and> (result (moveTab wsd wd td sd gd kd nowd configd) = Success rd \<longrightarrow>
      stampedAndSaved (workspace (moveTab wsd wd td sd gd kd nowd configd))
                      (written (moveTab wsd wd td sd gd kd nowd configd)) nowd configd)
   \<and> (result (updateTabGridSizes wse we te rse cse nowe confige) = Success re \<longrightarrow>
      stampedAndSaved (workspace (updateTabGridSizes wse we te rse cse nowe confige))
                      (written (updateTabGridSizes wse we te rse cse nowe confige)) nowe confige)"
  by (intro conjI impI)
     (erule createTab_stamped deleteTab_stamped reorderTabs_stamped moveTab_stamped
        updateTabGridSizes_stamped)+

theorem success_stamps_and_saves_witness:
  "(\<exists>r. result (createTab (sampleWorkspace sampleForest) sampleInput ''id-1'' ''now'' ''now''
               sampleStored) = Success r)
   \<and> stampedAndSaved
        (workspace (createTab (sampleWorkspace sampleForest) sampleInput ''id-1'' ''now'' ''now''
               sampleStored))
        (written (createTab (sampleWorkspace sampleForest) sampleInput ''id-1'' ''now'' ''now''
               sampleStored)) ''now'' sampleStored
   \<and> result (deleteTab (sampleWorkspace sampleForest) ''wt-1'' ''X'' ''now'' sampleStored)
       = Success ()
   \<and> stampedAndSaved
        (workspace (deleteTab (sampleWorkspace sampleForest) ''wt-1'' ''X'' ''now'' sampleStored))
        (written (deleteTab (sampleWorkspace sampleForest) ''wt-1'' ''X'' ''now'' sampleStored))
        ''now'' sampleStored
   \<and> result (reorderTabs (sampleWorkspace sampleForest) ''wt-1'' (Some ''GA'') [''Y'', ''X'']
               ''now'' sampleStored) = Success ()
   \<and> stampedAndSaved
        (workspace (reorderTabs (sampleWorkspace sampleForest) ''wt-1'' (Some ''GA'')
               [''Y'', ''X''] ''now'' sampleStored))
        (written (reorderTabs (sampleWorkspace sampleForest) ''wt-1'' (Some ''GA'')
               [''Y'', ''X''] ''now'' sampleStored)) ''now'' sampleStored
   \<and> result (moveTab (sampleWorkspace sampleForest) ''wt-1'' ''X'' (Some ''GA'') (Some ''GB'') 0
               ''now'' sampleStored) = Success ()
   \<and> stampedAndSaved
        (workspace (moveTab (sampleWorkspace sampleForest) ''wt-1'' ''X'' (Some ''GA'')
               (Some ''GB'') 0 ''now'' sampleStored))
        (written (moveTab (sampleWorkspace sampleForest) ''wt-1'' ''X'' (Some ''GA'')
               (Some ''GB'') 0 ''now'' sampleStored)) ''now'' sampleStored
   \<and> result (updateTabGridSizes (sampleWorkspace sampleForest) ''wt-1'' ''GA'' (Some [1/3, 2/3])
               None ''now'' sampleStored) = Success ()
   \<and> stampedAndSaved
        (workspace (updateTabGridSizes (sampleWorkspace sampleForest) ''wt-1'' ''GA''
               (Some [1/3, 2/3]) None ''now'' sampleStored))
        (written (updateTabGridSizes (sampleWorkspace sampleForest) ''wt-1'' ''GA''
               (Some [1/3, 2/3]) None ''now'' sampleStored)) ''now'' sampleStored"
proof -
  have a: "\<exists>r. result (createTab (sampleWorkspace sampleForest) sampleInput ''id-1'' ''now''
               ''now'' sampleStored) = Success r"
    by (simp add: createTab_def sampleInput_def sampleForest_def sampleStored_def sample_defs
        engine_defs)
  have b: "result (deleteTab (sampleWorkspace sampleForest) ''wt-1'' ''X'' ''now'' sampleStored)
       = Success ()"
    by (simp add: deleteTab_def sampleForest_def sampleStored_def sample_defs engine_defs)
  have c: "result (reorderTabs (sampleWorkspace sampleForest) ''wt-1'' (Some ''GA'') [''Y'', ''X'']
               ''now'' sampleStored) = Success ()"
    by (simp add: reorderTabs_def sampleForest_def sampleStored_def sample_defs engine_defs
        List.map_filter_def upt_rec)
  have d: "result (moveTab (sampleWorkspace sampleForest) ''wt-1'' ''X'' (Some ''GA'') (Some ''GB'') 0
               ''now'' sampleStored) = Success ()"
    by (simp add: moveTab_def sampleForest_def sampleStored_def sample_defs engine_defs upt_rec)
  have e: "result (updateTabGridSizes (sampleWorkspace sampleForest) ''wt-1'' ''GA''
               (Some [1/3, 2/3]) None ''now'' sampleStored) = Success ()"
    by (simp add: updateTabGridSizes_def sampleForest_def sampleStored_def sample_defs
        engine_defs)
  from a obtain r where a': "result (createTab (sampleWorkspace sampleForest) sampleInput
      ''id-1'' ''now'' ''now'' sampleStored) = Success r" ..
  show ?thesis
    using a b c d e
      success_stamps_and_saves
        [where wsa = "sampleWorkspace sampleForest" and input = sampleInput
           and uuid = "''id-1''" and created = "''now''" and nowa = "''now''"
           and configa = sampleStored and ra = r
           and wsb = "sampleWorkspace sampleForest" and wb = "''wt-1''" and tb = "''X''"
           and nowb = "''now''" and configb = sampleStored and rb = "()"
           and wsc = "sampleWorkspace sampleForest" and wc = "''wt-1''" and pc = "Some ''GA''"
           and idsc = "[''Y'', ''X'']" and nowc = "''now''" and configc = sampleStored
           and rc = "()"
           and wsd = "sampleWorkspace sampleForest" and wd = "''wt-1''" and td = "''X''"
           and sd = "Some ''GA''" and gd = "Some ''GB''" and kd = 0 and nowd = "''now''"
           and configd = sampleStored and rd = "()"
           and wse = "sampleWorkspace sampleForest" and we = "''wt-1''" and te = "''GA''"
           and rse = "Some [1/3, 2/3]" and cse = None and nowe = "''now''"
           and confige = sampleStored and re = "()"]
      a'
    by blast
qed

text \<open>
  C9 as stated (success implies that the mutation was persisted) fails: deleting a tab
  of a workspace that the stored configuration does not hold succeeds without a write.
\<close>

theorem success_without_write:
  "result (deleteTab (sampleWorkspace [sampleTab ''T1'' Terminal None None None])
       ''wt-1'' ''T1'' ''now'' (sampleConfig [])) = Success ()
   \<and> written (deleteTab (sampleWorkspace [sampleTab ''T1'' Terminal None None None])
       ''wt-1'' ''T1'' ''now'' (sampleConfig [])) = None"
  by (simp add: deleteTab_def sample_defs engine_defs)

section \<open>Working directory of a terminal\<close>

text \<open>\<open>eraseCwd\<close> forgets the \<^verbatim>\<open>cwd\<close> of a node and of all nodes below it,
  \<open>nodeFields\<close> lists the fields of a node and of all nodes below it in depth-first
  order, \<open>allFields\<close> does so for every forest of a workspace, and \<open>cwdBlind\<close> is the
  workspace without its time stamp and without any \<^verbatim>\<open>cwd\<close>.\<close>

fun eraseCwd :: "Tab \<Rightarrow> Tab" where
  "eraseCwd (Tab f kids) = Tab (f\<lparr>cwd := None\<rparr>) (map_option (map eraseCwd) kids)"

fun nodeFields :: "Tab \<Rightarrow> TabFields list" where
  "nodeFields (Tab f kids) =
     f # (case kids of None \<Rightarrow> [] | Some cs \<Rightarrow> concat (map nodeFields cs))"

definition setCwd :: "string \<Rightarrow> Tab \<Rightarrow> Tab" where
  "setCwd v t = Tab ((own t)\<lparr>cwd := Some v\<rparr>) (tabs t)"

lemma eraseCwd_setCwd [simp]: "eraseCwd (setCwd v t) = eraseCwd t"
  by (cases t) (simp add: setCwd_def)

lemma nodeFields_ne [simp]: "nodeFields t \<noteq> []"
  by (cases t) simp

lemma nodeFields_setCwd:
  "nodeFields (setCwd v t) = (nodeFields t)[0 := (own t)\<lparr>cwd := Some v\<rparr>]"
  by (cases t) (simp add: setCwd_def)

lemma hd_nodeFields [simp]: "nodeFields t ! 0 = own t"
  by (cases t) simp

lemma groupTabs_Some: "groupTabs tab = Some cs \<Longrightarrow> tab = Tab (own tab) (Some cs) \<and> type (own tab) = Group"
  by (cases tab) (auto simp: groupTabs_def split: if_splits)

lemma withTab_setCwd:
  "findTab ts t = Some x \<Longrightarrow>
   map eraseCwd (withTab t (setCwd v) ts) = map eraseCwd ts
   \<and> (\<exists>k < length (concat (map nodeFields ts)).
         concat (map nodeFields ts) ! k = own x
       \<and> concat (map nodeFields (withTab t (setCwd v) ts))
           = (concat (map nodeFields ts))[k := (own x)\<lparr>cwd := Some v\<rparr>])"
proof (induction ts t arbitrary: x rule: findTab.induct)
  case (1 tabId)
  then show ?case by simp
next
  case (2 tab rest tabId)
  show ?case
  proof (cases "tab_id (own tab) = tabId")
    case True
    with "2.prems" have x: "x = tab" by simp
    have "0 < length (concat (map nodeFields (tab # rest)))" by simp
    moreover have "concat (map nodeFields (tab # rest)) ! 0 = own x"
      by (simp add: x nth_append)
    moreover have "concat (map nodeFields (withTab tabId (setCwd v) (tab # rest)))
        = (concat (map nodeFields (tab # rest)))[0 := (own x)\<lparr>cwd := Some v\<rparr>]"
      using True by (simp add: x nodeFields_setCwd list_update_append)
    moreover have "map eraseCwd (withTab tabId (setCwd v) (tab # rest)) = map eraseCwd (tab # rest)"
      using True by simp
    ultimately show ?thesis by blast
  next
    case False
    show ?thesis
    proof (cases "groupTabs tab")
      case None
      with False "2.prems" have f: "findTab rest tabId = Some x" by simp
      from "2.IH"(1)[OF False None f] obtain k where
        e: "map eraseCwd (withTab tabId (setCwd v) rest) = map eraseCwd rest"
        and k: "k < length (concat (map nodeFields rest))"
          "concat (map nodeFields rest) ! k = own x"
          "concat (map nodeFields (withTab tabId (setCwd v) rest))
             = (concat (map nodeFields rest))[k := (own x)\<lparr>cwd := Some v\<rparr>]"
        by blast
      let ?n = "length (nodeFields tab)"
      have "?n + k < length (concat (map nodeFields (tab # rest)))" using k by simp
      moreover have "concat (map nodeFields (tab # rest)) ! (?n + k) = own x"
        using k by (simp add: nth_append)
      moreover have "concat (map nodeFields (withTab tabId (setCwd v) (tab # rest)))
        = (concat (map nodeFields (tab # rest)))[?n + k := (own x)\<lparr>cwd := Some v\<rparr>]"
        using False None k by (simp add: list_update_append)
      moreover have "map eraseCwd (withTab tabId (setCwd v) (tab # rest)) = map eraseCwd (tab # rest)"
        using False None e by simp
      ultimately show ?thesis by blast
    next
      case (Some cs)
      note g = groupTabs_Some[OF Some]
      show ?thesis
      proof (cases "findTab cs tabId")
        case None
        with False Some "2.prems" have f: "findTab rest tabId = Some x" by simp
        from "2.IH"(3)[OF False Some None f] obtain k where
          e: "map eraseCwd (withTab tabId (setCwd v) rest) = map eraseCwd rest"
          and k: "k < length (concat (map nodeFields rest))"
            "concat (map nodeFields rest) ! k = own x"
            "concat (map nodeFields (withTab tabId (setCwd v) rest))
               = (concat (map nodeFields rest))[k := (own x)\<lparr>cwd := Some v\<rparr>]"
          by blast
        let ?n = "length (nodeFields tab)"
        have "?n + k < length (concat (map nodeFields (tab # rest)))" using k by simp
        moreover have "concat (map nodeFields (tab # rest)) ! (?n + k) = own x"
          using k by (simp add: nth_append)
        moreover have "concat (map nodeFields (withTab tabId (setCwd v) (tab # rest)))
          = (concat (map nodeFields (tab # rest)))[?n + k := (own x)\<lparr>cwd := Some v\<rparr>]"
          using False Some None k by (simp add: list_update_append)
        moreover have "map eraseCwd (withTab tabId (setCwd v) (tab # rest)) = map eraseCwd (tab # rest)"
          using False Some None e by simp
        ultimately show ?thesis by blast
      next
        case (Some found)
        with False \<open>groupTabs tab = Some cs\<close> "2.prems" have f: "findTab cs tabId = Some x" by simp
        from "2.IH"(2)[OF False \<open>groupTabs tab = Some cs\<close> f] obtain k where
          e: "map eraseCwd (withTab tabId (setCwd v) cs) = map eraseCwd cs"
          and k: "k < length (concat (map nodeFields cs))"
            "concat (map nodeFields cs) ! k = own x"
            "concat (map nodeFields (withTab tabId (setCwd v) cs))
               = (concat (map nodeFields cs))[k := (own x)\<lparr>cwd := Some v\<rparr>]"
          by blast
        have nf: "nodeFields tab = own tab # concat (map nodeFields cs)"
          using g by (metis nodeFields.simps option.simps(5))
        have "Suc k < length (concat (map nodeFields (tab # rest)))" using k nf by simp
        moreover have "concat (map nodeFields (tab # rest)) ! (Suc k) = own x"
          using k nf by (simp add: nth_append)
        moreover have "concat (map nodeFields (withTab tabId (setCwd v) (tab # rest)))
          = (concat (map nodeFields (tab # rest)))[Suc k := (own x)\<lparr>cwd := Some v\<rparr>]"
          using False \<open>groupTabs tab = Some cs\<close> Some k nf by (simp add: list_update_append)
        moreover have "map eraseCwd (withTab tabId (setCwd v) (tab # rest)) = map eraseCwd (tab # rest)"
          using False \<open>groupTabs tab = Some cs\<close> Some e g
          by (simp, metis eraseCwd.simps option.simps(9))
        ultimately show ?thesis by blast
      qed
    qed
  qed
qed


definition allFields :: "Workspace \<Rightarrow> TabFields list" where
  "allFields ws = concat (map (\<lambda>wt. concat (map nodeFields (wt_tabs wt))) (worktrees ws))"

definition cwdBlind :: "Workspace \<Rightarrow> Workspace" where
  "cwdBlind ws =
     ws\<lparr>updatedAt := [],
        worktrees := map (\<lambda>wt. wt\<lparr>wt_tabs := map eraseCwd (wt_tabs wt)\<rparr>) (worktrees ws)\<rparr>"

lemma findIndexFrom_Some:
  "findIndexFrom n p xs = Some i \<Longrightarrow>
     n \<le> i \<and> i - n < length xs \<and> p (xs ! (i - n)) \<and> (\<forall>j < i - n. \<not> p (xs ! j))"
proof (induction xs arbitrary: n)
  case Nil
  then show ?case by simp
next
  case (Cons x xs)
  show ?case
  proof (cases "p x")
    case True
    with Cons.prems show ?thesis by simp
  next
    case False
    with Cons.prems have "findIndexFrom (Suc n) p xs = Some i" by simp
    from Cons.IH[OF this] have h: "Suc n \<le> i" "i - Suc n < length xs" "p (xs ! (i - Suc n))"
      "\<forall>j < i - Suc n. \<not> p (xs ! j)" by auto
    have "i - n = Suc (i - Suc n)" using h(1) by simp
    then show ?thesis using h False by (auto simp: nth_Cons split: nat.splits)
  qed
qed

lemma findIndex_Some:
  "findIndex p xs = Some i \<Longrightarrow> i < length xs \<and> p (xs ! i) \<and> (\<forall>j < i. \<not> p (xs ! j))"
  using findIndexFrom_Some[of 0 p xs i] by (simp add: findIndex_def)

lemma findIndexFrom_None: "findIndexFrom n p xs = None \<longleftrightarrow> (\<forall>x \<in> set xs. \<not> p x)"
  by (induction xs arbitrary: n) auto

lemma findIndex_None: "findIndex p xs = None \<longleftrightarrow> (\<forall>x \<in> set xs. \<not> p x)"
  by (simp add: findIndex_def findIndexFrom_None)

lemma find_findIndexFrom:
  "find p xs = Some x \<Longrightarrow> \<exists>i. findIndexFrom n p xs = Some (n + i) \<and> i < length xs \<and> xs ! i = x"
proof (induction xs arbitrary: n)
  case Nil
  then show ?case by simp
next
  case (Cons y ys)
  show ?case
  proof (cases "p y")
    case True
    with Cons.prems show ?thesis by auto
  next
    case False
    with Cons.prems have "find p ys = Some x" by simp
    from Cons.IH[OF this, of "Suc n"] obtain i where
      "findIndexFrom (Suc n) p ys = Some (Suc n + i)" "i < length ys" "ys ! i = x" by blast
    then have "findIndexFrom n p (y # ys) = Some (n + Suc i) \<and> Suc i < length (y # ys)
        \<and> (y # ys) ! Suc i = x" using False by simp
    then show ?thesis by blast
  qed
qed

lemma find_findIndex:
  "find p xs = Some x \<Longrightarrow> \<exists>i. findIndex p xs = Some i \<and> i < length xs \<and> xs ! i = x"
  using find_findIndexFrom[of p xs x 0] by (simp add: findIndex_def)

lemma setTabs_found:
  assumes "findWorktree ws w = Some wt"
  shows "\<exists>i < length (worktrees ws). worktrees ws ! i = wt
           \<and> setTabs ws w ts = ws\<lparr>worktrees := (worktrees ws)[i := wt\<lparr>wt_tabs := ts\<rparr>]\<rparr>"
proof -
  from assms obtain i where
    "findIndex (\<lambda>x. wt_id x = w) (worktrees ws) = Some i" "i < length (worktrees ws)"
    "worktrees ws ! i = wt"
    unfolding findWorktree_def by (blast dest: find_findIndex)
  then show ?thesis by (auto simp: setTabs_def)
qed

lemma concat_map_update:
  assumes "i < length xs" "k < length (f (xs ! i))" "f y = (f (xs ! i))[k := a]"
  shows "\<exists>K < length (concat (map f xs)).
           concat (map f xs) ! K = f (xs ! i) ! k
         \<and> concat (map f (xs[i := y])) = (concat (map f xs))[K := a]"
  using assms
proof (induction xs arbitrary: i)
  case Nil
  then show ?case by simp
next
  case (Cons x xs)
  show ?case
  proof (cases i)
    case 0
    with Cons.prems have "k < length (concat (map f (x # xs)))"
      "concat (map f (x # xs)) ! k = f ((x # xs) ! i) ! k"
      "concat (map f ((x # xs)[i := y])) = (concat (map f (x # xs)))[k := a]"
      by (simp_all add: nth_append list_update_append)
    then show ?thesis by blast
  next
    case (Suc j)
    with Cons.prems have "j < length xs" "k < length (f (xs ! j))" "f y = (f (xs ! j))[k := a]"
      by simp_all
    from Cons.IH[OF this] obtain K where K: "K < length (concat (map f xs))"
      "concat (map f xs) ! K = f (xs ! j) ! k"
      "concat (map f (xs[j := y])) = (concat (map f xs))[K := a]" by blast
    let ?n = "length (f x)"
    from K Suc have "?n + K < length (concat (map f (x # xs)))"
      "concat (map f (x # xs)) ! (?n + K) = f ((x # xs) ! i) ! k"
      "concat (map f ((x # xs)[i := y])) = (concat (map f (x # xs)))[?n + K := a]"
      by (simp_all add: nth_append list_update_append)
    then show ?thesis by blast
  qed
qed

lemma findTab_id: "findTab ts t = Some x \<Longrightarrow> tab_id (own x) = t"
  by (induction ts t rule: findTab.induct) (auto split: if_splits option.splits)

lemma updateTerminalCwd_false:
  assumes "findWorktree ws w = None
     \<or> (\<exists>wt. findWorktree ws w = Some wt
           \<and> (findTab (wt_tabs wt) t = None
              \<or> (\<exists>x. findTab (wt_tabs wt) t = Some x \<and> type (own x) \<noteq> Terminal)))"
  shows "updateTerminalCwd ws w t v now config = \<lparr>result = False, workspace = ws, written = None\<rparr>"
  using assms by (auto simp: updateTerminalCwd_def)

lemma updateTerminalCwd_true:
  assumes "result (updateTerminalCwd ws w t v now config)"
  shows "cwdBlind (workspace (updateTerminalCwd ws w t v now config)) = cwdBlind ws
    \<and> updatedAt (workspace (updateTerminalCwd ws w t v now config)) = now
    \<and> (\<exists>k < length (allFields ws).
          tab_id (allFields ws ! k) = t \<and> type (allFields ws ! k) = Terminal
        \<and> allFields (workspace (updateTerminalCwd ws w t v now config))
            = (allFields ws)[k := (allFields ws ! k)\<lparr>cwd := Some v\<rparr>])"
proof -
  from assms obtain wt x where wt: "findWorktree ws w = Some wt"
    and x: "findTab (wt_tabs wt) t = Some x" and ty: "type (own x) = Terminal"
    by (auto simp: updateTerminalCwd_def split: option.splits if_splits)
  let ?ts = "withTab t (setCwd v) (wt_tabs wt)"
  have out: "workspace (updateTerminalCwd ws w t v now config)
      = (setTabs ws w ?ts)\<lparr>updatedAt := now\<rparr>"
    using wt x ty by (simp add: updateTerminalCwd_def Let_def setCwd_def[abs_def])
  from setTabs_found[OF wt, of ?ts] obtain i where i: "i < length (worktrees ws)"
    "worktrees ws ! i = wt"
    "setTabs ws w ?ts = ws\<lparr>worktrees := (worktrees ws)[i := wt\<lparr>wt_tabs := ?ts\<rparr>]\<rparr>"
    by blast
  from withTab_setCwd[OF x, of v] obtain k where
    e: "map eraseCwd ?ts = map eraseCwd (wt_tabs wt)"
    and k: "k < length (concat (map nodeFields (wt_tabs wt)))"
      "concat (map nodeFields (wt_tabs wt)) ! k = own x"
      "concat (map nodeFields ?ts) = (concat (map nodeFields (wt_tabs wt)))[k := (own x)\<lparr>cwd := Some v\<rparr>]"
    by blast
  have idx: "tab_id (own x) = t" using x by (rule findTab_id)
  let ?F = "\<lambda>wt. wt\<lparr>wt_tabs := map eraseCwd (wt_tabs wt)\<rparr>"
  have "?F (wt\<lparr>wt_tabs := ?ts\<rparr>) = map ?F (worktrees ws) ! i"
    using i(1,2) e by simp
  then have "map ?F ((worktrees ws)[i := wt\<lparr>wt_tabs := ?ts\<rparr>]) = map ?F (worktrees ws)"
    by (simp only: map_update list_update_id)
  then have blind: "cwdBlind (workspace (updateTerminalCwd ws w t v now config)) = cwdBlind ws"
    unfolding out i(3) cwdBlind_def by simp
  have stamp: "updatedAt (workspace (updateTerminalCwd ws w t v now config)) = now"
    unfolding out by simp
  let ?f = "\<lambda>wt. concat (map nodeFields (wt_tabs wt))"
  have fi: "?f (worktrees ws ! i) = concat (map nodeFields (wt_tabs wt))"
    using i(2) by simp
  have "\<exists>K < length (concat (map ?f (worktrees ws))).
           concat (map ?f (worktrees ws)) ! K = ?f (worktrees ws ! i) ! k
         \<and> concat (map ?f ((worktrees ws)[i := wt\<lparr>wt_tabs := ?ts\<rparr>]))
             = (concat (map ?f (worktrees ws)))[K := (own x)\<lparr>cwd := Some v\<rparr>]"
  proof (rule concat_map_update)
    show "i < length (worktrees ws)" by (rule i(1))
    show "k < length (?f (worktrees ws ! i))" unfolding fi by (rule k(1))
    show "?f (wt\<lparr>wt_tabs := ?ts\<rparr>) = (?f (worktrees ws ! i))[k := (own x)\<lparr>cwd := Some v\<rparr>]"
      unfolding fi using k(3) by simp
  qed
  then obtain K where K1: "K < length (concat (map ?f (worktrees ws)))"
    and K2: "concat (map ?f (worktrees ws)) ! K = ?f (worktrees ws ! i) ! k"
    and K3: "concat (map ?f ((worktrees ws)[i := wt\<lparr>wt_tabs := ?ts\<rparr>]))
             = (concat (map ?f (worktrees ws)))[K := (own x)\<lparr>cwd := Some v\<rparr>]"
    by blast
  have A1: "K < length (allFields ws)" using K1 by (simp only: allFields_def)
  have A2: "allFields ws ! K = own x" using K2 k(2) unfolding fi by (simp only: allFields_def)
  have "worktrees (workspace (updateTerminalCwd ws w t v now config))
      = (worktrees ws)[i := wt\<lparr>wt_tabs := ?ts\<rparr>]"
    unfolding out i(3) by simp
  then have A3: "allFields (workspace (updateTerminalCwd ws w t v now config))
       = (allFields ws)[K := (allFields ws ! K)\<lparr>cwd := Some v\<rparr>]"
    using K3 unfolding A2 by (simp only: allFields_def)
  have "tab_id (allFields ws ! K) = t" "type (allFields ws ! K) = Terminal"
    using idx ty by (simp_all only: A2)
  with A1 A3 have "\<exists>k < length (allFields ws).
          tab_id (allFields ws ! k) = t \<and> type (allFields ws ! k) = Terminal
        \<and> allFields (workspace (updateTerminalCwd ws w t v now config))
            = (allFields ws)[k := (allFields ws ! k)\<lparr>cwd := Some v\<rparr>]"
    by blast
  with blind stamp show ?thesis by blast
qed


text \<open>
  C10: \<^verbatim>\<open>updateTerminalCwd\<close> answers \<^verbatim>\<open>false\<close>, leaves the workspace as it
  was and writes nothing when the worktree is absent, when the tab is not found in the
  worktree's forest, or when the tab found is not a terminal. When it answers
  \<^verbatim>\<open>true\<close>, the workspace differs from the one before in \<^verbatim>\<open>updatedAt\<close>, which
  is the current time, and in the \<^verbatim>\<open>cwd\<close> of one node, a terminal with the given
  identifier, which is the new directory; every other field of every node, worktree and
  of the workspace is as before.
\<close>

theorem updateTerminalCwd_spec:
  "((findWorktree ws w = None
      \<or> (\<exists>wt. findWorktree ws w = Some wt
            \<and> (findTab (wt_tabs wt) t = None
               \<or> (\<exists>x. findTab (wt_tabs wt) t = Some x \<and> type (own x) \<noteq> Terminal))))
     \<longrightarrow> updateTerminalCwd ws w t v now config
           = \<lparr>result = False, workspace = ws, written = None\<rparr>)
   \<and> (result (updateTerminalCwd ws w t v now config) \<longrightarrow>
        cwdBlind (workspace (updateTerminalCwd ws w t v now config)) = cwdBlind ws
      \<and> updatedAt (workspace (updateTerminalCwd ws w t v now config)) = now
      \<and> (\<exists>k < length (allFields ws).
            tab_id (allFields ws ! k) = t \<and> type (allFields ws ! k) = Terminal
          \<and> allFields (workspace (updateTerminalCwd ws w t v now config))
              = (allFields ws)[k := (allFields ws ! k)\<lparr>cwd := Some v\<rparr>]))"
proof (intro conjI impI)
  assume "findWorktree ws w = None
      \<or> (\<exists>wt. findWorktree ws w = Some wt
            \<and> (findTab (wt_tabs wt) t = None
               \<or> (\<exists>x. findTab (wt_tabs wt) t = Some x \<and> type (own x) \<noteq> Terminal)))"
  then show "updateTerminalCwd ws w t v now config
           = \<lparr>result = False, workspace = ws, written = None\<rparr>"
    by (rule updateTerminalCwd_false)
next
  assume r: "result (updateTerminalCwd ws w t v now config)"
  from updateTerminalCwd_true[OF r]
  show "cwdBlind (workspace (updateTerminalCwd ws w t v now config)) = cwdBlind ws" by blast
  from updateTerminalCwd_true[OF r]
  show "updatedAt (workspace (updateTerminalCwd ws w t v now config)) = now" by blast
  from updateTerminalCwd_true[OF r]
  show "\<exists>k < length (allFields ws).
            tab_id (allFields ws ! k) = t \<and> type (allFields ws ! k) = Terminal
          \<and> allFields (workspace (updateTerminalCwd ws w t v now config))
              = (allFields ws)[k := (allFields ws ! k)\<lparr>cwd := Some v\<rparr>]" by blast
qed

theorem updateTerminalCwd_spec_witness:
  "updateTerminalCwd (sampleWorkspace sampleForest) ''wt-1'' ''GA'' ''/tmp'' ''now'' sampleStored
     = \<lparr>result = False, workspace = sampleWorkspace sampleForest, written = None\<rparr>
   \<and> result (updateTerminalCwd (sampleWorkspace sampleForest) ''wt-1'' ''Y'' ''/tmp'' ''now''
        sampleStored)
   \<and> updatedAt (workspace (updateTerminalCwd (sampleWorkspace sampleForest) ''wt-1'' ''Y''
        ''/tmp'' ''now'' sampleStored)) = ''now''
   \<and> map cwd (allFields (workspace (updateTerminalCwd (sampleWorkspace sampleForest) ''wt-1''
        ''Y'' ''/tmp'' ''now'' sampleStored)))
       = [None, None, Some ''/tmp'', None, None]"
proof -
  have ga: "findTab (wt_tabs (hd (worktrees (sampleWorkspace sampleForest)))) ''GA''
      = Some (hd sampleForest)"
    by (simp add: sampleForest_def sample_defs engine_defs)
  have wt: "findWorktree (sampleWorkspace sampleForest) ''wt-1''
      = Some (hd (worktrees (sampleWorkspace sampleForest)))"
    by (simp add: sample_defs engine_defs)
  have ty: "type (own (hd sampleForest)) \<noteq> Terminal"
    by (simp add: sampleForest_def sample_defs)
  have hyp1: "findWorktree (sampleWorkspace sampleForest) ''wt-1'' = None
      \<or> (\<exists>wt. findWorktree (sampleWorkspace sampleForest) ''wt-1'' = Some wt
            \<and> (findTab (wt_tabs wt) ''GA'' = None
               \<or> (\<exists>x. findTab (wt_tabs wt) ''GA'' = Some x \<and> type (own x) \<noteq> Terminal)))"
    using ga wt ty by blast
  have hyp2: "result (updateTerminalCwd (sampleWorkspace sampleForest) ''wt-1'' ''Y'' ''/tmp''
      ''now'' sampleStored)"
    by (simp add: updateTerminalCwd_def sampleForest_def sampleStored_def sample_defs engine_defs)
  have cw: "map cwd (allFields (workspace (updateTerminalCwd (sampleWorkspace sampleForest)
        ''wt-1'' ''Y'' ''/tmp'' ''now'' sampleStored))) = [None, None, Some ''/tmp'', None, None]"
    by (simp add: updateTerminalCwd_def allFields_def sampleForest_def sampleStored_def
        sample_defs engine_defs)
  show ?thesis
    using hyp1 hyp2 cw
      updateTerminalCwd_spec[of "sampleWorkspace sampleForest" "''wt-1''" "''GA''" "''/tmp''"
        "''now''" sampleStored]
      updateTerminalCwd_spec[of "sampleWorkspace sampleForest" "''wt-1''" "''Y''" "''/tmp''"
        "''now''" sampleStored]
    by blast
qed

section \<open>Deletion\<close>

text \<open>The identifiers of the nodes \<^verbatim>\<open>findTab\<close> can reach in a forest, in the order
  in which it visits them. Invariant 1 of the data model says that they are pairwise
  distinct.\<close>

function allIds :: "Tab list \<Rightarrow> string list" where
  "allIds [] = []"
| "allIds (tab # rest) =
     tab_id (own tab) # (case groupTabs tab of Some cs \<Rightarrow> allIds cs | None \<Rightarrow> []) @ allIds rest"
  by pat_completeness auto
termination
  by (relation "measure (size_list size)") (auto dest: groupTabs_size)

lemma allIds_append [simp]: "allIds (xs @ ys) = allIds xs @ allIds ys"
  by (induction xs) auto

lemma findTab_None_iff: "findTab ts i = None \<longleftrightarrow> i \<notin> set (allIds ts)"
  by (induction ts i rule: findTab.induct) (auto split: option.splits)

lemma findTab_sub: "findTab ts i = Some x \<Longrightarrow> set (allIds [x]) \<subseteq> set (allIds ts)"
  by (induction ts i rule: findTab.induct) (auto split: option.splits if_splits)

lemma top_ids: "t \<in> set ts \<Longrightarrow> set (allIds [t]) \<subseteq> set (allIds ts)"
  by (induction ts) (auto split: option.splits)

lemma findTab_top:
  "distinct (allIds ts) \<Longrightarrow> t \<in> set ts \<Longrightarrow> findTab ts (tab_id (own t)) = Some t"
proof (induction ts)
  case Nil
  then show ?case by simp
next
  case (Cons a rest)
  show ?case
  proof (cases "tab_id (own a) = tab_id (own t)")
    case True
    have "t = a"
    proof (rule ccontr)
      assume "t \<noteq> a"
      with Cons.prems(2) have "t \<in> set rest" by simp
      from top_ids[OF this] have "tab_id (own t) \<in> set (allIds rest)" by simp
      with Cons.prems(1) True show False by simp
    qed
    then show ?thesis by simp
  next
    case False
    with Cons.prems(2) have tr: "t \<in> set rest" by auto
    from top_ids[OF tr] have inr: "tab_id (own t) \<in> set (allIds rest)" by simp
    have d: "distinct (allIds rest)" using Cons.prems(1) by simp
    have "\<And>cs. groupTabs a = Some cs \<Longrightarrow> findTab cs (tab_id (own t)) = None"
      using Cons.prems(1) inr by (auto simp: findTab_None_iff)
    then show ?thesis using False Cons.IH[OF d tr] by (auto split: option.splits)
  qed
qed

lemma groupTabs_Tab [simp]:
  "groupTabs (Tab f kids) = (if type f = Group then kids else None)"
  by (simp add: groupTabs_def)

lemma groupTabs_setPosition [simp]: "groupTabs (setPosition c i t) = groupTabs t"
  by (simp add: setPosition_def groupTabs_def)

lemma tab_id_setPosition [simp]: "tab_id (own (setPosition c i t)) = tab_id (own t)"
  by (simp add: setPosition_def)

lemma allIds_cong:
  "length xs = length ys \<Longrightarrow>
   (\<And>i. i < length xs \<Longrightarrow> tab_id (own (xs ! i)) = tab_id (own (ys ! i))
                           \<and> groupTabs (xs ! i) = groupTabs (ys ! i)) \<Longrightarrow>
   allIds xs = allIds ys"
proof (induction xs ys rule: list_induct2)
  case Nil
  then show ?case by simp
next
  case (Cons x xs y ys)
  have "allIds xs = allIds ys"
  proof (rule Cons.IH)
    fix i assume "i < length xs"
    then show "tab_id (own (xs ! i)) = tab_id (own (ys ! i)) \<and> groupTabs (xs ! i) = groupTabs (ys ! i)"
      using Cons.prems[of "Suc i"] by simp
  qed
  moreover have "tab_id (own x) = tab_id (own y) \<and> groupTabs x = groupTabs y"
    using Cons.prems[of 0] by simp
  ultimately show ?case by simp
qed

lemma allIds_recalculate [simp]: "allIds (recalculateTabPositions ts c) = allIds ts"
  by (rule allIds_cong) simp_all

lemma remove_None_iff:
  "(removeTabRecursive ts x = None) = (findTab ts x = None)"
  "(\<forall>t \<in> set ts. tab_id (own t) \<noteq> x) \<Longrightarrow> (removeNested ts x = None) = (findTab ts x = None)"
proof (induction ts x and ts x rule: removeTabRecursive_removeNested.induct)
  case (1 ts tabId)
  show ?case
  proof (cases "findIndex (\<lambda>t. tab_id (own t) = tabId) ts")
    case None
    then have "\<forall>t \<in> set ts. tab_id (own t) \<noteq> tabId" by (simp add: findIndex_None)
    with 1[OF None] None show ?thesis by simp
  next
    case (Some k)
    from findIndex_Some[OF Some] have "k < length ts" "tab_id (own (ts ! k)) = tabId" by auto
    then have "ts ! k \<in> set ts" by simp
    from top_ids[OF this] have "tabId \<in> set (allIds ts)"
      using \<open>tab_id (own (ts ! k)) = tabId\<close> by auto
    then show ?thesis using Some by (simp add: findTab_None_iff)
  qed
next
  case (2 tabId)
  then show ?case by simp
next
  case (3 tab rest tabId)
  then show ?case by (auto split: option.splits)
qed


lemma remove_ids:
  "removeTabRecursive ts x = Some ts' \<Longrightarrow> distinct (allIds ts) \<Longrightarrow> findTab ts x = Some X \<Longrightarrow>
     \<exists>A B. allIds ts = A @ allIds [X] @ B \<and> allIds ts' = A @ B"
  "removeNested ts x = Some ts' \<Longrightarrow> \<forall>t \<in> set ts. tab_id (own t) \<noteq> x \<Longrightarrow>
     distinct (allIds ts) \<Longrightarrow> findTab ts x = Some X \<Longrightarrow>
     \<exists>A B. allIds ts = A @ allIds [X] @ B \<and> allIds ts' = A @ B"
proof (induction ts x and ts x arbitrary: ts' X and ts' X
    rule: removeTabRecursive_removeNested.induct)
  case (1 ts tabId)
  show ?case
  proof (cases "findIndex (\<lambda>t. tab_id (own t) = tabId) ts")
    case None
    then have top: "\<forall>t \<in> set ts. tab_id (own t) \<noteq> tabId" by (simp add: findIndex_None)
    from "1.prems"(1) None have "removeNested ts tabId = Some ts'" by simp
    from "1.IH"[OF None this top "1.prems"(2,3)] show ?thesis .
  next
    case (Some k)
    from findIndex_Some[OF Some] have k: "k < length ts" "tab_id (own (ts ! k)) = tabId" by auto
    then have "ts ! k \<in> set ts" by simp
    from findTab_top[OF "1.prems"(2) this] k(2) "1.prems"(3) have X: "X = ts ! k" by simp
    have ts': "ts' = take k ts @ drop (Suc k) ts"
      using "1.prems"(1) Some by (simp add: spliceOut_def)
    have "ts = take k ts @ [X] @ drop (Suc k) ts"
      using k(1) X by (simp add: id_take_nth_drop)
    then have "allIds ts = allIds (take k ts) @ allIds [X] @ allIds (drop (Suc k) ts)"
      by (metis allIds_append)
    moreover have "allIds ts' = allIds (take k ts) @ allIds (drop (Suc k) ts)"
      by (simp add: ts')
    ultimately show ?thesis by blast
  qed
next
  case (2 tabId)
  then show ?case by simp
next
  case (3 tab rest tabId)
  from "3.prems"(2) have ne: "tab_id (own tab) \<noteq> tabId"
    and top: "\<forall>t \<in> set rest. tab_id (own t) \<noteq> tabId" by simp_all
  show ?case
  proof (cases "groupTabs tab")
    case None
    with "3.prems"(1) obtain rest' where r: "removeNested rest tabId = Some rest'"
      and ts': "ts' = tab # rest'" by auto
    have d: "distinct (allIds rest)" using "3.prems"(3) by simp
    have f: "findTab rest tabId = Some X" using "3.prems"(4) ne None by simp
    from "3.IH"(1)[OF None r top d f] obtain A B where
      "allIds rest = A @ allIds [X] @ B" "allIds rest' = A @ B" by blast
    then have "allIds (tab # rest) = (tab_id (own tab) # A) @ allIds [X] @ B"
      "allIds ts' = (tab_id (own tab) # A) @ B"
      using None by (simp_all add: ts')
    then show ?thesis by blast
  next
    case (Some cs)
    show ?thesis
    proof (cases "removeTabRecursive cs tabId")
      case None
      with Some "3.prems"(1) obtain rest' where r: "removeNested rest tabId = Some rest'"
        and ts': "ts' = tab # rest'" by auto
      have d: "distinct (allIds rest)" using "3.prems"(3) by simp
      from None have "findTab cs tabId = None" using remove_None_iff(1)[of cs tabId] by blast
      then have f: "findTab rest tabId = Some X" using "3.prems"(4) ne Some by simp
      from "3.IH"(3)[OF Some None r top d f] obtain A B where
        "allIds rest = A @ allIds [X] @ B" "allIds rest' = A @ B" by blast
      then have "allIds (tab # rest) = (tab_id (own tab) # allIds cs @ A) @ allIds [X] @ B"
        "allIds ts' = (tab_id (own tab) # allIds cs @ A) @ B"
        using Some by (simp_all add: ts')
      then show ?thesis by blast
    next
      case (Some cs')
      note g = \<open>groupTabs tab = Some cs\<close>
      let ?cs = "if truthyNum (cols (own tab))
                 then recalculateTabPositions cs' (the (cols (own tab))) else cs'"
      have ts': "ts' = Tab (own tab) (Some ?cs) # rest"
        using "3.prems"(1) g Some by simp
      have ty: "type (own tab) = Group" using g by (simp add: groupTabs_def split: if_splits)
      have d: "distinct (allIds cs)" using "3.prems"(3) g by simp
      from Some have "findTab cs tabId \<noteq> None" using remove_None_iff(1)[of cs tabId] by auto
      then have f: "findTab cs tabId = Some X" using "3.prems"(4) ne g by auto
      from "3.IH"(2)[OF g Some d f] obtain A B where
        AB: "allIds cs = A @ allIds [X] @ B" "allIds cs' = A @ B" by blast
      have "allIds ?cs = A @ B" using AB(2) by simp
      then have "allIds ts' = (tab_id (own tab) # A) @ (B @ allIds rest)"
        using ty by (simp add: ts')
      moreover have "allIds (tab # rest) = (tab_id (own tab) # A) @ allIds [X] @ (B @ allIds rest)"
        using g AB(1) by simp
      ultimately show ?thesis by blast
    qed
  qed
qed

lemma find_update_first:
  assumes "findIndex p xs = Some i" "p y"
  shows "find p (xs[i := y]) = Some y"
proof -
  from findIndex_Some[OF assms(1)] have i: "i < length xs" "\<forall>j < i. \<not> p (xs ! j)" by auto
  have "\<exists>k < length (xs[i := y]). p (xs[i := y] ! k) \<and> y = xs[i := y] ! k
          \<and> (\<forall>j < k. \<not> p (xs[i := y] ! j))"
    using i assms(2) by (intro exI[of _ i]) auto
  then show ?thesis by (simp only: find_Some_iff)
qed

lemma findWorktree_setTabs:
  assumes "findWorktree ws w = Some wt"
  shows "findWorktree (setTabs ws w ts) w = Some (wt\<lparr>wt_tabs := ts\<rparr>)"
proof -
  from assms obtain i where i: "findIndex (\<lambda>x. wt_id x = w) (worktrees ws) = Some i"
    "i < length (worktrees ws)" "worktrees ws ! i = wt"
    unfolding findWorktree_def by (blast dest: find_findIndex)
  from findIndex_Some[OF i(1)] i(3) have "wt_id wt = w" by auto
  then have "find (\<lambda>x. wt_id x = w) ((worktrees ws)[i := wt\<lparr>wt_tabs := ts\<rparr>])
      = Some (wt\<lparr>wt_tabs := ts\<rparr>)"
    by (intro find_update_first[OF i(1)]) simp
  then show ?thesis using i by (simp add: findWorktree_def setTabs_def)
qed

text \<open>
  C6: a successful \<^verbatim>\<open>deleteTab\<close> of a tab removes the tab and all of its
  descendants: afterwards \<^verbatim>\<open>findTab\<close> on the worktree's forest finds neither the
  deleted tab's identifier nor the identifier of any node of its subtree. The forest is
  one of the data model, with pairwise distinct identifiers.
\<close>

theorem deleteTab_cascades:
  assumes "findWorktree ws w = Some wt"
    and "distinct (allIds (wt_tabs wt))"
    and "findTab (wt_tabs wt) t = Some X"
    and "result (deleteTab ws w t now config) = Success ()"
    and "i \<in> set (allIds [X])"
  shows "\<exists>wt'. findWorktree (workspace (deleteTab ws w t now config)) w = Some wt'
           \<and> findTab (wt_tabs wt') i = None"
proof -
  from assms(1,4) obtain ts' where r: "removeTabRecursive (wt_tabs wt) t = Some ts'"
    by (auto simp: deleteTab_def split: option.splits)
  from remove_ids(1)[OF r assms(2,3)] obtain A B where
    AB: "allIds (wt_tabs wt) = A @ allIds [X] @ B" "allIds ts' = A @ B" by blast
  from assms(2) AB(1) have "set (allIds [X]) \<inter> (set A \<union> set B) = {}"
    by (metis distinct_append Int_Un_distrib Un_empty inf_commute set_append)
  with assms(5) AB(2) have "i \<notin> set (allIds ts')" by auto
  then have none: "findTab ts' i = None" by (simp add: findTab_None_iff)
  have "workspace (deleteTab ws w t now config) = (setTabs ws w ts')\<lparr>updatedAt := now\<rparr>"
    using assms(1) r by (simp add: deleteTab_def commit_def Let_def)
  then have "findWorktree (workspace (deleteTab ws w t now config)) w = Some (wt\<lparr>wt_tabs := ts'\<rparr>)"
    using findWorktree_setTabs[OF assms(1), of ts'] by (simp add: findWorktree_def)
  with none show ?thesis by simp
qed


theorem deleteTab_cascades_witness:
  "findWorktree (sampleWorkspace sampleForest) ''wt-1''
     = Some (hd (worktrees (sampleWorkspace sampleForest)))
   \<and> distinct (allIds (wt_tabs (hd (worktrees (sampleWorkspace sampleForest)))))
   \<and> findTab (wt_tabs (hd (worktrees (sampleWorkspace sampleForest)))) ''GA''
       = Some (hd sampleForest)
   \<and> result (deleteTab (sampleWorkspace sampleForest) ''wt-1'' ''GA'' ''now'' sampleStored)
       = Success ()
   \<and> ''X'' \<in> set (allIds [hd sampleForest])
   \<and> (\<exists>wt'. findWorktree (workspace (deleteTab (sampleWorkspace sampleForest) ''wt-1'' ''GA''
                 ''now'' sampleStored)) ''wt-1'' = Some wt'
           \<and> findTab (wt_tabs wt') ''X'' = None)"
proof -
  have a: "findWorktree (sampleWorkspace sampleForest) ''wt-1''
     = Some (hd (worktrees (sampleWorkspace sampleForest)))"
    by (simp add: sample_defs engine_defs)
  have b: "distinct (allIds (wt_tabs (hd (worktrees (sampleWorkspace sampleForest)))))"
    by (simp add: sampleForest_def sample_defs)
  have c: "findTab (wt_tabs (hd (worktrees (sampleWorkspace sampleForest)))) ''GA''
       = Some (hd sampleForest)"
    by (simp add: sampleForest_def sample_defs)
  have d: "result (deleteTab (sampleWorkspace sampleForest) ''wt-1'' ''GA'' ''now'' sampleStored)
       = Success ()"
    by (simp add: deleteTab_def sampleForest_def sampleStored_def sample_defs engine_defs)
  have e: "''X'' \<in> set (allIds [hd sampleForest])"
    by (simp add: sampleForest_def sample_defs)
  from deleteTab_cascades[OF a b c d e] a b c d e show ?thesis by blast
qed

section \<open>Deletion and positions\<close>

lemma strip_same_id: "stripPosition a = stripPosition b \<Longrightarrow> tab_id (own a) = tab_id (own b)"
  by (cases a; cases b) (auto simp: stripPosition_def dest: arg_cong[where f = tab_id])

lemma strip_same_groupTabs: "stripPosition a = stripPosition b \<Longrightarrow> groupTabs a = groupTabs b"
  by (cases a; cases b) (auto simp: stripPosition_def dest: arg_cong[where f = type])

lemma strip_same_cols: "stripPosition a = stripPosition b \<Longrightarrow> cols (own a) = cols (own b)"
  by (cases a; cases b) (auto simp: stripPosition_def dest: arg_cong[where f = cols])

lemma strip_same_tabs: "stripPosition a = stripPosition b \<Longrightarrow> tabs a = tabs b"
  by (cases a; cases b) (auto simp: stripPosition_def)

lemma findTab_strip:
  "map stripPosition xs = map stripPosition ys \<Longrightarrow>
   map_option stripPosition (findTab xs p) = map_option stripPosition (findTab ys p)"
proof (induction xs arbitrary: ys)
  case Nil
  then show ?case by simp
next
  case (Cons x xs)
  then obtain y ys' where ys: "ys = y # ys'" and xy: "stripPosition x = stripPosition y"
    and rest: "map stripPosition xs = map stripPosition ys'" by (cases ys) auto
  note i = strip_same_id[OF xy] and g = strip_same_groupTabs[OF xy]
  show ?case
    using Cons.IH[OF rest] xy i g by (auto simp: ys split: option.splits)
qed

lemma findTab_recalculate:
  "map_option stripPosition (findTab (recalculateTabPositions cs c) p)
     = map_option stripPosition (findTab cs p)"
  by (rule findTab_strip) (rule recalculate_strip)

lemma top_not_below:
  "distinct (allIds ts) \<Longrightarrow> findTab ts p = Some g \<Longrightarrow> groupTabs g = Some cs \<Longrightarrow>
   t \<in> set ts \<Longrightarrow> tab_id (own t) \<notin> set (allIds cs)"
proof (induction ts)
  case Nil
  then show ?case by simp
next
  case (Cons a rest)
  have sub: "\<And>us. findTab us p = Some g \<Longrightarrow> set (allIds cs) \<subseteq> set (allIds us)"
    using findTab_sub Cons.prems(3) by fastforce
  have tin: "t \<noteq> a \<Longrightarrow> tab_id (own t) \<in> set (allIds rest)"
    using Cons.prems(4) top_ids[of t rest] by auto
  show ?case
  proof (cases "tab_id (own a) = p")
    case True
    with Cons.prems(2) have "g = a" by simp
    then show ?thesis using Cons.prems(1,3) tin by (cases "t = a") auto
  next
    case False
    show ?thesis
    proof (cases "groupTabs a")
      case None
      with False Cons.prems(2) have f: "findTab rest p = Some g" by simp
      show ?thesis
      proof (cases "t = a")
        case True
        then show ?thesis using sub[OF f] Cons.prems(1) by auto
      next
        case False
        with Cons.prems(4) have "t \<in> set rest" by simp
        with Cons.IH f Cons.prems(1,3) show ?thesis by simp
      qed
    next
      case (Some cs0)
      show ?thesis
      proof (cases "findTab cs0 p")
        case None
        with False Some Cons.prems(2) have f: "findTab rest p = Some g" by simp
        show ?thesis
        proof (cases "t = a")
          case True
          then show ?thesis using sub[OF f] Cons.prems(1) by auto
        next
          case False
          with Cons.prems(4) have "t \<in> set rest" by simp
          with Cons.IH f Cons.prems(1,3) show ?thesis by simp
        qed
      next
        case (Some g0)
        with False \<open>groupTabs a = Some cs0\<close> Cons.prems(2) have f: "findTab cs0 p = Some g" by simp
        show ?thesis
          using sub[OF f] Cons.prems(1) \<open>groupTabs a = Some cs0\<close> tin by (cases "t = a") auto
      qed
    qed
  qed
qed

lemma removeNested_own: "removeNested ts x = Some ts' \<Longrightarrow> map own ts' = map own ts"
proof (induction ts arbitrary: ts')
  case Nil
  then show ?case by simp
next
  case (Cons a rest)
  then show ?case by (auto split: option.splits)
qed


text \<open>What \<^verbatim>\<open>removeTabRecursive\<close> stores in a group \<open>g\<close> whose child array has
  become \<open>cs'\<close> by a removal below it: the recalculated array when the group's
  \<^verbatim>\<open>cols\<close> is set and not zero, the array as it is otherwise.\<close>

definition afterRemoval :: "Tab \<Rightarrow> Tab list \<Rightarrow> Tab list" where
  "afterRemoval g cs' =
     (if truthyNum (cols (own g)) then recalculateTabPositions cs' (the (cols (own g))) else cs')"

lemma remove_path:
  "removeTabRecursive ts x = Some ts' \<Longrightarrow> distinct (allIds ts) \<Longrightarrow> findTab ts p = Some g \<Longrightarrow>
     groupTabs g = Some cs \<Longrightarrow> findTab cs x \<noteq> None \<Longrightarrow>
     \<exists>g' cs'. findTab ts' p = Some g' \<and> removeTabRecursive cs x = Some cs'
        \<and> groupTabs g' = Some (afterRemoval g cs')
        \<and> own (stripPosition g') = own (stripPosition g)"
  "removeNested ts x = Some ts' \<Longrightarrow> distinct (allIds ts) \<Longrightarrow> findTab ts p = Some g \<Longrightarrow>
     groupTabs g = Some cs \<Longrightarrow> findTab cs x \<noteq> None \<Longrightarrow>
     \<exists>g' cs'. findTab ts' p = Some g' \<and> removeTabRecursive cs x = Some cs'
        \<and> groupTabs g' = Some (afterRemoval g cs')
        \<and> own (stripPosition g') = own (stripPosition g)"
proof (induction ts x and ts x arbitrary: ts' g cs and ts' g cs
    rule: removeTabRecursive_removeNested.induct)
  case (1 ts tabId)
  show ?case
  proof (cases "findIndex (\<lambda>t. tab_id (own t) = tabId) ts")
    case None
    from "1.prems"(1) None have "removeNested ts tabId = Some ts'" by simp
    from "1.IH"[OF None this "1.prems"(2-5)] show ?thesis .
  next
    case (Some k)
    from findIndex_Some[OF Some] have k: "ts ! k \<in> set ts" "tab_id (own (ts ! k)) = tabId"
      by auto
    from top_not_below[OF "1.prems"(2,3,4) k(1)] k(2) "1.prems"(5)
    show ?thesis by (simp add: findTab_None_iff)
  qed
next
  case (2 tabId)
  then show ?case by simp
next
  case (3 tab rest tabId)
  have xin: "tabId \<in> set (allIds cs)" using "3.prems"(5) by (simp add: findTab_None_iff)
  have below: "\<And>us. findTab us p = Some g \<Longrightarrow> tabId \<in> set (allIds us)"
    using findTab_sub "3.prems"(4) xin by fastforce
  have d: "distinct (allIds rest)" using "3.prems"(2) by simp
  show ?case
  proof (cases "groupTabs tab")
    case None
    with "3.prems"(1) obtain rest' where r: "removeNested rest tabId = Some rest'"
      and ts': "ts' = tab # rest'" by auto
    show ?thesis
    proof (cases "tab_id (own tab) = p")
      case True
      with "3.prems"(3) have "g = tab" by simp
      with None "3.prems"(4) show ?thesis by simp
    next
      case False
      with None "3.prems"(3) have f: "findTab rest p = Some g" by simp
      from "3.IH"(1)[OF None r d f "3.prems"(4,5)] False None
      show ?thesis by (simp add: ts')
    qed
  next
    case (Some cs0)
    note g0 = Some
    have d0: "distinct (allIds cs0)" using "3.prems"(2) g0 by simp
    have disj: "set (allIds cs0) \<inter> set (allIds rest) = {}" using "3.prems"(2) g0 by auto
    show ?thesis
    proof (cases "removeTabRecursive cs0 tabId")
      case None
      then have n0: "findTab cs0 tabId = None" using remove_None_iff(1)[of cs0 tabId] by blast
      from None g0 "3.prems"(1) obtain rest' where r: "removeNested rest tabId = Some rest'"
        and ts': "ts' = tab # rest'" by auto
      show ?thesis
      proof (cases "tab_id (own tab) = p")
        case True
        with "3.prems"(3) have "g = tab" by simp
        with g0 "3.prems"(4,5) n0 show ?thesis by simp
      next
        case False
        have "findTab cs0 p = None"
        proof (cases "findTab cs0 p")
          case (Some g1)
          with False g0 "3.prems"(3) have "findTab cs0 p = Some g" by simp
          from below[OF this] n0 show ?thesis by (simp add: findTab_None_iff)
        qed simp
        with False g0 "3.prems"(3) have f: "findTab rest p = Some g" by simp
        from "3.IH"(3)[OF g0 None r d f "3.prems"(4,5)] False g0 \<open>findTab cs0 p = None\<close>
        show ?thesis by (simp add: ts')
      qed
    next
      case (Some cs0')
      have ts': "ts' = Tab (own tab) (Some (afterRemoval tab cs0')) # rest"
        using "3.prems"(1) g0 Some by (simp add: afterRemoval_def)
      have ty: "type (own tab) = Group" using g0 by (simp add: groupTabs_def split: if_splits)
      from Some have x0: "tabId \<in> set (allIds cs0)"
        using remove_None_iff(1)[of cs0 tabId] by (auto simp: findTab_None_iff)
      show ?thesis
      proof (cases "tab_id (own tab) = p")
        case True
        with "3.prems"(3) have "g = tab" by simp
        with g0 "3.prems"(4) Some True ty show ?thesis by (simp add: ts' stripPosition_def)
      next
        case False
        have f: "findTab cs0 p = Some g"
        proof (cases "findTab cs0 p")
          case None
          with False g0 "3.prems"(3) have "findTab rest p = Some g" by simp
          from below[OF this] x0 disj show ?thesis by auto
        next
          case (Some g1)
          with False g0 "3.prems"(3) show ?thesis by simp
        qed
        from "3.IH"(2)[OF g0 Some d0 f "3.prems"(4,5)] obtain g' cs' where
          g': "findTab cs0' p = Some g'" "removeTabRecursive cs tabId = Some cs'"
            "groupTabs g' = Some (afterRemoval g cs')"
            "own (stripPosition g') = own (stripPosition g)" by blast
        have "\<exists>g''. findTab (afterRemoval tab cs0') p = Some g'' \<and> groupTabs g'' = groupTabs g'
            \<and> own (stripPosition g'') = own (stripPosition g')"
        proof (cases "truthyNum (cols (own tab))")
          case True
          from findTab_recalculate[of cs0' "the (cols (own tab))" p] g'(1)
          obtain g'' where "findTab (recalculateTabPositions cs0' (the (cols (own tab)))) p = Some g''"
            "stripPosition g'' = stripPosition g'" by (auto simp: map_option_case split: option.splits)
          then show ?thesis using True by (auto simp: afterRemoval_def dest: strip_same_groupTabs)
        next
          case False
          then show ?thesis using g'(1) by (simp add: afterRemoval_def)
        qed
        then show ?thesis using g'(2,3,4) False ty by (auto simp: ts')
      qed
    qed
  qed
qed

lemma removeNested_shape:
  "removeNested ts x = Some ts' \<Longrightarrow>
   \<exists>j kids kids'. j < length ts \<and> groupTabs (ts ! j) = Some kids
      \<and> removeTabRecursive kids x = Some kids'
      \<and> ts' = ts[j := Tab (own (ts ! j)) (Some (afterRemoval (ts ! j) kids'))]"
proof (induction ts arbitrary: ts')
  case Nil
  then show ?case by simp
next
  case (Cons a rest)
  show ?case
  proof (cases "\<exists>cs cs'. groupTabs a = Some cs \<and> removeTabRecursive cs x = Some cs'")
    case True
    then obtain cs cs' where c: "groupTabs a = Some cs" "removeTabRecursive cs x = Some cs'"
      by blast
    with Cons.prems have "ts' = (a # rest)[0 := Tab (own a) (Some (afterRemoval a cs'))]"
      by (simp add: afterRemoval_def)
    with c show ?thesis by (intro exI[of _ 0] exI[of _ cs] exI[of _ cs']) simp
  next
    case False
    with Cons.prems obtain rest' where r: "removeNested rest x = Some rest'"
      and ts': "ts' = a # rest'" by (auto split: option.splits)
    from Cons.IH[OF r] obtain j kids kids' where
      j: "j < length rest" "groupTabs (rest ! j) = Some kids"
         "removeTabRecursive kids x = Some kids'"
         "rest' = rest[j := Tab (own (rest ! j)) (Some (afterRemoval (rest ! j) kids'))]"
      by blast
    then show ?thesis
      by (intro exI[of _ "Suc j"] exI[of _ kids] exI[of _ kids']) (simp add: ts')
  qed
qed

lemma findTab_child:
  "distinct (allIds ts) \<Longrightarrow> findTab ts p = Some g \<Longrightarrow> groupTabs g = Some cs \<Longrightarrow>
   findTab cs q = Some c \<Longrightarrow> findTab ts q = Some c"
proof (induction ts p rule: findTab.induct)
  case (1 tabId)
  then show ?case by simp
next
  case (2 tab rest tabId)
  have qin: "q \<in> set (allIds cs)" using "2.prems"(4) findTab_None_iff[of cs q] by auto
  have below: "\<And>us. findTab us tabId = Some g \<Longrightarrow> q \<in> set (allIds us)"
    using findTab_sub "2.prems"(3) qin by fastforce
  show ?case
  proof (cases "tab_id (own tab) = tabId")
    case True
    with "2.prems"(2) have "g = tab" by simp
    with "2.prems"(1,3,4) qin show ?thesis by auto
  next
    case False
    show ?thesis
    proof (cases "groupTabs tab")
      case None
      with False "2.prems"(2) have f: "findTab rest tabId = Some g" by simp
      from below[OF f] "2.prems"(1) have "tab_id (own tab) \<noteq> q" by auto
      moreover from "2.IH"(1)[OF False None _ f "2.prems"(3,4)] "2.prems"(1)
      have "findTab rest q = Some c" by simp
      ultimately show ?thesis using None by simp
    next
      case (Some cs0)
      show ?thesis
      proof (cases "findTab cs0 tabId")
        case None
        with False Some "2.prems"(2) have f: "findTab rest tabId = Some g" by simp
        from below[OF f] "2.prems"(1) Some have "tab_id (own tab) \<noteq> q" "q \<notin> set (allIds cs0)"
          by auto
        moreover from "2.IH"(3)[OF False Some None _ f "2.prems"(3,4)] "2.prems"(1)
        have "findTab rest q = Some c" by simp
        ultimately show ?thesis using Some findTab_None_iff[of cs0 q] by simp
      next
        case (Some g0)
        with False \<open>groupTabs tab = Some cs0\<close> "2.prems"(2) have f: "findTab cs0 tabId = Some g"
          by simp
        from below[OF f] "2.prems"(1) \<open>groupTabs tab = Some cs0\<close> have "tab_id (own tab) \<noteq> q"
          by auto
        moreover from "2.IH"(2)[OF False \<open>groupTabs tab = Some cs0\<close> _ f "2.prems"(3,4)]
          "2.prems"(1) \<open>groupTabs tab = Some cs0\<close>
        have "findTab cs0 q = Some c" by simp
        ultimately show ?thesis using \<open>groupTabs tab = Some cs0\<close> by simp
      qed
    qed
  qed
qed

lemma groupTabs_tabs: "groupTabs g = Some cs \<Longrightarrow> tabs g = Some cs"
  by (simp add: groupTabs_def split: if_splits)

lemma own_afterRemoval:
  "map (\<lambda>c. own (stripPosition c)) (afterRemoval g cs) = map (\<lambda>c. own (stripPosition c)) cs"
proof -
  have "map stripPosition (afterRemoval g cs) = map stripPosition cs"
    by (simp add: afterRemoval_def recalculate_strip)
  then have "map own (map stripPosition (afterRemoval g cs)) = map own (map stripPosition cs)"
    by (rule arg_cong)
  then show ?thesis by (simp add: comp_def)
qed

lemma findTab_distinct:
  "findTab ts p = Some g \<Longrightarrow> distinct (allIds ts) \<Longrightarrow> groupTabs g = Some cs \<Longrightarrow>
   distinct (allIds cs)"
  by (induction ts p rule: findTab.induct) (auto split: option.splits if_splits)

lemma removed_children:
  assumes r: "removeTabRecursive ts x = Some ts'"
    and d: "distinct (allIds ts)"
    and n: "removeNested cs x = Some cs'"
    and sub: "\<And>c. c \<in> set cs \<Longrightarrow> findTab ts (tab_id (own c)) = Some c"
  shows "\<exists>j kids gj'. j < length cs \<and> groupTabs (cs ! j) = Some kids \<and> findTab kids x \<noteq> None
           \<and> findTab ts' (tab_id (own (cs ! j))) = Some gj'
           \<and> cs' = cs[j := Tab (own (cs ! j)) (tabs gj')]"
proof -
  from removeNested_shape[OF n] obtain j kids kids' where
    j: "j < length cs" "groupTabs (cs ! j) = Some kids" "removeTabRecursive kids x = Some kids'"
       "cs' = cs[j := Tab (own (cs ! j)) (Some (afterRemoval (cs ! j) kids'))]" by blast
  from j(3) have below: "findTab kids x \<noteq> None" using remove_None_iff(1)[of kids x] by simp
  from j(1) have f: "findTab ts (tab_id (own (cs ! j))) = Some (cs ! j)" by (simp add: sub)
  from remove_path(1)[OF r d f j(2) below] j(3) obtain gj' where
    gj: "findTab ts' (tab_id (own (cs ! j))) = Some gj'"
        "groupTabs gj' = Some (afterRemoval (cs ! j) kids')" by auto
  from groupTabs_tabs[OF gj(2)] j(4) have "cs' = cs[j := Tab (own (cs ! j)) (tabs gj')]" by simp
  with j(1,2) below gj(1) show ?thesis by blast
qed


text \<open>A group \<open>G\<close> holding one group \<open>P\<close>, placed at order 3, which holds the
  terminals \<open>X\<close> and \<open>Y\<close>.\<close>

definition nestedForest :: "Tab list" where
  "nestedForest =
     [sampleTab ''G'' Group (Some 2) None
        (Some [sampleTab ''P'' Group (Some 2) (Some (Num 3))
                 (Some [sampleTab ''X'' Terminal None (Some (Num 0)) None,
                        sampleTab ''Y'' Terminal None (Some (Num 1)) None])])]"

text \<open>
  C5 (as amended): after a successful \<^verbatim>\<open>deleteTab\<close> of a node \<open>t\<close> nested inside a
  group, let \<open>g\<close> be any group that had the node in its subtree (the immediate parent
  or a group above it), with child array \<open>cs\<close>, and let \<open>g'\<close> be the tab found under
  the same identifier afterwards. Then \<open>g'\<close> has the fields of \<open>g\<close> apart from its own
  position, and its child array is as follows.

  \<^item> If \<open>t\<close> is a direct child, at index \<open>k\<close>: the array \<open>cs\<close> without its element
    \<open>k\<close>, recalculated against the \<^verbatim>\<open>cols\<close> of \<open>g\<close> when that is set and not zero.
  \<^item> If \<open>t\<close> lies deeper: the array \<open>cs\<close> itself, in which only the child \<open>cs ! j\<close>
    whose subtree held \<open>t\<close> has a new child array (the one found under its identifier
    afterwards) and keeps its own fields, and every other child is as it was with its
    whole subtree; this array is recalculated against the \<^verbatim>\<open>cols\<close> of \<open>g\<close> when
    that is set and not zero. So the children are the same nodes in the same sequence
    with the same fields apart from \<^verbatim>\<open>order\<close>, \<^verbatim>\<open>row\<close> and \<^verbatim>\<open>col\<close>, and they keep
    these three as well when \<open>g\<close> has no \<^verbatim>\<open>cols\<close> or \<^verbatim>\<open>cols\<close> zero.

  The top-level array of the worktree is never recalculated: it is the old array in
  which only the tab whose subtree held \<open>t\<close> has a new child array. Identifiers are
  pairwise distinct.
\<close>

theorem deleteTab_recalculates_path:
  assumes "findWorktree ws w = Some wt"
    and "distinct (allIds (wt_tabs wt))"
    and "result (deleteTab ws w t now config) = Success ()"
    and "findTab (wt_tabs wt) p = Some g"
    and "groupTabs g = Some cs"
    and "findTab cs t \<noteq> None"
  shows "\<exists>wt' g'.
      findWorktree (workspace (deleteTab ws w t now config)) w = Some wt'
    \<and> findTab (wt_tabs wt') p = Some g'
    \<and> own (stripPosition g') = own (stripPosition g)
    \<and> (\<forall>k. findIndex (\<lambda>c. tab_id (own c) = t) cs = Some k \<longrightarrow>
          groupTabs g' = Some (afterRemoval g (spliceOut k cs)))
    \<and> (findIndex (\<lambda>c. tab_id (own c) = t) cs = None \<longrightarrow>
          (\<exists>j kids gj'. j < length cs \<and> groupTabs (cs ! j) = Some kids \<and> findTab kids t \<noteq> None
             \<and> findTab (wt_tabs wt') (tab_id (own (cs ! j))) = Some gj'
             \<and> groupTabs g' = Some (afterRemoval g (cs[j := Tab (own (cs ! j)) (tabs gj')])))
          \<and> map (\<lambda>c. own (stripPosition c)) (tabsOr g') = map (\<lambda>c. own (stripPosition c)) cs
          \<and> (\<not> truthyNum (cols (own g)) \<longrightarrow> map own (tabsOr g') = map own cs))
    \<and> (\<exists>j kids gj'. j < length (wt_tabs wt) \<and> groupTabs (wt_tabs wt ! j) = Some kids
          \<and> findTab kids t \<noteq> None
          \<and> findTab (wt_tabs wt') (tab_id (own (wt_tabs wt ! j))) = Some gj'
          \<and> wt_tabs wt' = (wt_tabs wt)[j := Tab (own (wt_tabs wt ! j)) (tabs gj')])"
proof -
  from assms(1,3) obtain ts' where r: "removeTabRecursive (wt_tabs wt) t = Some ts'"
    by (auto simp: deleteTab_def split: option.splits)
  from remove_path(1)[OF r assms(2,4,5,6)] obtain g' cs' where
    g': "findTab ts' p = Some g'" "removeTabRecursive cs t = Some cs'"
      "groupTabs g' = Some (afterRemoval g cs')"
      "own (stripPosition g') = own (stripPosition g)" by blast
  have kids': "tabsOr g' = afterRemoval g cs'"
    using groupTabs_tabs[OF g'(3)] by (simp add: tabsOr_def)
  have imm: "\<forall>k. findIndex (\<lambda>c. tab_id (own c) = t) cs = Some k \<longrightarrow>
      groupTabs g' = Some (afterRemoval g (spliceOut k cs))"
    using g'(2,3) by auto
  have dcs: "distinct (allIds cs)" using assms(4,2,5) by (rule findTab_distinct)
  have anc: "findIndex (\<lambda>c. tab_id (own c) = t) cs = None \<longrightarrow>
          (\<exists>j kids gj'. j < length cs \<and> groupTabs (cs ! j) = Some kids \<and> findTab kids t \<noteq> None
             \<and> findTab ts' (tab_id (own (cs ! j))) = Some gj'
             \<and> groupTabs g' = Some (afterRemoval g (cs[j := Tab (own (cs ! j)) (tabs gj')])))
          \<and> map (\<lambda>c. own (stripPosition c)) (tabsOr g') = map (\<lambda>c. own (stripPosition c)) cs
          \<and> (\<not> truthyNum (cols (own g)) \<longrightarrow> map own (tabsOr g') = map own cs)"
  proof
    assume none: "findIndex (\<lambda>c. tab_id (own c) = t) cs = None"
    with g'(2) have n: "removeNested cs t = Some cs'" by simp
    have sub: "\<And>c. c \<in> set cs \<Longrightarrow> findTab (wt_tabs wt) (tab_id (own c)) = Some c"
      using findTab_child[OF assms(2,4,5)] findTab_top[OF dcs] by blast
    from removed_children[OF r assms(2) n sub] obtain j kids gj' where
      j: "j < length cs" "groupTabs (cs ! j) = Some kids" "findTab kids t \<noteq> None"
         "findTab ts' (tab_id (own (cs ! j))) = Some gj'"
         "cs' = cs[j := Tab (own (cs ! j)) (tabs gj')]" by blast
    have o: "map own cs' = map own cs" using n by (rule removeNested_own)
    have s: "map (\<lambda>c. own (stripPosition c)) cs' = map (\<lambda>c. own (stripPosition c)) cs"
      using arg_cong[OF o, of "map (\<lambda>f. f\<lparr>order := None, row := None, col := None\<rparr>)"]
      by (simp add: stripPosition_def comp_def)
    have 1: "\<exists>j kids gj'. j < length cs \<and> groupTabs (cs ! j) = Some kids \<and> findTab kids t \<noteq> None
             \<and> findTab ts' (tab_id (own (cs ! j))) = Some gj'
             \<and> groupTabs g' = Some (afterRemoval g (cs[j := Tab (own (cs ! j)) (tabs gj')]))"
      using j g'(3) by blast
    have 2: "map (\<lambda>c. own (stripPosition c)) (tabsOr g') = map (\<lambda>c. own (stripPosition c)) cs"
      unfolding kids' own_afterRemoval by (rule s)
    have 3: "\<not> truthyNum (cols (own g)) \<longrightarrow> map own (tabsOr g') = map own cs"
      unfolding kids' using o by (simp add: afterRemoval_def)
    from 1 2 3 show "(\<exists>j kids gj'. j < length cs \<and> groupTabs (cs ! j) = Some kids \<and> findTab kids t \<noteq> None
             \<and> findTab ts' (tab_id (own (cs ! j))) = Some gj'
             \<and> groupTabs g' = Some (afterRemoval g (cs[j := Tab (own (cs ! j)) (tabs gj')])))
          \<and> map (\<lambda>c. own (stripPosition c)) (tabsOr g') = map (\<lambda>c. own (stripPosition c)) cs
          \<and> (\<not> truthyNum (cols (own g)) \<longrightarrow> map own (tabsOr g') = map own cs)"
      by (intro conjI)
  qed
  have tin: "t \<in> set (allIds cs)" using assms(6) by (simp add: findTab_None_iff)
  have "findIndex (\<lambda>c. tab_id (own c) = t) (wt_tabs wt) = None"
  proof (cases "findIndex (\<lambda>c. tab_id (own c) = t) (wt_tabs wt)")
    case (Some k)
    from findIndex_Some[OF Some] have "wt_tabs wt ! k \<in> set (wt_tabs wt)"
      "tab_id (own (wt_tabs wt ! k)) = t" by auto
    with top_not_below[OF assms(2,4,5)] tin show ?thesis by blast
  qed simp
  with r have "removeNested (wt_tabs wt) t = Some ts'" by simp
  from removed_children[OF r assms(2) this findTab_top[OF assms(2)]]
  have top: "\<exists>j kids gj'. j < length (wt_tabs wt) \<and> groupTabs (wt_tabs wt ! j) = Some kids
          \<and> findTab kids t \<noteq> None
          \<and> findTab ts' (tab_id (own (wt_tabs wt ! j))) = Some gj'
          \<and> ts' = (wt_tabs wt)[j := Tab (own (wt_tabs wt ! j)) (tabs gj')]" .
  have "workspace (deleteTab ws w t now config) = (setTabs ws w ts')\<lparr>updatedAt := now\<rparr>"
    using assms(1) r by (simp add: deleteTab_def commit_def Let_def)
  then have "findWorktree (workspace (deleteTab ws w t now config)) w = Some (wt\<lparr>wt_tabs := ts'\<rparr>)"
    using findWorktree_setTabs[OF assms(1), of ts'] by (simp add: findWorktree_def)
  with g'(1,4) imm anc top show ?thesis by simp
qed

theorem deleteTab_recalculates_path_witness:
  "findWorktree (sampleWorkspace nestedForest) ''wt-1''
     = Some (hd (worktrees (sampleWorkspace nestedForest)))
   \<and> distinct (allIds (wt_tabs (hd (worktrees (sampleWorkspace nestedForest)))))
   \<and> result (deleteTab (sampleWorkspace nestedForest) ''wt-1'' ''X'' ''now'' sampleStored)
       = Success ()
   \<and> findTab (wt_tabs (hd (worktrees (sampleWorkspace nestedForest)))) ''G''
       = Some (hd nestedForest)
   \<and> groupTabs (hd nestedForest) = Some (tabsOr (hd nestedForest))
   \<and> findTab (tabsOr (hd nestedForest)) ''X'' \<noteq> None
   \<and> findIndex (\<lambda>c. tab_id (own c) = ''X'') (tabsOr (hd nestedForest)) = None
   \<and> (\<exists>wt' g'.
        findWorktree (workspace (deleteTab (sampleWorkspace nestedForest) ''wt-1'' ''X'' ''now''
          sampleStored)) ''wt-1'' = Some wt'
      \<and> findTab (wt_tabs wt') ''G'' = Some g'
      \<and> own (stripPosition g') = own (stripPosition (hd nestedForest))
      \<and> (\<exists>j kids gj'. j < length (tabsOr (hd nestedForest))
            \<and> groupTabs (tabsOr (hd nestedForest) ! j) = Some kids \<and> findTab kids ''X'' \<noteq> None
            \<and> findTab (wt_tabs wt') (tab_id (own (tabsOr (hd nestedForest) ! j))) = Some gj'
            \<and> groupTabs g' = Some (afterRemoval (hd nestedForest)
                 ((tabsOr (hd nestedForest))[j := Tab (own (tabsOr (hd nestedForest) ! j)) (tabs gj')])))
      \<and> map (\<lambda>c. own (stripPosition c)) (tabsOr g')
          = map (\<lambda>c. own (stripPosition c)) (tabsOr (hd nestedForest))
      \<and> (\<exists>j kids gj'. j < length (wt_tabs (hd (worktrees (sampleWorkspace nestedForest))))
            \<and> groupTabs (wt_tabs (hd (worktrees (sampleWorkspace nestedForest))) ! j) = Some kids
            \<and> findTab kids ''X'' \<noteq> None
            \<and> findTab (wt_tabs wt')
                 (tab_id (own (wt_tabs (hd (worktrees (sampleWorkspace nestedForest))) ! j))) = Some gj'
            \<and> wt_tabs wt' = (wt_tabs (hd (worktrees (sampleWorkspace nestedForest))))
                 [j := Tab (own (wt_tabs (hd (worktrees (sampleWorkspace nestedForest))) ! j))
                         (tabs gj')]))"
proof -
  have a: "findWorktree (sampleWorkspace nestedForest) ''wt-1''
     = Some (hd (worktrees (sampleWorkspace nestedForest)))"
    by (simp add: sample_defs engine_defs)
  have b: "distinct (allIds (wt_tabs (hd (worktrees (sampleWorkspace nestedForest)))))"
    by (simp add: nestedForest_def sample_defs)
  have c: "result (deleteTab (sampleWorkspace nestedForest) ''wt-1'' ''X'' ''now'' sampleStored)
       = Success ()"
    by (simp add: deleteTab_def nestedForest_def sampleStored_def sample_defs engine_defs)
  have d: "findTab (wt_tabs (hd (worktrees (sampleWorkspace nestedForest)))) ''G''
       = Some (hd nestedForest)"
    by (simp add: nestedForest_def sample_defs)
  have e: "groupTabs (hd nestedForest) = Some (tabsOr (hd nestedForest))"
    by (simp add: nestedForest_def sample_defs tabsOr_def)
  have f: "findTab (tabsOr (hd nestedForest)) ''X'' \<noteq> None"
    by (simp add: nestedForest_def sample_defs tabsOr_def)
  have n: "findIndex (\<lambda>c. tab_id (own c) = ''X'') (tabsOr (hd nestedForest)) = None"
    by (simp add: nestedForest_def sample_defs engine_defs tabsOr_def)
  from deleteTab_recalculates_path[OF a b c d e f] obtain wt' g' where
    r: "findWorktree (workspace (deleteTab (sampleWorkspace nestedForest) ''wt-1'' ''X'' ''now''
          sampleStored)) ''wt-1'' = Some wt'
      \<and> findTab (wt_tabs wt') ''G'' = Some g'
      \<and> own (stripPosition g') = own (stripPosition (hd nestedForest))
      \<and> (\<forall>k. findIndex (\<lambda>c. tab_id (own c) = ''X'') (tabsOr (hd nestedForest)) = Some k \<longrightarrow>
            groupTabs g' = Some (afterRemoval (hd nestedForest) (spliceOut k (tabsOr (hd nestedForest)))))
      \<and> (findIndex (\<lambda>c. tab_id (own c) = ''X'') (tabsOr (hd nestedForest)) = None \<longrightarrow>
          (\<exists>j kids gj'. j < length (tabsOr (hd nestedForest))
            \<and> groupTabs (tabsOr (hd nestedForest) ! j) = Some kids \<and> findTab kids ''X'' \<noteq> None
            \<and> findTab (wt_tabs wt') (tab_id (own (tabsOr (hd nestedForest) ! j))) = Some gj'
            \<and> groupTabs g' = Some (afterRemoval (hd nestedForest)
                 ((tabsOr (hd nestedForest))[j := Tab (own (tabsOr (hd nestedForest) ! j)) (tabs gj')])))
          \<and> map (\<lambda>c. own (stripPosition c)) (tabsOr g')
              = map (\<lambda>c. own (stripPosition c)) (tabsOr (hd nestedForest))
          \<and> (\<not> truthyNum (cols (own (hd nestedForest))) \<longrightarrow>
                map own (tabsOr g') = map own (tabsOr (hd nestedForest))))
      \<and> (\<exists>j kids gj'. j < length (wt_tabs (hd (worktrees (sampleWorkspace nestedForest))))
            \<and> groupTabs (wt_tabs (hd (worktrees (sampleWorkspace nestedForest))) ! j) = Some kids
            \<and> findTab kids ''X'' \<noteq> None
            \<and> findTab (wt_tabs wt')
                 (tab_id (own (wt_tabs (hd (worktrees (sampleWorkspace nestedForest))) ! j))) = Some gj'
            \<and> wt_tabs wt' = (wt_tabs (hd (worktrees (sampleWorkspace nestedForest))))
                 [j := Tab (own (wt_tabs (hd (worktrees (sampleWorkspace nestedForest))) ! j))
                         (tabs gj')])"
    by (elim exE) (rule that)
  note r1 = r[THEN conjunct1]
  note r2 = r[THEN conjunct2, THEN conjunct1]
  note r3 = r[THEN conjunct2, THEN conjunct2, THEN conjunct1]
  note r5 = r[THEN conjunct2, THEN conjunct2, THEN conjunct2, THEN conjunct2, THEN conjunct1,
              THEN mp, OF n]
  note r6 = r[THEN conjunct2, THEN conjunct2, THEN conjunct2, THEN conjunct2, THEN conjunct2]
  show ?thesis
    apply (intro conjI)
    apply (rule a, rule b, rule c, rule d, rule e, rule f, rule n)
    apply (rule exI[of _ wt'], rule exI[of _ g'])
    apply (intro conjI)
    apply (rule r1, rule r2, rule r3, rule r5[THEN conjunct1],
           rule r5[THEN conjunct2, THEN conjunct1], rule r6)
    done
qed

text \<open>
  C5 as stated (every ancestor above the immediate parent keeps the order, row and
  column values of its children) fails: deleting \<open>X\<close> from \<open>P\<close> inside \<open>G\<close> also
  recalculates the children of \<open>G\<close>, and \<open>P\<close> moves from order 3 to order 0.
\<close>

theorem deleteTab_changes_ancestor_positions:
  "result (deleteTab (sampleWorkspace nestedForest) ''wt-1'' ''X'' ''now'' sampleStored)
     = Success ()
   \<and> map (\<lambda>t. (tab_id (own t), order (own t), row (own t), col (own t)))
        (tabsOr (the (findTab nestedForest ''G'')))
     = [(''P'', Some (Num 3), None, None)]
   \<and> map (\<lambda>t. (tab_id (own t), order (own t), row (own t), col (own t)))
        (tabsOr (the (findTab (topTabs (workspace
           (deleteTab (sampleWorkspace nestedForest) ''wt-1'' ''X'' ''now'' sampleStored))) ''G'')))
     = [(''P'', Some (Num 0), Some (Num 0), Some (Num 0))]"
  by (simp add: deleteTab_def nestedForest_def sampleStored_def sample_defs engine_defs)

section \<open>Moving and reordering\<close>

text \<open>The sibling array a parent identifier selects in a forest, without the check of the
  parent's type: the child array of the tab \<^verbatim>\<open>findTab\<close> returns, or the top-level
  array when no parent is given. \<open>parentKey\<close> identifies the absent and the empty
  parent identifier, which both select the top-level array.\<close>

definition siblings :: "Tab list \<Rightarrow> string option \<Rightarrow> Tab list option" where
  "siblings forest parentTabId =
     (if truthyStr parentTabId then map_option tabsOr (findTab forest (the parentTabId))
      else Some forest)"

text \<open>The write of a new child array into a tab, as \<open>onContainer\<close> performs it.\<close>

definition setKids :: "(Tab list \<Rightarrow> Tab list) \<Rightarrow> Tab \<Rightarrow> Tab" where
  "setKids f p = Tab (own p) (Some (f (tabsOr p)))"

lemma onContainer_setKids:
  "onContainer C f ts = (if truthyStr C then withTab (the C) (setKids f) ts else f ts)"
  by (simp add: onContainer_def setKids_def[abs_def])

lemma own_setKids [simp]: "own (setKids f p) = own p"
  by (simp add: setKids_def)

lemma tabsOr_setKids [simp]: "tabsOr (setKids f p) = f (tabsOr p)"
  by (simp add: setKids_def tabsOr_def)

lemma groupTabs_setKids:
  "groupTabs (setKids f p) = (if type (own p) = Group then Some (f (tabsOr p)) else None)"
  by (simp add: setKids_def)

lemma groupTabs_tabsOr: "groupTabs t = Some cs \<Longrightarrow> tabsOr t = cs \<and> type (own t) = Group"
  by (auto simp: groupTabs_def tabsOr_def split: if_splits)

lemma withTab_self:
  "(\<And>t. tab_id (own (g t)) = tab_id (own t)) \<Longrightarrow>
   findTab (withTab q g ts) q = map_option g (findTab ts q)"
proof (induction ts q rule: findTab.induct)
  case (1 tabId)
  then show ?case by simp
next
  case (2 tab rest tabId)
  show ?case
  proof (cases "tab_id (own tab) = tabId")
    case True
    then show ?thesis using "2.prems" by simp
  next
    case False
    show ?thesis
    proof (cases "groupTabs tab")
      case None
      with False "2.IH"(1)[OF False None "2.prems"] show ?thesis by simp
    next
      case (Some cs)
      note g0 = Some
      have ty: "type (own tab) = Group" using g0 by (simp add: groupTabs_def split: if_splits)
      show ?thesis
      proof (cases "findTab cs tabId")
        case None
        with False g0 "2.IH"(3)[OF False g0 None "2.prems"] show ?thesis by simp
      next
        case (Some found)
        with False g0 ty "2.IH"(2)[OF False g0 "2.prems"] show ?thesis by simp
      qed
    qed
  qed
qed

lemma withTab_absent: "findTab ts q = None \<Longrightarrow> withTab q g ts = ts"
  by (induction ts q rule: findTab.induct) (auto split: option.splits if_splits)

lemma length_withTab [simp]: "length (withTab q g ts) = length ts"
  by (induction q g ts rule: withTab.induct) (auto split: option.splits)

lemma withTab_own: "(\<And>t. own (g t) = own t) \<Longrightarrow> map own (withTab q g ts) = map own ts"
  by (induction q g ts rule: withTab.induct) (auto split: option.splits)

lemma head_id_in [simp]: "tab_id (own t) \<in> set (allIds (t # ts))"
  by simp

lemma withTab_nth:
  "j < length ts \<Longrightarrow> q \<notin> set (allIds [ts ! j]) \<Longrightarrow> withTab q g ts ! j = ts ! j"
proof (induction ts arbitrary: j)
  case Nil
  then show ?case by simp
next
  case (Cons tab rest)
  show ?case
  proof (cases j)
    case 0
    with Cons.prems(2) have ne: "tab_id (own tab) \<noteq> q"
      and nc: "\<And>cs. groupTabs tab = Some cs \<Longrightarrow> findTab cs q = None"
      by (auto simp: findTab_None_iff)
    then show ?thesis using 0 by (auto split: option.splits)
  next
    case (Suc j')
    with Cons.prems have "j' < length rest" "q \<notin> set (allIds [rest ! j'])" by simp_all
    from Cons.IH[OF this] show ?thesis using Suc by (auto split: option.splits)
  qed
qed

lemma findTab_NoneI: "p \<notin> set (allIds ts) \<Longrightarrow> findTab ts p = None"
  by (simp add: findTab_None_iff)

lemma findTab_skip:
  "p \<notin> set (allIds [x]) \<Longrightarrow> findTab (xs @ x # ys) p = findTab (xs @ ys) p"
proof (induction xs)
  case Nil
  then show ?case by (auto simp: findTab_NoneI split: option.splits)
next
  case (Cons a xs)
  then show ?case by (auto split: option.splits)
qed

lemma findTab_spliceOut:
  "i < length cs \<Longrightarrow> p \<notin> set (allIds [cs ! i]) \<Longrightarrow> findTab (spliceOut i cs) p = findTab cs p"
proof -
  assume i: "i < length cs" and p: "p \<notin> set (allIds [cs ! i])"
  have "cs = take i cs @ cs ! i # drop (Suc i) cs" using i by (simp add: id_take_nth_drop)
  then have "findTab cs p = findTab (take i cs @ cs ! i # drop (Suc i) cs) p" by simp
  also have "\<dots> = findTab (take i cs @ drop (Suc i) cs) p" using p by (rule findTab_skip)
  finally show ?thesis by (simp add: spliceOut_def)
qed

lemma findTab_spliceIn:
  "p \<notin> set (allIds [x]) \<Longrightarrow> findTab (spliceIn k x cs) p = findTab cs p"
  by (simp add: spliceIn_def Let_def findTab_skip)


text \<open>How a tab can differ after a write to another tab \<open>q\<close>: its child array is
  the same, or it is the same up to that write below it.\<close>

definition framed :: "string \<Rightarrow> (Tab \<Rightarrow> Tab) \<Rightarrow> Tab \<Rightarrow> Tab \<Rightarrow> bool" where
  "framed q g P' P = (tabs P' = tabs P \<or> tabs P' = map_option (withTab q g) (tabs P))"

lemma framed_refl [simp]: "framed q g P P"
  by (simp add: framed_def)

lemma framedI: "tabs a = tabs b \<Longrightarrow> framed q g a b"
  by (simp add: framed_def)

lemma rel_framed_refl [simp]: "rel_option (framed q g) x x"
  by (cases x) simp_all

lemma rel_option_first:
  "rel_option R a b \<Longrightarrow> rel_option R c d \<Longrightarrow>
   rel_option R (case a of Some x \<Rightarrow> Some x | None \<Rightarrow> c)
                (case b of Some x \<Rightarrow> Some x | None \<Rightarrow> d)"
  by (cases a; cases b) simp_all

lemma rel_option_framedI:
  "rel_option (\<lambda>a b. tabs a = tabs b) x y \<Longrightarrow> rel_option (framed q g) x y"
  by (cases x; cases y) (simp_all add: framedI)

lemma withTab_frame:
  assumes "p \<noteq> q"
    and "\<And>Q. findTab ts q = Some Q \<Longrightarrow> type (own Q) = Group \<Longrightarrow>
           rel_option (\<lambda>a b. tabs a = tabs b) (findTab (f (tabsOr Q)) p) (findTab (tabsOr Q) p)"
  shows "rel_option (framed q (setKids f)) (findTab (withTab q (setKids f) ts) p) (findTab ts p)"
  using assms
proof (induction ts q rule: findTab.induct)
  case (1 tabId)
  then show ?case by simp
next
  case (2 tab rest tabId)
  note pq = "2.prems"(1)
  show ?case
  proof (cases "tab_id (own tab) = tabId")
    case True
    then have ne: "tab_id (own tab) \<noteq> p" using pq by simp
    have Q: "findTab (tab # rest) tabId = Some tab" using True by simp
    show ?thesis
    proof (cases "type (own tab) = Group")
      case False
      then have "groupTabs tab = None" "groupTabs (setKids f tab) = None"
        by (simp_all add: groupTabs_def setKids_def)
      then show ?thesis using True ne by simp
    next
      case ty: True
      from "2.prems"(2)[OF Q ty]
      have lc: "rel_option (\<lambda>a b. tabs a = tabs b) (findTab (f (tabsOr tab)) p) (findTab (tabsOr tab) p)" .
      have l: "findTab (withTab tabId (setKids f) (tab # rest)) p
          = (case findTab (f (tabsOr tab)) p of Some x \<Rightarrow> Some x | None \<Rightarrow> findTab rest p)"
        using True ne ty by (simp add: groupTabs_setKids)
      have r: "findTab (tab # rest) p
          = (case findTab (tabsOr tab) p of Some x \<Rightarrow> Some x | None \<Rightarrow> findTab rest p)"
        using ne ty by (cases "tabs tab") (simp_all add: groupTabs_def tabsOr_def)
      show ?thesis unfolding l r
        by (rule rel_option_first[OF rel_option_framedI[OF lc] rel_framed_refl])
    qed
  next
    case False
    show ?thesis
    proof (cases "groupTabs tab")
      case None
      have lc: "\<And>Q. findTab rest tabId = Some Q \<Longrightarrow> type (own Q) = Group \<Longrightarrow>
           rel_option (\<lambda>a b. tabs a = tabs b) (findTab (f (tabsOr Q)) p) (findTab (tabsOr Q) p)"
        using "2.prems"(2) False None by simp
      from "2.IH"(1)[OF False None pq lc] show ?thesis using False None by simp
    next
      case (Some cs)
      note g0 = Some
      have ty: "type (own tab) = Group" using g0 by (simp add: groupTabs_def split: if_splits)
      show ?thesis
      proof (cases "findTab cs tabId")
        case None
        have lc: "\<And>Q. findTab rest tabId = Some Q \<Longrightarrow> type (own Q) = Group \<Longrightarrow>
           rel_option (\<lambda>a b. tabs a = tabs b) (findTab (f (tabsOr Q)) p) (findTab (tabsOr Q) p)"
          using "2.prems"(2) False g0 None by simp
        from "2.IH"(3)[OF False g0 None pq lc] show ?thesis
          using False g0 None by (simp split: option.splits)
      next
        case (Some found)
        have lc: "\<And>Q. findTab cs tabId = Some Q \<Longrightarrow> type (own Q) = Group \<Longrightarrow>
           rel_option (\<lambda>a b. tabs a = tabs b) (findTab (f (tabsOr Q)) p) (findTab (tabsOr Q) p)"
          using "2.prems"(2) False g0 by simp
        note ih = "2.IH"(2)[OF False g0 pq lc]
        have w: "withTab tabId (setKids f) (tab # rest)
            = Tab (own tab) (Some (withTab tabId (setKids f) cs)) # rest"
          using False g0 Some by simp
        show ?thesis
        proof (cases "tab_id (own tab) = p")
          case True
          have "tabs tab = Some cs" using g0 by (simp add: groupTabs_def split: if_splits)
          then show ?thesis unfolding w using True by (simp add: framed_def)
        next
          case np: False
          have l: "findTab (Tab (own tab) (Some (withTab tabId (setKids f) cs)) # rest) p
              = (case findTab (withTab tabId (setKids f) cs) p of
                   Some x \<Rightarrow> Some x | None \<Rightarrow> findTab rest p)"
            using np ty by simp
          have r: "findTab (tab # rest) p
              = (case findTab cs p of Some x \<Rightarrow> Some x | None \<Rightarrow> findTab rest p)"
            using np g0 by simp
          show ?thesis unfolding w l r
            by (rule rel_option_first[OF ih rel_framed_refl])
        qed
      qed
    qed
  qed
qed


lemma framed_kids:
  assumes "framed q g P' P" and "\<And>t. own (g t) = own t"
  shows "map own (tabsOr P') = map own (tabsOr P)"
    and "length (tabsOr P') = length (tabsOr P)"
    and "j < length (tabsOr P) \<Longrightarrow> q \<notin> set (allIds [tabsOr P ! j]) \<Longrightarrow>
           tabsOr P' ! j = tabsOr P ! j"
proof -
  from assms(1) have d: "tabsOr P' = tabsOr P \<or> tabsOr P' = withTab q g (tabsOr P)"
    by (cases "tabs P") (auto simp: framed_def tabsOr_def)
  then show "map own (tabsOr P') = map own (tabsOr P)"
    using withTab_own[of g q "tabsOr P"] assms(2) by auto
  from d show "length (tabsOr P') = length (tabsOr P)" by auto
  from d show "j < length (tabsOr P) \<Longrightarrow> q \<notin> set (allIds [tabsOr P ! j]) \<Longrightarrow>
           tabsOr P' ! j = tabsOr P ! j"
    using withTab_nth[of j "tabsOr P" q g] by auto
qed

lemma own_setPosition:
  "own (setPosition c i t) = (own t)\<lparr>order := Some (Num (int i)), row := Some (floorDiv i c),
      col := Some (jsRem i c)\<rparr>"
  by (simp add: setPosition_def)

lemma recalculate_own_cong:
  "map own xs = map own ys \<Longrightarrow>
   map own (recalculateTabPositions xs c) = map own (recalculateTabPositions ys c)"
proof -
  assume e: "map own xs = map own ys"
  then have l: "length xs = length ys" by (rule map_eq_imp_length_eq)
  have "\<And>i. i < length xs \<Longrightarrow> own (xs ! i) = own (ys ! i)"
    using e l by (metis nth_map)
  then show ?thesis using l by (simp add: list_eq_iff_nth_eq own_setPosition)
qed

lemma map_spliceIn: "map f (spliceIn k x xs) = spliceIn k (f x) (map f xs)"
  by (simp add: spliceIn_def Let_def take_map drop_map)

lemma map_spliceOut: "map f (spliceOut i xs) = spliceOut i (map f xs)"
  by (simp add: spliceOut_def take_map drop_map)

lemma spliceStart_le: "spliceStart k n \<le> n"
  by (auto simp: spliceStart_def)

lemma nth_spliceIn: "spliceIn k x xs ! spliceStart k (length xs) = x"
  using spliceStart_le[of k "length xs"] by (simp add: spliceIn_def Let_def nth_append)

lemma length_spliceIn [simp]: "length (spliceIn k x xs) = Suc (length xs)"
  using spliceStart_le[of k "length xs"] by (simp add: spliceIn_def Let_def)

lemma length_spliceOut: "i < length xs \<Longrightarrow> Suc (length (spliceOut i xs)) = length xs"
  by (simp add: spliceOut_def)

lemma allIds_single:
  "allIds [P] = tab_id (own P) # (if type (own P) = Group then allIds (tabsOr P) else [])"
  by (cases "tabs P") (simp_all add: groupTabs_def tabsOr_def)

lemma findTab_block: "findTab ts p = Some P \<Longrightarrow> \<exists>A B. allIds ts = A @ allIds [P] @ B"
proof (induction ts p rule: findTab.induct)
  case (1 tabId)
  then show ?case by simp
next
  case (2 tab rest tabId)
  show ?case
  proof (cases "tab_id (own tab) = tabId")
    case True
    with "2.prems" have "P = tab" by simp
    then have "allIds (tab # rest) = [] @ allIds [P] @ allIds rest" by simp
    then show ?thesis by blast
  next
    case False
    show ?thesis
    proof (cases "groupTabs tab")
      case None
      with False "2.prems" have "findTab rest tabId = Some P" by simp
      from "2.IH"(1)[OF False None this] obtain A B where "allIds rest = A @ allIds [P] @ B"
        by blast
      then have "allIds (tab # rest) = (tab_id (own tab) # A) @ allIds [P] @ B"
        using None by simp
      then show ?thesis by blast
    next
      case (Some cs)
      note g0 = Some
      show ?thesis
      proof (cases "findTab cs tabId")
        case None
        with False g0 "2.prems" have "findTab rest tabId = Some P" by simp
        from "2.IH"(3)[OF False g0 None this] obtain A B where
          "allIds rest = A @ allIds [P] @ B" by blast
        then have "allIds (tab # rest) = (tab_id (own tab) # allIds cs @ A) @ allIds [P] @ B"
          using g0 by simp
        then show ?thesis by blast
      next
        case (Some found)
        with False g0 "2.prems" have "findTab cs tabId = Some P" by simp
        from "2.IH"(2)[OF False g0 this] obtain A B where "allIds cs = A @ allIds [P] @ B"
          by blast
        then have "allIds (tab # rest) = (tab_id (own tab) # A) @ allIds [P] @ (B @ allIds rest)"
          using g0 by simp
        then show ?thesis by blast
      qed
    qed
  qed
qed

lemma parent_not_below:
  assumes "distinct (allIds ts)" "findTab ts p = Some P" "type (own P) = Group"
  shows "p \<notin> set (allIds (tabsOr P))"
proof -
  from findTab_block[OF assms(2)] obtain A B where "allIds ts = A @ allIds [P] @ B" by blast
  moreover have "tab_id (own P) = p" using assms(2) by (rule findTab_id)
  moreover have "allIds [P] = tab_id (own P) # allIds (tabsOr P)"
    unfolding allIds_single using assms(3) by simp
  ultimately have "allIds ts = A @ (p # allIds (tabsOr P)) @ B"
    by simp
  with assms(1) show ?thesis by auto
qed

lemma nth_ids_sub: "j < length cs \<Longrightarrow> set (allIds [cs ! j]) \<subseteq> set (allIds cs)"
  by (rule top_ids) simp


lemma rel_option_Some2: "rel_option R x (Some b) \<Longrightarrow> \<exists>a. x = Some a \<and> R a b"
  by (cases x) simp_all

lemma rel_option_None1: "rel_option R None y \<Longrightarrow> y = None"
  by (cases y) simp_all

lemma ids_withTab:
  "findTab ts q = Some Q \<Longrightarrow> type (own Q) = Group \<Longrightarrow>
   \<exists>A B. allIds ts = A @ allIds (tabsOr Q) @ B
       \<and> (\<forall>f. allIds (withTab q (setKids f) ts) = A @ allIds (f (tabsOr Q)) @ B)"
proof (induction ts q rule: findTab.induct)
  case (1 tabId)
  then show ?case by simp
next
  case (2 tab rest tabId)
  show ?case
  proof (cases "tab_id (own tab) = tabId")
    case True
    with "2.prems" have Q: "Q = tab" by simp
    have a: "allIds (tab # rest) = [tabId] @ allIds (tabsOr Q) @ allIds rest"
      using allIds_single[of tab] True Q "2.prems"(2) by simp
    have b: "\<And>f. allIds (withTab tabId (setKids f) (tab # rest))
        = [tabId] @ allIds (f (tabsOr Q)) @ allIds rest"
      using True Q "2.prems"(2) by (simp add: groupTabs_setKids)
    from a b show ?thesis by blast
  next
    case False
    show ?thesis
    proof (cases "groupTabs tab")
      case None
      with False "2.prems" have f: "findTab rest tabId = Some Q" by simp
      from "2.IH"(1)[OF False None f "2.prems"(2)] obtain A B where
        AB: "allIds rest = A @ allIds (tabsOr Q) @ B"
          "\<And>f. allIds (withTab tabId (setKids f) rest) = A @ allIds (f (tabsOr Q)) @ B"
        by blast
      have "allIds (tab # rest) = (tab_id (own tab) # A) @ allIds (tabsOr Q) @ B"
        using None AB(1) by simp
      moreover have "\<And>f. allIds (withTab tabId (setKids f) (tab # rest))
          = (tab_id (own tab) # A) @ allIds (f (tabsOr Q)) @ B"
        using False None AB(2) by simp
      ultimately show ?thesis by blast
    next
      case (Some cs)
      note g0 = Some
      have ty: "type (own tab) = Group" using g0 by (simp add: groupTabs_def split: if_splits)
      show ?thesis
      proof (cases "findTab cs tabId")
        case None
        with False g0 "2.prems" have f: "findTab rest tabId = Some Q" by simp
        from "2.IH"(3)[OF False g0 None f "2.prems"(2)] obtain A B where
          AB: "allIds rest = A @ allIds (tabsOr Q) @ B"
            "\<And>f. allIds (withTab tabId (setKids f) rest) = A @ allIds (f (tabsOr Q)) @ B"
          by blast
        have "allIds (tab # rest) = (tab_id (own tab) # allIds cs @ A) @ allIds (tabsOr Q) @ B"
          using g0 AB(1) by simp
        moreover have "\<And>f. allIds (withTab tabId (setKids f) (tab # rest))
            = (tab_id (own tab) # allIds cs @ A) @ allIds (f (tabsOr Q)) @ B"
          using False g0 None AB(2) by simp
        ultimately show ?thesis by blast
      next
        case (Some found)
        with False g0 "2.prems" have f: "findTab cs tabId = Some Q" by simp
        from "2.IH"(2)[OF False g0 f "2.prems"(2)] obtain A B where
          AB: "allIds cs = A @ allIds (tabsOr Q) @ B"
            "\<And>f. allIds (withTab tabId (setKids f) cs) = A @ allIds (f (tabsOr Q)) @ B"
          by blast
        have "allIds (tab # rest)
            = (tab_id (own tab) # A) @ allIds (tabsOr Q) @ (B @ allIds rest)"
          using g0 AB(1) by simp
        moreover have "\<And>f. allIds (withTab tabId (setKids f) (tab # rest))
            = (tab_id (own tab) # A) @ allIds (f (tabsOr Q)) @ (B @ allIds rest)"
          using False g0 Some ty AB(2) by simp
        ultimately show ?thesis by blast
      qed
    qed
  qed
qed

lemma ids_spliceOut:
  "i < length cs \<Longrightarrow> distinct (allIds cs) \<Longrightarrow>
   set (allIds (spliceOut i cs)) = set (allIds cs) - set (allIds [cs ! i])"
proof -
  assume i: "i < length cs" and d: "distinct (allIds cs)"
  have "cs = take i cs @ [cs ! i] @ drop (Suc i) cs" using i by (simp add: id_take_nth_drop)
  then have e: "allIds cs = allIds (take i cs) @ allIds [cs ! i] @ allIds (drop (Suc i) cs)"
    by (metis allIds_append)
  have o: "allIds (spliceOut i cs) = allIds (take i cs) @ allIds (drop (Suc i) cs)"
    by (simp add: spliceOut_def)
  let ?A = "set (allIds (take i cs))" and ?X = "set (allIds [cs ! i])"
    and ?B = "set (allIds (drop (Suc i) cs))"
  have "distinct (allIds (take i cs) @ allIds [cs ! i] @ allIds (drop (Suc i) cs))"
    using d e by simp
  then have "?A \<inter> ?X = {}" "?X \<inter> ?B = {}" by auto
  moreover have "set (allIds cs) = ?A \<union> ?X \<union> ?B" by (subst e) auto
  moreover have "set (allIds (spliceOut i cs)) = ?A \<union> ?B" by (subst o) auto
  ultimately show ?thesis by blast
qed


lemma frame_spliceOut:
  assumes "p \<noteq> q" "findTab ts q = Some Q" "i < length (tabsOr Q)"
    "p \<notin> set (allIds [tabsOr Q ! i])"
  shows "rel_option (framed q (setKids (spliceOut i)))
           (findTab (withTab q (setKids (spliceOut i)) ts) p) (findTab ts p)"
proof (rule withTab_frame[OF assms(1)])
  fix Q' assume "findTab ts q = Some Q'"
  with assms(2) have "Q' = Q" by simp
  then have "findTab (spliceOut i (tabsOr Q')) p = findTab (tabsOr Q') p"
    using assms(3,4) by (simp add: findTab_spliceOut)
  then show "rel_option (\<lambda>a b. tabs a = tabs b) (findTab (spliceOut i (tabsOr Q')) p)
      (findTab (tabsOr Q') p)"
    by (simp add: option.rel_refl)
qed

lemma frame_spliceIn:
  assumes "p \<noteq> q" "p \<notin> set (allIds [x])"
  shows "rel_option (framed q (setKids (spliceIn k x)))
           (findTab (withTab q (setKids (spliceIn k x)) ts) p) (findTab ts p)"
proof (rule withTab_frame[OF assms(1)])
  fix Q'
  have "findTab (spliceIn k x (tabsOr Q')) p = findTab (tabsOr Q') p"
    using assms(2) by (rule findTab_spliceIn)
  then show "rel_option (\<lambda>a b. tabs a = tabs b) (findTab (spliceIn k x (tabsOr Q')) p)
      (findTab (tabsOr Q') p)"
    by (simp add: option.rel_refl)
qed

lemma findTab_recalculate_tabs:
  "rel_option (\<lambda>a b. tabs a = tabs b) (findTab (recalculateTabPositions cs c) p) (findTab cs p)"
proof -
  have "map_option stripPosition (findTab (recalculateTabPositions cs c) p)
      = map_option stripPosition (findTab cs p)" by (rule findTab_recalculate)
  then show ?thesis
    by (cases "findTab (recalculateTabPositions cs c) p"; cases "findTab cs p")
       (auto dest: strip_same_tabs)
qed

lemma frame_recalculate:
  assumes "p \<noteq> q"
  shows "rel_option (framed q (setKids (\<lambda>ts. recalculateTabPositions ts c)))
           (findTab (withTab q (setKids (\<lambda>ts. recalculateTabPositions ts c)) ts) p)
           (findTab ts p)"
  by (rule withTab_frame[OF assms]) (rule findTab_recalculate_tabs)

lemma withTab_setKids_self:
  "findTab (withTab q (setKids f) ts) q = map_option (setKids f) (findTab ts q)"
  by (rule withTab_self) simp

lemma ids_withTab_recalculate:
  assumes "findTab ts q = Some Q" "type (own Q) = Group"
  shows "allIds (withTab q (setKids (\<lambda>ts. recalculateTabPositions ts c)) ts) = allIds ts"
proof -
  from ids_withTab[OF assms] obtain A B where
    "allIds ts = A @ allIds (tabsOr Q) @ B"
    "\<And>f. allIds (withTab q (setKids f) ts) = A @ allIds (f (tabsOr Q)) @ B" by blast
  then show ?thesis by simp
qed

lemma move_between_groups:
  assumes d: "distinct (allIds ts0)"
    and ps: "findTab ts0 s = Some PS" "type (own PS) = Group"
    and pt: "findTab ts0 t = Some PT"
    and st: "s \<noteq> t"
    and i: "i < length (tabsOr PS)"
    and f1: "f1 = withTab s (setKids (spliceOut i)) ts0"
    and f2: "f2 = withTab t (setKids (spliceIn k (tabsOr PS ! i))) f1"
    and f3: "f3 = withTab s (setKids (\<lambda>ts. recalculateTabPositions ts sc)) f2"
    and f4: "f4 = withTab t (setKids (\<lambda>ts. recalculateTabPositions ts tc)) f3"
    and ok: "findTab f3 t \<noteq> None"
  shows "\<exists>s4 t4. map_option tabsOr (findTab f4 s) = Some s4
      \<and> map_option tabsOr (findTab f4 t) = Some t4
      \<and> map own s4 = map own (recalculateTabPositions (spliceOut i (tabsOr PS)) sc)
      \<and> map own t4 = map own (recalculateTabPositions (spliceIn k (tabsOr PS ! i) (tabsOr PT)) tc)
      \<and> stripPosition (t4 ! spliceStart k (length (tabsOr PT))) = stripPosition (tabsOr PS ! i)"
proof -
  let ?X = "tabsOr PS ! i"
  have sX: "s \<notin> set (allIds [?X])"
    using parent_not_below[OF d ps] nth_ids_sub[OF i] by blast
  \<comment> \<open>the source parent after the first write\<close>
  have s1: "findTab f1 s = Some (setKids (spliceOut i) PS)"
    unfolding f1 by (simp add: withTab_setKids_self ps(1))
  \<comment> \<open>a target inside the moved subtree would be lost\<close>
  have tX: "t \<notin> set (allIds [?X])"
  proof
    assume tin: "t \<in> set (allIds [?X])"
    from ids_withTab[OF ps] obtain A B where
      AB: "allIds ts0 = A @ allIds (tabsOr PS) @ B"
        "\<And>f. allIds (withTab s (setKids f) ts0) = A @ allIds (f (tabsOr PS)) @ B" by blast
    have dcs: "distinct (allIds (tabsOr PS))" using d AB(1) by simp
    have "t \<in> set (allIds (tabsOr PS))" using tin nth_ids_sub[OF i] by blast
    then have "t \<notin> set A" "t \<notin> set B" using d AB(1) by auto
    moreover have "t \<notin> set (allIds (spliceOut i (tabsOr PS)))"
      using ids_spliceOut[OF i dcs] tin by simp
    ultimately have "t \<notin> set (allIds f1)" unfolding f1 AB(2) by simp
    then have n1: "findTab f1 t = None" by (rule findTab_NoneI)
    then have "f2 = f1" unfolding f2 by (rule withTab_absent)
    moreover have "type (own (setKids (spliceOut i) PS)) = Group" using ps(2) by simp
    ultimately have "allIds f3 = allIds f1"
      unfolding f3 using ids_withTab_recalculate[OF s1] by simp
    then have "findTab f3 t = None" using \<open>t \<notin> set (allIds f1)\<close> by (simp add: findTab_NoneI)
    with ok show False by simp
  qed
  \<comment> \<open>the target parent through the four writes\<close>
  have "rel_option (framed s (setKids (spliceOut i))) (findTab f1 t) (findTab ts0 t)"
    unfolding f1 using st ps(1) i tX by (intro frame_spliceOut) auto
  then obtain T1 where t1: "findTab f1 t = Some T1" "framed s (setKids (spliceOut i)) T1 PT"
    unfolding pt by (blast dest: rel_option_Some2)
  have t2: "findTab f2 t = Some (setKids (spliceIn k ?X) T1)"
    unfolding f2 by (simp add: withTab_setKids_self t1(1))
  have "rel_option (framed s (setKids (\<lambda>ts. recalculateTabPositions ts sc)))
      (findTab f3 t) (findTab f2 t)"
    unfolding f3 using st by (intro frame_recalculate) auto
  then obtain T3 where t3: "findTab f3 t = Some T3"
    "framed s (setKids (\<lambda>ts. recalculateTabPositions ts sc)) T3 (setKids (spliceIn k ?X) T1)"
    unfolding t2 by (blast dest: rel_option_Some2)
  have t4: "findTab f4 t = Some (setKids (\<lambda>ts. recalculateTabPositions ts tc) T3)"
    unfolding f4 by (simp add: withTab_setKids_self t3(1))
  \<comment> \<open>the source parent through the remaining writes\<close>
  have "rel_option (framed t (setKids (spliceIn k ?X))) (findTab f2 s) (findTab f1 s)"
    unfolding f2 using st sX by (intro frame_spliceIn) auto
  then obtain S2 where s2: "findTab f2 s = Some S2"
    "framed t (setKids (spliceIn k ?X)) S2 (setKids (spliceOut i) PS)"
    unfolding s1 by (blast dest: rel_option_Some2)
  have s3: "findTab f3 s = Some (setKids (\<lambda>ts. recalculateTabPositions ts sc) S2)"
    unfolding f3 by (simp add: withTab_setKids_self s2(1))
  have "rel_option (framed t (setKids (\<lambda>ts. recalculateTabPositions ts tc)))
      (findTab f4 s) (findTab f3 s)"
    unfolding f4 using st by (intro frame_recalculate) auto
  then obtain S4 where s4: "findTab f4 s = Some S4"
    "framed t (setKids (\<lambda>ts. recalculateTabPositions ts tc)) S4
       (setKids (\<lambda>ts. recalculateTabPositions ts sc) S2)"
    unfolding s3 by (blast dest: rel_option_Some2)
  \<comment> \<open>the children of both\<close>
  have "map own (tabsOr S2) = map own (spliceOut i (tabsOr PS))"
    using framed_kids(1)[OF s2(2)] by simp
  then have "map own (recalculateTabPositions (tabsOr S2) sc)
      = map own (recalculateTabPositions (spliceOut i (tabsOr PS)) sc)"
    by (rule recalculate_own_cong)
  moreover have "map own (tabsOr S4) = map own (recalculateTabPositions (tabsOr S2) sc)"
    using framed_kids(1)[OF s4(2)] by simp
  ultimately have srcOwn: "map own (tabsOr S4)
      = map own (recalculateTabPositions (spliceOut i (tabsOr PS)) sc)" by simp
  have l1: "length (tabsOr T1) = length (tabsOr PT)"
    using framed_kids(2)[OF t1(2)] by simp
  have "map own (tabsOr T1) = map own (tabsOr PT)"
    using framed_kids(1)[OF t1(2)] by simp
  then have "map own (spliceIn k ?X (tabsOr T1)) = map own (spliceIn k ?X (tabsOr PT))"
    by (simp add: map_spliceIn)
  moreover have "map own (tabsOr T3) = map own (spliceIn k ?X (tabsOr T1))"
    using framed_kids(1)[OF t3(2)] by simp
  ultimately have "map own (tabsOr T3) = map own (spliceIn k ?X (tabsOr PT))" by simp
  then have tgtOwn: "map own (recalculateTabPositions (tabsOr T3) tc)
      = map own (recalculateTabPositions (spliceIn k ?X (tabsOr PT)) tc)"
    by (rule recalculate_own_cong)
  let ?n = "spliceStart k (length (tabsOr PT))"
  have n: "?n < length (spliceIn k ?X (tabsOr T1))"
    using spliceStart_le[of k "length (tabsOr PT)"] l1 by simp
  have at: "spliceIn k ?X (tabsOr T1) ! ?n = ?X"
    using nth_spliceIn[of k ?X "tabsOr T1"] l1 by simp
  have "tabsOr T3 ! ?n = tabsOr (setKids (spliceIn k ?X) T1) ! ?n"
    by (rule framed_kids(3)[OF t3(2)]) (use n at sX in simp_all)
  then have x3: "tabsOr T3 ! ?n = ?X" using at by simp
  have "length (tabsOr T3) = length (spliceIn k ?X (tabsOr T1))"
    using framed_kids(2)[OF t3(2)] by simp
  with n have "?n < length (tabsOr T3)" by simp
  then have moved: "stripPosition (recalculateTabPositions (tabsOr T3) tc ! ?n) = stripPosition ?X"
    using x3 by simp
  show ?thesis
    using s4(1) t4 srcOwn tgtOwn moved by simp
qed


lemma findTab_recalculate_Some:
  "findTab cs p = Some P \<Longrightarrow>
   \<exists>P'. findTab (recalculateTabPositions cs c) p = Some P' \<and> tabsOr P' = tabsOr P"
  using findTab_recalculate_tabs[of cs c p]
  by (auto dest!: rel_option_Some2 simp: tabsOr_def)

lemma move_top_to_group:
  assumes d: "distinct (allIds ts0)"
    and pt: "findTab ts0 t = Some PT"
    and i: "i < length ts0"
    and f1: "f1 = spliceOut i ts0"
    and f2: "f2 = withTab t (setKids (spliceIn k (ts0 ! i))) f1"
    and f3: "f3 = recalculateTabPositions f2 sc"
    and f4: "f4 = withTab t (setKids (\<lambda>ts. recalculateTabPositions ts tc)) f3"
    and ok: "findTab f3 t \<noteq> None"
  shows "\<exists>t4. map_option tabsOr (findTab f4 t) = Some t4
      \<and> map own f4 = map own (recalculateTabPositions (spliceOut i ts0) sc)
      \<and> map own t4 = map own (recalculateTabPositions (spliceIn k (ts0 ! i) (tabsOr PT)) tc)
      \<and> stripPosition (t4 ! spliceStart k (length (tabsOr PT))) = stripPosition (ts0 ! i)"
proof -
  let ?X = "ts0 ! i"
  have tX: "t \<notin> set (allIds [?X])"
  proof
    assume tin: "t \<in> set (allIds [?X])"
    then have "t \<notin> set (allIds f1)" unfolding f1 using ids_spliceOut[OF i d] by simp
    then have n1: "findTab f1 t = None" by (rule findTab_NoneI)
    then have "f2 = f1" unfolding f2 by (rule withTab_absent)
    then have "allIds f3 = allIds f1" unfolding f3 by simp
    then have "findTab f3 t = None" using \<open>t \<notin> set (allIds f1)\<close> by (simp add: findTab_NoneI)
    with ok show False by simp
  qed
  have t1: "findTab f1 t = Some PT"
    unfolding f1 using findTab_spliceOut[OF i tX] pt by simp
  have t2: "findTab f2 t = Some (setKids (spliceIn k ?X) PT)"
    unfolding f2 by (simp add: withTab_setKids_self t1)
  from findTab_recalculate_Some[OF t2, of sc] obtain T3 where
    t3: "findTab f3 t = Some T3" "tabsOr T3 = spliceIn k ?X (tabsOr PT)"
    unfolding f3 by auto
  have t4: "findTab f4 t = Some (setKids (\<lambda>ts. recalculateTabPositions ts tc) T3)"
    unfolding f4 by (simp add: withTab_setKids_self t3(1))
  have "map own f4 = map own f3" unfolding f4 by (rule withTab_own) simp
  moreover have "map own f2 = map own f1" unfolding f2 by (rule withTab_own) simp
  then have "map own f3 = map own (recalculateTabPositions f1 sc)"
    unfolding f3 by (rule recalculate_own_cong)
  ultimately have srcOwn: "map own f4 = map own (recalculateTabPositions (spliceOut i ts0) sc)"
    unfolding f1 by simp
  let ?n = "spliceStart k (length (tabsOr PT))"
  have "?n < length (spliceIn k ?X (tabsOr PT))"
    using spliceStart_le[of k "length (tabsOr PT)"] by simp
  then have moved: "stripPosition (recalculateTabPositions (spliceIn k ?X (tabsOr PT)) tc ! ?n)
      = stripPosition ?X"
    by (simp add: nth_spliceIn)
  show ?thesis using t4 t3(2) srcOwn moved by simp
qed

lemma move_group_to_top:
  assumes d: "distinct (allIds ts0)"
    and ps: "findTab ts0 s = Some PS" "type (own PS) = Group"
    and i: "i < length (tabsOr PS)"
    and f1: "f1 = withTab s (setKids (spliceOut i)) ts0"
    and f2: "f2 = spliceIn k (tabsOr PS ! i) f1"
    and f3: "f3 = withTab s (setKids (\<lambda>ts. recalculateTabPositions ts sc)) f2"
    and f4: "f4 = recalculateTabPositions f3 tc"
  shows "\<exists>s4. map_option tabsOr (findTab f4 s) = Some s4
      \<and> map own s4 = map own (recalculateTabPositions (spliceOut i (tabsOr PS)) sc)
      \<and> map own f4 = map own (recalculateTabPositions (spliceIn k (tabsOr PS ! i) ts0) tc)
      \<and> stripPosition (f4 ! spliceStart k (length ts0)) = stripPosition (tabsOr PS ! i)"
proof -
  let ?X = "tabsOr PS ! i"
  have sX: "s \<notin> set (allIds [?X])"
    using parent_not_below[OF d ps] nth_ids_sub[OF i] by blast
  have s1: "findTab f1 s = Some (setKids (spliceOut i) PS)"
    unfolding f1 by (simp add: withTab_setKids_self ps(1))
  have s2: "findTab f2 s = Some (setKids (spliceOut i) PS)"
    unfolding f2 using findTab_spliceIn[OF sX] s1 by simp
  have s3: "findTab f3 s
      = Some (setKids (\<lambda>ts. recalculateTabPositions ts sc) (setKids (spliceOut i) PS))"
    unfolding f3 by (simp add: withTab_setKids_self s2)
  from findTab_recalculate_Some[OF s3, of tc] obtain S4 where
    s4: "findTab f4 s = Some S4"
      "tabsOr S4 = recalculateTabPositions (spliceOut i (tabsOr PS)) sc"
    unfolding f4 by auto
  have l1: "length f1 = length ts0" unfolding f1 by simp
  have "map own f1 = map own ts0" unfolding f1 by (rule withTab_own) simp
  then have "map own f2 = map own (spliceIn k ?X ts0)" unfolding f2 by (simp add: map_spliceIn)
  moreover have "map own f3 = map own f2" unfolding f3 by (rule withTab_own) simp
  ultimately have "map own f3 = map own (spliceIn k ?X ts0)" by simp
  then have tgtOwn: "map own f4 = map own (recalculateTabPositions (spliceIn k ?X ts0) tc)"
    unfolding f4 by (rule recalculate_own_cong)
  let ?n = "spliceStart k (length ts0)"
  have n: "?n < length f2" unfolding f2 using spliceStart_le[of k "length ts0"] l1 by simp
  have at: "f2 ! ?n = ?X" unfolding f2 using nth_spliceIn[of k ?X f1] l1 by simp
  have "f3 ! ?n = f2 ! ?n" unfolding f3 by (rule withTab_nth) (use n at sX in simp_all)
  moreover have "?n < length f3" unfolding f3 using n by simp
  ultimately have moved: "stripPosition (f4 ! ?n) = stripPosition ?X"
    unfolding f4 using at by simp
  show ?thesis using s4 tgtOwn moved by simp
qed

lemma move_within_group:
  assumes ps: "findTab ts0 s = Some PS"
    and f1: "f1 = withTab s (setKids (spliceOut i)) ts0"
    and f2: "f2 = withTab s (setKids (spliceIn k x)) f1"
    and f3: "f3 = withTab s (setKids (\<lambda>ts. recalculateTabPositions ts c)) f2"
    and f4: "f4 = withTab s (setKids (\<lambda>ts. recalculateTabPositions ts c)) f3"
  shows "map_option tabsOr (findTab f4 s)
      = Some (recalculateTabPositions (spliceIn k x (spliceOut i (tabsOr PS))) c)"
  unfolding f4 f3 f2 f1 by (simp add: withTab_setKids_self ps recalculate_idem)


definition parentKey :: "string option \<Rightarrow> string option" where
  "parentKey parentTabId = (if truthyStr parentTabId then parentTabId else None)"

lemma container_top: "\<not> truthyStr C \<Longrightarrow> container ts C = Some (ts, 2)"
  by (simp add: container_def)

lemma container_group:
  "truthyStr C \<Longrightarrow> container ts C = Some (cs, c) \<Longrightarrow>
   \<exists>P. findTab ts (the C) = Some P \<and> type (own P) = Group \<and> cs = tabsOr P"
  by (auto simp: container_def isValidParentTab_def Let_def split: if_splits option.splits)

lemma moveTab_unfold:
  assumes "findWorktree ws w = Some wt"
    and "result (moveTab ws w x S T k now config) = Success ()"
  shows "\<exists>src sc tgt tc i.
      container (wt_tabs wt) S = Some (src, sc)
    \<and> container (wt_tabs wt) T = Some (tgt, tc)
    \<and> findIndex (\<lambda>t. tab_id (own t) = x) src = Some i
    \<and> (truthyStr T \<longrightarrow>
         findTab (onContainer S (\<lambda>ts. recalculateTabPositions ts sc)
                   (onContainer T (spliceIn k (src ! i))
                      (onContainer S (spliceOut i) (wt_tabs wt)))) (the T) \<noteq> None)
    \<and> workspace (moveTab ws w x S T k now config)
        = (setTabs ws w
            (onContainer T (\<lambda>ts. recalculateTabPositions ts tc)
              (onContainer S (\<lambda>ts. recalculateTabPositions ts sc)
                (onContainer T (spliceIn k (src ! i))
                  (onContainer S (spliceOut i) (wt_tabs wt))))))\<lparr>updatedAt := now\<rparr>"
proof (cases "container (wt_tabs wt) S")
  case None
  with assms show ?thesis by (simp add: moveTab_def)
next
  case (Some a)
  then obtain src sc where a: "container (wt_tabs wt) S = Some (src, sc)" by (cases a) simp
  show ?thesis
  proof (cases "container (wt_tabs wt) T")
    case None
    with assms a show ?thesis by (simp add: moveTab_def)
  next
    case (Some b)
    then obtain tgt tc where b: "container (wt_tabs wt) T = Some (tgt, tc)" by (cases b) simp
    show ?thesis
    proof (cases "findIndex (\<lambda>t. tab_id (own t) = x) src")
      case None
      with assms a b show ?thesis by (simp add: moveTab_def)
    next
      case (Some i)
      let ?f2 = "onContainer T (spliceIn k (src ! i)) (onContainer S (spliceOut i) (wt_tabs wt))"
      let ?f3 = "onContainer S (\<lambda>ts. recalculateTabPositions ts sc) ?f2"
      have m: "moveTab ws w x S T k now config
          = (if truthyStr S \<and> findTab ?f2 (the S) = None
             then fail (setTabs ws w ?f2) nullTabsError
             else if truthyStr T \<and> findTab ?f3 (the T) = None
             then fail (setTabs ws w ?f3) nullTabsError
             else commit (setTabs ws w
                    (onContainer T (\<lambda>ts. recalculateTabPositions ts tc) ?f3))
                    now config ())"
        using assms(1) a b Some by (simp add: moveTab_def Let_def)
      have n2: "\<not> (truthyStr S \<and> findTab ?f2 (the S) = None)"
      proof
        assume "truthyStr S \<and> findTab ?f2 (the S) = None"
        then have "result (moveTab ws w x S T k now config) = Failure nullTabsError"
          unfolding m by (simp add: fail_def)
        with assms(2) show False by simp
      qed
      have n3: "\<not> (truthyStr T \<and> findTab ?f3 (the T) = None)"
      proof
        assume "truthyStr T \<and> findTab ?f3 (the T) = None"
        then have "result (moveTab ws w x S T k now config) = Failure nullTabsError"
          unfolding m using n2 by (simp add: fail_def)
        with assms(2) show False by simp
      qed
      have "moveTab ws w x S T k now config
          = commit (setTabs ws w (onContainer T (\<lambda>ts. recalculateTabPositions ts tc) ?f3))
              now config ()"
        by (simp only: m if_not_P[OF n2] if_not_P[OF n3])
      then have "workspace (moveTab ws w x S T k now config)
          = (setTabs ws w (onContainer T (\<lambda>ts. recalculateTabPositions ts tc) ?f3))
              \<lparr>updatedAt := now\<rparr>"
        by (simp add: commit_def Let_def)
      with a b Some n3 show ?thesis by blast
    qed
  qed
qed


lemma truthyStr_Some: "truthyStr C \<Longrightarrow> C = Some (the C)"
  by (cases C) (simp_all add: truthyStr_def)

lemma parentKey_top: "\<not> truthyStr C \<Longrightarrow> parentKey C = None"
  by (simp add: parentKey_def)

lemma parentKey_group: "truthyStr C \<Longrightarrow> parentKey C = Some (the C)"
  using truthyStr_Some[of C] by (simp add: parentKey_def)

lemma siblings_parentKey: "siblings ts (parentKey C) = siblings ts C"
  by (simp add: siblings_def parentKey_def truthyStr_def)

lemma move_effect:
  assumes d: "distinct (allIds ts0)"
    and cs: "container ts0 S = Some (src, sc)"
    and ct: "container ts0 T = Some (tgt, tc)"
    and i: "findIndex (\<lambda>t. tab_id (own t) = x) src = Some i"
    and ok: "truthyStr T \<longrightarrow>
         findTab (onContainer S (\<lambda>ts. recalculateTabPositions ts sc)
                   (onContainer T (spliceIn k (src ! i))
                      (onContainer S (spliceOut i) ts0))) (the T) \<noteq> None"
    and f4: "f4 = onContainer T (\<lambda>ts. recalculateTabPositions ts tc)
              (onContainer S (\<lambda>ts. recalculateTabPositions ts sc)
                (onContainer T (spliceIn k (src ! i))
                  (onContainer S (spliceOut i) ts0)))"
  shows "(parentKey S = parentKey T \<longrightarrow>
            siblings f4 T
              = Some (recalculateTabPositions (spliceIn k (src ! i) (spliceOut i src)) tc))
      \<and> (parentKey S \<noteq> parentKey T \<longrightarrow>
            (\<exists>s4 t4. siblings f4 S = Some s4 \<and> siblings f4 T = Some t4
               \<and> map own s4 = map own (recalculateTabPositions (spliceOut i src) sc)
               \<and> map own t4 = map own (recalculateTabPositions (spliceIn k (src ! i) tgt) tc)
               \<and> stripPosition (t4 ! spliceStart k (length tgt)) = stripPosition (src ! i)))"
proof -
  from findIndex_Some[OF i] have il: "i < length src" by simp
  show ?thesis
  proof (cases "truthyStr S")
    case sF: False
    then have src: "src = ts0" "sc = 2" using cs by (simp_all add: container_top)
    show ?thesis
    proof (cases "truthyStr T")
      case tF: False
      then have tgt: "tgt = ts0" "tc = 2" using ct by (simp_all add: container_top)
      have "f4 = recalculateTabPositions (spliceIn k (src ! i) (spliceOut i src)) tc"
        unfolding f4 using sF tF src tgt by (simp add: onContainer_setKids recalculate_idem)
      then show ?thesis using sF tF by (simp add: parentKey_def siblings_def)
    next
      case tT: True
      from container_group[OF tT ct] obtain PT where
        pt: "findTab ts0 (the T) = Some PT" "tgt = tabsOr PT" by blast
      have ne: "parentKey S \<noteq> parentKey T"
        by (simp add: parentKey_top[OF sF] parentKey_group[OF tT])
      have "\<exists>t4. map_option tabsOr (findTab f4 (the T)) = Some t4
        \<and> map own f4 = map own (recalculateTabPositions (spliceOut i ts0) sc)
        \<and> map own t4 = map own (recalculateTabPositions (spliceIn k (ts0 ! i) (tabsOr PT)) tc)
        \<and> stripPosition (t4 ! spliceStart k (length (tabsOr PT))) = stripPosition (ts0 ! i)"
      proof (rule move_top_to_group[OF d pt(1)])
        show "i < length ts0" using il src by simp
        show "f4 = withTab (the T) (setKids (\<lambda>ts. recalculateTabPositions ts tc))
            (recalculateTabPositions
               (withTab (the T) (setKids (spliceIn k (ts0 ! i))) (spliceOut i ts0)) sc)"
          unfolding f4 using sF tT src by (simp add: onContainer_setKids)
        show "findTab (recalculateTabPositions
               (withTab (the T) (setKids (spliceIn k (ts0 ! i))) (spliceOut i ts0)) sc) (the T)
             \<noteq> None"
          using ok sF tT src by (simp add: onContainer_setKids)
      qed simp_all
      then show ?thesis using ne sF tT src pt(2) by (auto simp: siblings_def)
    qed
  next
    case sT: True
    from container_group[OF sT cs] obtain PS where
      ps: "findTab ts0 (the S) = Some PS" "type (own PS) = Group" "src = tabsOr PS" by blast
    have il': "i < length (tabsOr PS)" using il ps(3) by simp
    show ?thesis
    proof (cases "truthyStr T")
      case tF: False
      then have tgt: "tgt = ts0" "tc = 2" using ct by (simp_all add: container_top)
      have ne: "parentKey S \<noteq> parentKey T"
        by (simp add: parentKey_top[OF tF] parentKey_group[OF sT])
      have "\<exists>s4. map_option tabsOr (findTab f4 (the S)) = Some s4
        \<and> map own s4 = map own (recalculateTabPositions (spliceOut i (tabsOr PS)) sc)
        \<and> map own f4 = map own (recalculateTabPositions (spliceIn k (tabsOr PS ! i) ts0) tc)
        \<and> stripPosition (f4 ! spliceStart k (length ts0)) = stripPosition (tabsOr PS ! i)"
      proof (rule move_group_to_top[OF d ps(1,2) il'])
        show "f4 = recalculateTabPositions
            (withTab (the S) (setKids (\<lambda>ts. recalculateTabPositions ts sc))
               (spliceIn k (tabsOr PS ! i) (withTab (the S) (setKids (spliceOut i)) ts0))) tc"
          unfolding f4 using sT tF ps(3) by (simp add: onContainer_setKids)
      qed simp_all
      then show ?thesis using ne sT tF tgt ps(3) by (auto simp: siblings_def)
    next
      case tT: True
      from container_group[OF tT ct] obtain PT where
        pt: "findTab ts0 (the T) = Some PT" "tgt = tabsOr PT" by blast
      show ?thesis
      proof (cases "the S = the T")
        case True
        then have "S = T" using truthyStr_Some[OF sT] truthyStr_Some[OF tT] by simp
        then have same: "sc = tc" using cs ct by simp
        have e: "f4 = withTab (the S) (setKids (\<lambda>ts. recalculateTabPositions ts tc))
             (withTab (the S) (setKids (\<lambda>ts. recalculateTabPositions ts tc))
               (withTab (the S) (setKids (spliceIn k (src ! i)))
                 (withTab (the S) (setKids (spliceOut i)) ts0)))"
          unfolding f4 using sT tT True same by (simp add: onContainer_setKids)
        have "map_option tabsOr (findTab f4 (the S))
            = Some (recalculateTabPositions (spliceIn k (src ! i) (spliceOut i (tabsOr PS))) tc)"
          by (rule move_within_group[OF ps(1) refl refl refl e])
        then show ?thesis using \<open>S = T\<close> tT ps(3) by (simp add: siblings_def)
      next
        case False
        then have ne: "parentKey S \<noteq> parentKey T"
          by (simp add: parentKey_group[OF sT] parentKey_group[OF tT])
        have "\<exists>s4 t4. map_option tabsOr (findTab f4 (the S)) = Some s4
          \<and> map_option tabsOr (findTab f4 (the T)) = Some t4
          \<and> map own s4 = map own (recalculateTabPositions (spliceOut i (tabsOr PS)) sc)
          \<and> map own t4
              = map own (recalculateTabPositions (spliceIn k (tabsOr PS ! i) (tabsOr PT)) tc)
          \<and> stripPosition (t4 ! spliceStart k (length (tabsOr PT)))
              = stripPosition (tabsOr PS ! i)"
        proof (rule move_between_groups[OF d ps(1,2) pt(1) False il'])
          show "f4 = withTab (the T) (setKids (\<lambda>ts. recalculateTabPositions ts tc))
             (withTab (the S) (setKids (\<lambda>ts. recalculateTabPositions ts sc))
               (withTab (the T) (setKids (spliceIn k (tabsOr PS ! i)))
                 (withTab (the S) (setKids (spliceOut i)) ts0)))"
            unfolding f4 using sT tT ps(3) by (simp add: onContainer_setKids)
          show "findTab (withTab (the S) (setKids (\<lambda>ts. recalculateTabPositions ts sc))
               (withTab (the T) (setKids (spliceIn k (tabsOr PS ! i)))
                 (withTab (the S) (setKids (spliceOut i)) ts0))) (the T) \<noteq> None"
            using ok sT tT ps(3) by (simp add: onContainer_setKids)
        qed simp_all
        then show ?thesis using ne sT tT ps(3) pt(2) by (auto simp: siblings_def)
      qed
    qed
  qed
qed


lemma workspace_tabs_after:
  assumes "findWorktree ws w = Some wt"
  shows "findWorktree ((setTabs ws w ts)\<lparr>updatedAt := now\<rparr>) w = Some (wt\<lparr>wt_tabs := ts\<rparr>)"
  using findWorktree_setTabs[OF assms, of ts] by (simp add: findWorktree_def)

lemma moveTab_effect:
  assumes "findWorktree ws w = Some wt"
    and "distinct (allIds (wt_tabs wt))"
    and "result (moveTab ws w x S T k now config) = Success ()"
  shows "\<exists>src sc tgt tc i wt'.
      container (wt_tabs wt) S = Some (src, sc)
    \<and> container (wt_tabs wt) T = Some (tgt, tc)
    \<and> findIndex (\<lambda>t. tab_id (own t) = x) src = Some i
    \<and> findWorktree (workspace (moveTab ws w x S T k now config)) w = Some wt'
    \<and> (parentKey S = parentKey T \<longrightarrow>
          siblings (wt_tabs wt') T
            = Some (recalculateTabPositions (spliceIn k (src ! i) (spliceOut i src)) tc))
    \<and> (parentKey S \<noteq> parentKey T \<longrightarrow>
          (\<exists>s4 t4. siblings (wt_tabs wt') S = Some s4 \<and> siblings (wt_tabs wt') T = Some t4
             \<and> map own s4 = map own (recalculateTabPositions (spliceOut i src) sc)
             \<and> map own t4 = map own (recalculateTabPositions (spliceIn k (src ! i) tgt) tc)
             \<and> stripPosition (t4 ! spliceStart k (length tgt)) = stripPosition (src ! i)))"
proof -
  from moveTab_unfold[OF assms(1,3)] obtain src sc tgt tc i where
    u: "container (wt_tabs wt) S = Some (src, sc)"
      "container (wt_tabs wt) T = Some (tgt, tc)"
      "findIndex (\<lambda>t. tab_id (own t) = x) src = Some i"
      "truthyStr T \<longrightarrow>
         findTab (onContainer S (\<lambda>ts. recalculateTabPositions ts sc)
                   (onContainer T (spliceIn k (src ! i))
                      (onContainer S (spliceOut i) (wt_tabs wt)))) (the T) \<noteq> None"
      "workspace (moveTab ws w x S T k now config)
        = (setTabs ws w
            (onContainer T (\<lambda>ts. recalculateTabPositions ts tc)
              (onContainer S (\<lambda>ts. recalculateTabPositions ts sc)
                (onContainer T (spliceIn k (src ! i))
                  (onContainer S (spliceOut i) (wt_tabs wt))))))\<lparr>updatedAt := now\<rparr>"
    by blast
  let ?f4 = "onContainer T (\<lambda>ts. recalculateTabPositions ts tc)
              (onContainer S (\<lambda>ts. recalculateTabPositions ts sc)
                (onContainer T (spliceIn k (src ! i))
                  (onContainer S (spliceOut i) (wt_tabs wt))))"
  have wt': "findWorktree (workspace (moveTab ws w x S T k now config)) w
      = Some (wt\<lparr>wt_tabs := ?f4\<rparr>)"
    unfolding u(5) by (rule workspace_tabs_after[OF assms(1)])
  note e = move_effect[OF assms(2) u(1,2,3,4) refl]
  have "(parentKey S = parentKey T \<longrightarrow>
          siblings (wt_tabs (wt\<lparr>wt_tabs := ?f4\<rparr>)) T
            = Some (recalculateTabPositions (spliceIn k (src ! i) (spliceOut i src)) tc))
    \<and> (parentKey S \<noteq> parentKey T \<longrightarrow>
          (\<exists>s4 t4. siblings (wt_tabs (wt\<lparr>wt_tabs := ?f4\<rparr>)) S = Some s4
             \<and> siblings (wt_tabs (wt\<lparr>wt_tabs := ?f4\<rparr>)) T = Some t4
             \<and> map own s4 = map own (recalculateTabPositions (spliceOut i src) sc)
             \<and> map own t4 = map own (recalculateTabPositions (spliceIn k (src ! i) tgt) tc)
             \<and> stripPosition (t4 ! spliceStart k (length tgt)) = stripPosition (src ! i)))"
    using e by simp
  with u(1,2,3) wt' show ?thesis by blast
qed

text \<open>The \<^verbatim>\<open>order\<close> values of a sibling array are \<open>0, 1, \<dots>, n - 1\<close>, in array
  order.\<close>

definition contiguous :: "Tab list \<Rightarrow> bool" where
  "contiguous cs =
     (map (\<lambda>t. order (own t)) cs = map (\<lambda>i. Some (Num (int i))) [0..<length cs])"

lemma contiguous_recalculate: "contiguous (recalculateTabPositions cs c)"
proof -
  have "map (\<lambda>t. order (own t)) (recalculateTabPositions cs c)
      = map (\<lambda>i. Some (Num (int i))) [0..<length cs]"
  proof (rule nth_equalityI)
    show "length (map (\<lambda>t. order (own t)) (recalculateTabPositions cs c))
        = length (map (\<lambda>i. Some (Num (int i))) [0..<length cs])" by simp
  next
    fix i assume "i < length (map (\<lambda>t. order (own t)) (recalculateTabPositions cs c))"
    then have "i < length cs" by simp
    then show "map (\<lambda>t. order (own t)) (recalculateTabPositions cs c) ! i
        = map (\<lambda>i. Some (Num (int i))) [0..<length cs] ! i"
      by (simp add: own_setPosition)
  qed
  then show ?thesis by (simp add: contiguous_def)
qed

lemma contiguous_own:
  "map own xs = map own ys \<Longrightarrow> contiguous ys \<Longrightarrow> contiguous xs"
proof -
  assume e: "map own xs = map own ys" and c: "contiguous ys"
  have "map (\<lambda>t. order (own t)) xs = map order (map own xs)" by simp
  also have "\<dots> = map (\<lambda>t. order (own t)) ys" unfolding e by simp
  finally show ?thesis using c map_eq_imp_length_eq[OF e] by (simp add: contiguous_def)
qed

lemma reorderTabs_effect:
  assumes "findWorktree ws w = Some wt"
    and "result (reorderTabs ws w P ids now config) = Success ()"
  shows "\<exists>wt' cs. findWorktree (workspace (reorderTabs ws w P ids now config)) w = Some wt'
      \<and> siblings (wt_tabs wt') P = Some cs \<and> contiguous cs"
proof (cases "container (wt_tabs wt) P")
  case None
  with assms show ?thesis by (simp add: reorderTabs_def)
next
  case (Some a)
  then obtain sib c where a: "container (wt_tabs wt) P = Some (sib, c)" by (cases a) simp
  let ?re = "List.map_filter (\<lambda>i. find (\<lambda>t. tab_id (own t) = i) sib) ids"
  let ?up = "recalculateTabPositions ?re c"
  let ?ts = "onContainer P (\<lambda>_. ?up) (wt_tabs wt)"
  have len: "length ?re = length sib"
  proof (rule ccontr)
    assume "length ?re \<noteq> length sib"
    then have "result (reorderTabs ws w P ids now config)
        = Failure ''Tab count mismatch during reorder''"
      using assms(1) a by (simp add: reorderTabs_def Let_def fail_def)
    with assms(2) show False by simp
  qed
  have "workspace (reorderTabs ws w P ids now config) = (setTabs ws w ?ts)\<lparr>updatedAt := now\<rparr>"
    using assms(1) a len by (simp add: reorderTabs_def Let_def commit_def)
  then have wt': "findWorktree (workspace (reorderTabs ws w P ids now config)) w
      = Some (wt\<lparr>wt_tabs := ?ts\<rparr>)"
    using workspace_tabs_after[OF assms(1)] by simp
  have "siblings ?ts P = Some ?up"
  proof (cases "truthyStr P")
    case True
    from container_group[OF True a] obtain Q where "findTab (wt_tabs wt) (the P) = Some Q"
      by blast
    then show ?thesis using True
      by (simp add: siblings_def onContainer_setKids withTab_setKids_self)
  next
    case False
    then show ?thesis by (simp add: siblings_def onContainer_setKids)
  qed
  with wt' contiguous_recalculate[of ?re c] show ?thesis by simp
qed

text \<open>Three top-level terminals \<open>A\<close>, \<open>B\<close>, \<open>C\<close> in this order.\<close>

definition threeTabs :: "Tab list" where
  "threeTabs = [sampleTab ''A'' Terminal None (Some (Num 0)) None,
                sampleTab ''B'' Terminal None (Some (Num 1)) None,
                sampleTab ''C'' Terminal None (Some (Num 2)) None]"

lemma sample_worktree:
  "findWorktree (sampleWorkspace ts) ''wt-1'' = Some (hd (worktrees (sampleWorkspace ts)))"
  "wt_tabs (hd (worktrees (sampleWorkspace ts))) = ts"
  by (simp_all add: sample_defs engine_defs)

lemma sampleForest_distinct: "distinct (allIds sampleForest)"
  by (simp add: sampleForest_def sample_defs)

lemma sample_move_ok:
  "result (moveTab (sampleWorkspace sampleForest) ''wt-1'' ''X'' (Some ''GA'') (Some ''GB'') 0
     ''now'' sampleStored) = Success ()"
  by (simp add: moveTab_def sampleForest_def sampleStored_def sample_defs engine_defs upt_rec)

text \<open>
  C4 (as amended): a successful \<^verbatim>\<open>moveTab\<close> removes the moved node from the source
  sibling list and inserts it into the target sibling list at the position that
  \<^verbatim>\<open>Array.prototype.splice\<close> gives to \<^verbatim>\<open>targetIndex\<close>: the index itself when it
  lies in \<open>[0, len]\<close>, \<open>len\<close> when it is larger, and \<open>max (len + targetIndex) 0\<close>,
  counted from the end of the list, when it is negative, \<open>len\<close> being the length of
  the target list at the insertion (after the removal when both lists are the same).
  Both lists then hold the recalculated positions: when source and target are the same
  list it is the recalculation, applied once, of the list after removal and insertion;
  otherwise the nodes of the source list are those of the old list without the moved
  node, the nodes of the target list those of the old list with the moved node
  inserted, each with the fields one recalculation gives. Identifiers are pairwise
  distinct.
\<close>

theorem moveTab_splices:
  assumes "findWorktree ws w = Some wt"
    and "distinct (allIds (wt_tabs wt))"
    and "result (moveTab ws w x S T k now config) = Success ()"
  shows "\<exists>src sc tgt tc i wt'.
      container (wt_tabs wt) S = Some (src, sc)
    \<and> container (wt_tabs wt) T = Some (tgt, tc)
    \<and> findIndex (\<lambda>t. tab_id (own t) = x) src = Some i
    \<and> findWorktree (workspace (moveTab ws w x S T k now config)) w = Some wt'
    \<and> (parentKey S = parentKey T \<longrightarrow>
          siblings (wt_tabs wt') T
            = Some (recalculateTabPositions (spliceIn k (src ! i) (spliceOut i src)) tc))
    \<and> (parentKey S \<noteq> parentKey T \<longrightarrow>
          (\<exists>s4 t4. siblings (wt_tabs wt') S = Some s4 \<and> siblings (wt_tabs wt') T = Some t4
             \<and> map own s4 = map own (recalculateTabPositions (spliceOut i src) sc)
             \<and> map own t4 = map own (recalculateTabPositions (spliceIn k (src ! i) tgt) tc)))"
proof -
  from moveTab_effect[OF assms] obtain src sc tgt tc i wt' where
    e: "container (wt_tabs wt) S = Some (src, sc)"
      "container (wt_tabs wt) T = Some (tgt, tc)"
      "findIndex (\<lambda>t. tab_id (own t) = x) src = Some i"
      "findWorktree (workspace (moveTab ws w x S T k now config)) w = Some wt'"
      "parentKey S = parentKey T \<longrightarrow>
          siblings (wt_tabs wt') T
            = Some (recalculateTabPositions (spliceIn k (src ! i) (spliceOut i src)) tc)"
      "parentKey S \<noteq> parentKey T \<longrightarrow>
          (\<exists>s4 t4. siblings (wt_tabs wt') S = Some s4 \<and> siblings (wt_tabs wt') T = Some t4
             \<and> map own s4 = map own (recalculateTabPositions (spliceOut i src) sc)
             \<and> map own t4 = map own (recalculateTabPositions (spliceIn k (src ! i) tgt) tc)
             \<and> stripPosition (t4 ! spliceStart k (length tgt)) = stripPosition (src ! i))"
    by blast
  from e(6) have "parentKey S \<noteq> parentKey T \<longrightarrow>
          (\<exists>s4 t4. siblings (wt_tabs wt') S = Some s4 \<and> siblings (wt_tabs wt') T = Some t4
             \<and> map own s4 = map own (recalculateTabPositions (spliceOut i src) sc)
             \<and> map own t4 = map own (recalculateTabPositions (spliceIn k (src ! i) tgt) tc))"
    by blast
  with e(1-5) show ?thesis by blast
qed

theorem moveTab_splices_witness:
  "findWorktree (sampleWorkspace sampleForest) ''wt-1''
     = Some (hd (worktrees (sampleWorkspace sampleForest)))
   \<and> distinct (allIds (wt_tabs (hd (worktrees (sampleWorkspace sampleForest)))))
   \<and> result (moveTab (sampleWorkspace sampleForest) ''wt-1'' ''X'' (Some ''GA'') (Some ''GB'') 0
        ''now'' sampleStored) = Success ()
   \<and> (\<exists>src sc tgt tc i wt'.
        container (wt_tabs (hd (worktrees (sampleWorkspace sampleForest)))) (Some ''GA'')
          = Some (src, sc)
      \<and> container (wt_tabs (hd (worktrees (sampleWorkspace sampleForest)))) (Some ''GB'')
          = Some (tgt, tc)
      \<and> findIndex (\<lambda>t. tab_id (own t) = ''X'') src = Some i
      \<and> findWorktree (workspace (moveTab (sampleWorkspace sampleForest) ''wt-1'' ''X''
            (Some ''GA'') (Some ''GB'') 0 ''now'' sampleStored)) ''wt-1'' = Some wt'
      \<and> (\<exists>s4 t4. siblings (wt_tabs wt') (Some ''GA'') = Some s4
            \<and> siblings (wt_tabs wt') (Some ''GB'') = Some t4
            \<and> map own s4 = map own (recalculateTabPositions (spliceOut i src) sc)
            \<and> map own t4 = map own (recalculateTabPositions (spliceIn 0 (src ! i) tgt) tc)))"
proof -
  have d: "distinct (allIds (wt_tabs (hd (worktrees (sampleWorkspace sampleForest)))))"
    by (simp add: sample_worktree(2) sampleForest_distinct)
  have ne: "parentKey (Some ''GA'') \<noteq> parentKey (Some ''GB'')"
    by (simp add: parentKey_def truthyStr_def)
  from moveTab_splices[OF sample_worktree(1) d sample_move_ok] ne
  show ?thesis using sample_worktree(1) d sample_move_ok by blast
qed

text \<open>
  C4 as stated (a target index of zero or less inserts at the front) fails: moving
  \<open>A\<close> within \<open>A, B, C\<close> to the index \<open>-1\<close> places it before the last element of
  the list left after its removal.
\<close>

theorem moveTab_negative_index:
  "result (moveTab (sampleWorkspace threeTabs) ''wt-1'' ''A'' None None (- 1) ''now''
     sampleStored) = Success ()
   \<and> map (\<lambda>t. tab_id (own t)) (topTabs (workspace
        (moveTab (sampleWorkspace threeTabs) ''wt-1'' ''A'' None None (- 1) ''now''
           sampleStored))) = [''B'', ''A'', ''C'']"
  by code_simp

text \<open>
  C7: after a successful \<^verbatim>\<open>moveTab\<close> between two distinct containers the source
  and target sibling lists together have as many children as before, and the node at
  the insertion position of the target list is the moved node with nothing but its
  position fields changed: its other fields and its child array are those it had in the
  source list. Identifiers are pairwise distinct.
\<close>

theorem moveTab_preserves_count_and_payload:
  assumes "findWorktree ws w = Some wt"
    and "distinct (allIds (wt_tabs wt))"
    and "result (moveTab ws w x S T k now config) = Success ()"
    and "parentKey S \<noteq> parentKey T"
  shows "\<exists>src sc tgt tc i wt' s4 t4.
      container (wt_tabs wt) S = Some (src, sc)
    \<and> container (wt_tabs wt) T = Some (tgt, tc)
    \<and> findIndex (\<lambda>t. tab_id (own t) = x) src = Some i
    \<and> findWorktree (workspace (moveTab ws w x S T k now config)) w = Some wt'
    \<and> siblings (wt_tabs wt') S = Some s4
    \<and> siblings (wt_tabs wt') T = Some t4
    \<and> length s4 + length t4 = length src + length tgt
    \<and> stripPosition (t4 ! spliceStart k (length tgt)) = stripPosition (src ! i)"
proof -
  from moveTab_effect[OF assms(1-3)] assms(4) obtain src sc tgt tc i wt' s4 t4 where
    e: "container (wt_tabs wt) S = Some (src, sc)"
      "container (wt_tabs wt) T = Some (tgt, tc)"
      "findIndex (\<lambda>t. tab_id (own t) = x) src = Some i"
      "findWorktree (workspace (moveTab ws w x S T k now config)) w = Some wt'"
      "siblings (wt_tabs wt') S = Some s4" "siblings (wt_tabs wt') T = Some t4"
      "map own s4 = map own (recalculateTabPositions (spliceOut i src) sc)"
      "map own t4 = map own (recalculateTabPositions (spliceIn k (src ! i) tgt) tc)"
      "stripPosition (t4 ! spliceStart k (length tgt)) = stripPosition (src ! i)"
    by blast
  from findIndex_Some[OF e(3)] have "i < length src" by simp
  then have "Suc (length (spliceOut i src)) = length src" by (rule length_spliceOut)
  moreover have "length s4 = length (spliceOut i src)"
    using map_eq_imp_length_eq[OF e(7)] by simp
  moreover have "length t4 = Suc (length tgt)"
    using map_eq_imp_length_eq[OF e(8)] by simp
  ultimately have "length s4 + length t4 = length src + length tgt" by simp
  with e(1-6,9) show ?thesis by blast
qed

theorem moveTab_preserves_count_and_payload_witness:
  "findWorktree (sampleWorkspace sampleForest) ''wt-1''
     = Some (hd (worktrees (sampleWorkspace sampleForest)))
   \<and> distinct (allIds (wt_tabs (hd (worktrees (sampleWorkspace sampleForest)))))
   \<and> result (moveTab (sampleWorkspace sampleForest) ''wt-1'' ''X'' (Some ''GA'') (Some ''GB'') 0
        ''now'' sampleStored) = Success ()
   \<and> parentKey (Some ''GA'') \<noteq> parentKey (Some ''GB'')
   \<and> (\<exists>src sc tgt tc i wt' s4 t4.
        container (wt_tabs (hd (worktrees (sampleWorkspace sampleForest)))) (Some ''GA'')
          = Some (src, sc)
      \<and> container (wt_tabs (hd (worktrees (sampleWorkspace sampleForest)))) (Some ''GB'')
          = Some (tgt, tc)
      \<and> findIndex (\<lambda>t. tab_id (own t) = ''X'') src = Some i
      \<and> findWorktree (workspace (moveTab (sampleWorkspace sampleForest) ''wt-1'' ''X''
            (Some ''GA'') (Some ''GB'') 0 ''now'' sampleStored)) ''wt-1'' = Some wt'
      \<and> siblings (wt_tabs wt') (Some ''GA'') = Some s4
      \<and> siblings (wt_tabs wt') (Some ''GB'') = Some t4
      \<and> length s4 + length t4 = length src + length tgt
      \<and> stripPosition (t4 ! spliceStart 0 (length tgt)) = stripPosition (src ! i))"
proof -
  have d: "distinct (allIds (wt_tabs (hd (worktrees (sampleWorkspace sampleForest)))))"
    by (simp add: sample_worktree(2) sampleForest_distinct)
  have ne: "parentKey (Some ''GA'') \<noteq> parentKey (Some ''GB'')"
    by (simp add: parentKey_def truthyStr_def)
  from moveTab_preserves_count_and_payload[OF sample_worktree(1) d sample_move_ok ne]
  show ?thesis using sample_worktree(1) d sample_move_ok ne by blast
qed

text \<open>
  C1 (as amended): after a successful \<^verbatim>\<open>reorderTabs\<close> the reordered container,
  after a successful \<^verbatim>\<open>moveTab\<close> the source and the target container, and after
  a successful \<^verbatim>\<open>deleteTab\<close> of a nested node every group that had the node in
  its subtree and has a non-zero \<^verbatim>\<open>cols\<close>, hold children whose \<^verbatim>\<open>order\<close>
  values are \<open>0, \<dots>, n - 1\<close> in array order. For \<^verbatim>\<open>moveTab\<close> and
  \<^verbatim>\<open>deleteTab\<close> identifiers are pairwise distinct.
\<close>

theorem order_contiguity:
  "(findWorktree wsr wr = Some wtr
      \<and> result (reorderTabs wsr wr P ids nowr configr) = Success ()
    \<longrightarrow> (\<exists>wt' cs. findWorktree (workspace (reorderTabs wsr wr P ids nowr configr)) wr = Some wt'
           \<and> siblings (wt_tabs wt') P = Some cs \<and> contiguous cs))
   \<and> (findWorktree wsm wm = Some wtm \<and> distinct (allIds (wt_tabs wtm))
      \<and> result (moveTab wsm wm x S T k nowm configm) = Success ()
    \<longrightarrow> (\<exists>wt' s4 t4. findWorktree (workspace (moveTab wsm wm x S T k nowm configm)) wm = Some wt'
           \<and> siblings (wt_tabs wt') S = Some s4 \<and> contiguous s4
           \<and> siblings (wt_tabs wt') T = Some t4 \<and> contiguous t4))
   \<and> (findWorktree wsd wd = Some wtd \<and> distinct (allIds (wt_tabs wtd))
      \<and> result (deleteTab wsd wd t nowd configd) = Success ()
      \<and> findTab (wt_tabs wtd) p = Some g \<and> groupTabs g = Some kids \<and> findTab kids t \<noteq> None
      \<and> truthyNum (cols (own g))
    \<longrightarrow> (\<exists>wt' g'. findWorktree (workspace (deleteTab wsd wd t nowd configd)) wd = Some wt'
           \<and> findTab (wt_tabs wt') p = Some g' \<and> contiguous (tabsOr g')))"
proof (intro conjI impI)
  assume "findWorktree wsr wr = Some wtr
      \<and> result (reorderTabs wsr wr P ids nowr configr) = Success ()"
  then show "\<exists>wt' cs. findWorktree (workspace (reorderTabs wsr wr P ids nowr configr)) wr = Some wt'
      \<and> siblings (wt_tabs wt') P = Some cs \<and> contiguous cs"
    using reorderTabs_effect by blast
next
  assume a: "findWorktree wsm wm = Some wtm \<and> distinct (allIds (wt_tabs wtm))
      \<and> result (moveTab wsm wm x S T k nowm configm) = Success ()"
  then have a1: "findWorktree wsm wm = Some wtm" and a2: "distinct (allIds (wt_tabs wtm))"
    and a3: "result (moveTab wsm wm x S T k nowm configm) = Success ()" by simp_all
  from moveTab_effect[OF a1 a2 a3] obtain src sc tgt tc i wt' where
    e: "container (wt_tabs wtm) S = Some (src, sc)"
      "container (wt_tabs wtm) T = Some (tgt, tc)"
      "findWorktree (workspace (moveTab wsm wm x S T k nowm configm)) wm = Some wt'"
      "parentKey S = parentKey T \<longrightarrow>
          siblings (wt_tabs wt') T
            = Some (recalculateTabPositions (spliceIn k (src ! i) (spliceOut i src)) tc)"
      "parentKey S \<noteq> parentKey T \<longrightarrow>
          (\<exists>s4 t4. siblings (wt_tabs wt') S = Some s4 \<and> siblings (wt_tabs wt') T = Some t4
             \<and> map own s4 = map own (recalculateTabPositions (spliceOut i src) sc)
             \<and> map own t4 = map own (recalculateTabPositions (spliceIn k (src ! i) tgt) tc)
             \<and> stripPosition (t4 ! spliceStart k (length tgt)) = stripPosition (src ! i))"
    by blast
  have sib: "parentKey S = parentKey T \<Longrightarrow> siblings (wt_tabs wt') S = siblings (wt_tabs wt') T"
    using siblings_parentKey[of "wt_tabs wt'" S] siblings_parentKey[of "wt_tabs wt'" T] by simp
  have "\<exists>s4 t4. siblings (wt_tabs wt') S = Some s4 \<and> contiguous s4
           \<and> siblings (wt_tabs wt') T = Some t4 \<and> contiguous t4"
  proof (cases "parentKey S = parentKey T")
    case True
    with e(4) sib contiguous_recalculate show ?thesis by simp
  next
    case False
    with e(5) obtain s4 t4 where
      "siblings (wt_tabs wt') S = Some s4" "siblings (wt_tabs wt') T = Some t4"
      "map own s4 = map own (recalculateTabPositions (spliceOut i src) sc)"
      "map own t4 = map own (recalculateTabPositions (spliceIn k (src ! i) tgt) tc)"
      by blast
    then show ?thesis using contiguous_own contiguous_recalculate by blast
  qed
  with e(3) show "\<exists>wt' s4 t4.
      findWorktree (workspace (moveTab wsm wm x S T k nowm configm)) wm = Some wt'
      \<and> siblings (wt_tabs wt') S = Some s4 \<and> contiguous s4
      \<and> siblings (wt_tabs wt') T = Some t4 \<and> contiguous t4" by blast
next
  assume a: "findWorktree wsd wd = Some wtd \<and> distinct (allIds (wt_tabs wtd))
      \<and> result (deleteTab wsd wd t nowd configd) = Success ()
      \<and> findTab (wt_tabs wtd) p = Some g \<and> groupTabs g = Some kids \<and> findTab kids t \<noteq> None
      \<and> truthyNum (cols (own g))"
  then have a1: "findWorktree wsd wd = Some wtd" and a2: "distinct (allIds (wt_tabs wtd))"
    and a3: "result (deleteTab wsd wd t nowd configd) = Success ()"
    and a4: "findTab (wt_tabs wtd) p = Some g" and a5: "groupTabs g = Some kids"
    and a6: "findTab kids t \<noteq> None" and a7: "truthyNum (cols (own g))" by simp_all
  from a1 a3 obtain ts' where r: "removeTabRecursive (wt_tabs wtd) t = Some ts'"
    by (auto simp: deleteTab_def split: option.splits)
  from remove_path(1)[OF r a2 a4 a5 a6] obtain g' cs' where
    g': "findTab ts' p = Some g'" "groupTabs g' = Some (afterRemoval g cs')" by blast
  have "tabsOr g' = recalculateTabPositions cs' (the (cols (own g)))"
    using groupTabs_tabsOr[OF g'(2)] a7 by (simp add: afterRemoval_def)
  then have c: "contiguous (tabsOr g')" by (simp add: contiguous_recalculate)
  have "workspace (deleteTab wsd wd t nowd configd) = (setTabs wsd wd ts')\<lparr>updatedAt := nowd\<rparr>"
    using a1 r by (simp add: deleteTab_def commit_def Let_def)
  then have "findWorktree (workspace (deleteTab wsd wd t nowd configd)) wd
      = Some (wtd\<lparr>wt_tabs := ts'\<rparr>)"
    using workspace_tabs_after[OF a1] by simp
  with g'(1) c show "\<exists>wt' g'.
      findWorktree (workspace (deleteTab wsd wd t nowd configd)) wd = Some wt'
      \<and> findTab (wt_tabs wt') p = Some g' \<and> contiguous (tabsOr g')" by simp
qed

theorem order_contiguity_witness:
  "findWorktree (sampleWorkspace sampleForest) ''wt-1''
     = Some (hd (worktrees (sampleWorkspace sampleForest)))
   \<and> distinct (allIds (wt_tabs (hd (worktrees (sampleWorkspace sampleForest)))))
   \<and> result (reorderTabs (sampleWorkspace sampleForest) ''wt-1'' (Some ''GA'') [''Y'', ''X'']
        ''now'' sampleStored) = Success ()
   \<and> (\<exists>wt' cs. findWorktree (workspace (reorderTabs (sampleWorkspace sampleForest) ''wt-1''
          (Some ''GA'') [''Y'', ''X''] ''now'' sampleStored)) ''wt-1'' = Some wt'
        \<and> siblings (wt_tabs wt') (Some ''GA'') = Some cs \<and> contiguous cs)
   \<and> result (moveTab (sampleWorkspace sampleForest) ''wt-1'' ''X'' (Some ''GA'') (Some ''GB'') 0
        ''now'' sampleStored) = Success ()
   \<and> (\<exists>wt' s4 t4. findWorktree (workspace (moveTab (sampleWorkspace sampleForest) ''wt-1''
          ''X'' (Some ''GA'') (Some ''GB'') 0 ''now'' sampleStored)) ''wt-1'' = Some wt'
        \<and> siblings (wt_tabs wt') (Some ''GA'') = Some s4 \<and> contiguous s4
        \<and> siblings (wt_tabs wt') (Some ''GB'') = Some t4 \<and> contiguous t4)
   \<and> result (deleteTab (sampleWorkspace sampleForest) ''wt-1'' ''X'' ''now'' sampleStored)
       = Success ()
   \<and> findTab (wt_tabs (hd (worktrees (sampleWorkspace sampleForest)))) ''GA''
       = Some (hd sampleForest)
   \<and> groupTabs (hd sampleForest) = Some (tabsOr (hd sampleForest))
   \<and> findTab (tabsOr (hd sampleForest)) ''X'' \<noteq> None
   \<and> truthyNum (cols (own (hd sampleForest)))
   \<and> (\<exists>wt' g'. findWorktree (workspace (deleteTab (sampleWorkspace sampleForest) ''wt-1'' ''X''
          ''now'' sampleStored)) ''wt-1'' = Some wt'
        \<and> findTab (wt_tabs wt') ''GA'' = Some g' \<and> contiguous (tabsOr g'))"
proof -
  let ?ws = "sampleWorkspace sampleForest"
  let ?wt = "hd (worktrees ?ws)"
  have d: "distinct (allIds (wt_tabs ?wt))"
    by (simp add: sample_worktree(2) sampleForest_distinct)
  have r: "result (reorderTabs ?ws ''wt-1'' (Some ''GA'') [''Y'', ''X''] ''now'' sampleStored)
      = Success ()"
    by (simp add: reorderTabs_def sampleForest_def sampleStored_def sample_defs engine_defs
        List.map_filter_def)
  have x: "result (deleteTab ?ws ''wt-1'' ''X'' ''now'' sampleStored) = Success ()"
    by (simp add: deleteTab_def sampleForest_def sampleStored_def sample_defs engine_defs)
  have f: "findTab (wt_tabs ?wt) ''GA'' = Some (hd sampleForest)"
    by (simp add: sample_worktree(2)) (simp add: sampleForest_def sample_defs)
  have g: "groupTabs (hd sampleForest) = Some (tabsOr (hd sampleForest))"
    by (simp add: sampleForest_def sample_defs tabsOr_def)
  have h: "findTab (tabsOr (hd sampleForest)) ''X'' \<noteq> None"
    by (simp add: sampleForest_def sample_defs tabsOr_def)
  have c: "truthyNum (cols (own (hd sampleForest)))"
    by (simp add: sampleForest_def sample_defs truthyNum_def)
  note t = order_contiguity[where wsr = ?ws and wr = "''wt-1''" and wtr = ?wt
      and P = "Some ''GA''" and ids = "[''Y'', ''X'']" and nowr = "''now''"
      and configr = sampleStored
      and wsm = ?ws and wm = "''wt-1''" and wtm = ?wt and x = "''X''" and S = "Some ''GA''"
      and T = "Some ''GB''" and k = 0 and nowm = "''now''" and configm = sampleStored
      and wsd = ?ws and wd = "''wt-1''" and wtd = ?wt and t = "''X''" and nowd = "''now''"
      and configd = sampleStored and p = "''GA''" and g = "hd sampleForest"
      and kids = "tabsOr (hd sampleForest)"]
  show ?thesis
    using t sample_worktree(1)[of sampleForest] d r sample_move_ok x f g h c by blast
qed

text \<open>
  C1 as stated fails on its own scenario: deleting \<open>T1\<close> from the top-level list
  \<open>T1, T2\<close> leaves \<open>T2\<close> with the order 1 it had.
\<close>

theorem deleteTab_top_level_keeps_order:
  "result (deleteTab
       (sampleWorkspace [sampleTab ''T1'' Terminal None (Some (Num 0)) None,
                         sampleTab ''T2'' Terminal None (Some (Num 1)) None])
       ''wt-1'' ''T1'' ''now'' sampleStored) = Success ()
   \<and> map (\<lambda>t. (tab_id (own t), order (own t))) (topTabs (workspace (deleteTab
       (sampleWorkspace [sampleTab ''T1'' Terminal None (Some (Num 0)) None,
                         sampleTab ''T2'' Terminal None (Some (Num 1)) None])
       ''wt-1'' ''T1'' ''now'' sampleStored))) = [(''T2'', Some (Num 1))]"
  by (simp add: deleteTab_def sampleStored_def sample_defs engine_defs)

end
